theory Spec2Isabelle
  imports Complex_Main
begin

text \<open>
  A shallow embedding of the fur renderer's geometry generation: the fin builder
  (\<open>FinGeometry\<close>), the shell builder (\<open>ShellGeometry\<close>), the wind simulation
  (\<open>WindSimulation\<close>) and the parameter setters of the assembly (\<open>FurRenderer\<close>).
  Objects are records, methods are functions from the state before to the state after,
  and loops are recursive functions. The definitions come first, the properties of the
  specification's claims C1 to C10 after them.
\<close>

section \<open>JavaScript numbers and arrays\<close>

text \<open>
  A JavaScript number is modelled as a real or \<open>NaN\<close>. Rounding to binary floating
  point, the two infinities and the sign of zero are outside the model: where JavaScript
  would produce an infinity (a quotient by zero) the model gives \<open>NaN\<close>. Arithmetic
  with \<open>NaN\<close> gives \<open>NaN\<close>, and every comparison with \<open>NaN\<close> is false, as in the
  language.
\<close>

datatype num = Num real | NaN

instantiation num :: "{plus, minus, times, inverse, ord}"
begin

fun plus_num :: "num \<Rightarrow> num \<Rightarrow> num" where
  "plus_num (Num a) (Num b) = Num (a + b)"
| "plus_num _ _ = NaN"

fun minus_num :: "num \<Rightarrow> num \<Rightarrow> num" where
  "minus_num (Num a) (Num b) = Num (a - b)"
| "minus_num _ _ = NaN"

fun times_num :: "num \<Rightarrow> num \<Rightarrow> num" where
  "times_num (Num a) (Num b) = Num (a * b)"
| "times_num _ _ = NaN"

fun divide_num :: "num \<Rightarrow> num \<Rightarrow> num" where
  "divide_num (Num a) (Num b) = (if b = 0 then NaN else Num (a / b))"
| "divide_num _ _ = NaN"

fun inverse_num :: "num \<Rightarrow> num" where
  "inverse_num (Num a) = (if a = 0 then NaN else Num (inverse a))"
| "inverse_num NaN = NaN"

fun less_num :: "num \<Rightarrow> num \<Rightarrow> bool" where
  "less_num (Num a) (Num b) = (a < b)"
| "less_num _ _ = False"

fun less_eq_num :: "num \<Rightarrow> num \<Rightarrow> bool" where
  "less_eq_num (Num a) (Num b) = (a \<le> b)"
| "less_eq_num _ _ = False"

instance ..

end

text \<open>The strict equality \<open>===\<close> on numbers: \<open>NaN\<close> is equal to nothing.\<close>

fun strictEq :: "num \<Rightarrow> num \<Rightarrow> bool" where
  "strictEq (Num a) (Num b) = (a = b)"
| "strictEq _ _ = False"

fun Math_max :: "num \<Rightarrow> num \<Rightarrow> num" where
  "Math_max (Num a) (Num b) = Num (max a b)"
| "Math_max _ _ = NaN"

fun Math_min :: "num \<Rightarrow> num \<Rightarrow> num" where
  "Math_min (Num a) (Num b) = Num (min a b)"
| "Math_min _ _ = NaN"

fun Math_floor :: "num \<Rightarrow> num" where
  "Math_floor (Num a) = Num (of_int \<lfloor>a\<rfloor>)"
| "Math_floor NaN = NaN"

fun Math_abs :: "num \<Rightarrow> num" where
  "Math_abs (Num a) = Num \<bar>a\<bar>"
| "Math_abs NaN = NaN"

fun Math_sin :: "num \<Rightarrow> num" where
  "Math_sin (Num a) = Num (sin a)"
| "Math_sin NaN = NaN"

fun Math_cos :: "num \<Rightarrow> num" where
  "Math_cos (Num a) = Num (cos a)"
| "Math_cos NaN = NaN"

fun Math_exp :: "num \<Rightarrow> num" where
  "Math_exp (Num a) = Num (exp a)"
| "Math_exp NaN = NaN"

fun Math_sqrt :: "num \<Rightarrow> num" where
  "Math_sqrt (Num a) = (if a < 0 then NaN else Num (sqrt a))"
| "Math_sqrt NaN = NaN"

text \<open>
  \<open>Math.pow\<close>: any base to the power 0 is 1; a positive base uses the real power; zero
  to a positive power is 0 (to a negative one an infinity, outside the model); a negative
  base has a power only for an integer exponent.
\<close>

fun Math_pow :: "num \<Rightarrow> num \<Rightarrow> num" where
  "Math_pow (Num a) (Num b) =
     (if b = 0 then Num 1
      else if 0 < a then Num (a powr b)
      else if a = 0 then (if 0 < b then Num 0 else NaN)
      else if b = of_int \<lfloor>b\<rfloor> then Num (a powi \<lfloor>b\<rfloor>)
      else NaN)"
| "Math_pow NaN (Num b) = (if b = 0 then Num 1 else NaN)"
| "Math_pow _ NaN = NaN"

text \<open>
  Reading an array: beyond its end (or at an index that is itself \<open>undefined\<close>) the
  read gives \<open>undefined\<close>, here \<open>None\<close>. A \<open>Float32Array\<close> stores \<open>undefined\<close> as
  \<open>NaN\<close>, and arithmetic turns it into \<open>NaN\<close> too (\<open>toNumber\<close>); a parameter with
  the default value 0 takes 0 for it (\<open>orZero\<close>). A write beyond the end of a typed array
  is ignored, as \<open>xs[i := v]\<close> does.
\<close>

definition rd :: "'a list \<Rightarrow> nat \<Rightarrow> 'a option" where
  "rd xs i = (if i < length xs then Some (xs ! i) else None)"

fun rdAt :: "'a list \<Rightarrow> nat option \<Rightarrow> 'a option" where
  "rdAt xs (Some i) = rd xs i"
| "rdAt xs None = None"

fun toNumber :: "num option \<Rightarrow> num" where
  "toNumber (Some v) = v"
| "toNumber None = NaN"

fun orZero :: "num option \<Rightarrow> num" where
  "orZero (Some v) = v"
| "orZero None = Num 0"

subsection \<open>THREE.Vector3\<close>

text \<open>
  The vector class of the three.js library, with the methods the repository calls.
  \<open>normalize\<close> divides by the length, or by 1 when the length is 0 or \<open>NaN\<close>
  (\<open>this.length() || 1\<close>); \<open>divideScalar s\<close> multiplies by \<open>1 / s\<close>.
\<close>

datatype vec3 = Vector3 (vx: num) (vy: num) (vz: num)

definition newVector3 :: "num option \<Rightarrow> num option \<Rightarrow> num option \<Rightarrow> vec3" where
  "newVector3 a b c = Vector3 (orZero a) (orZero b) (orZero c)"

definition zeroVector :: vec3 where
  "zeroVector = Vector3 (Num 0) (Num 0) (Num 0)"

fun addVectors :: "vec3 \<Rightarrow> vec3 \<Rightarrow> vec3" where
  "addVectors (Vector3 a b c) (Vector3 d e f) = Vector3 (a + d) (b + e) (c + f)"

fun subVectors :: "vec3 \<Rightarrow> vec3 \<Rightarrow> vec3" where
  "subVectors (Vector3 a b c) (Vector3 d e f) = Vector3 (a - d) (b - e) (c - f)"

fun multiplyScalar :: "vec3 \<Rightarrow> num \<Rightarrow> vec3" where
  "multiplyScalar (Vector3 a b c) s = Vector3 (a * s) (b * s) (c * s)"

fun vlength :: "vec3 \<Rightarrow> num" where
  "vlength (Vector3 a b c) = Math_sqrt (a * a + b * b + c * c)"

definition orOne :: "num \<Rightarrow> num" where
  "orOne l = (case l of Num r \<Rightarrow> (if r = 0 then Num 1 else Num r) | NaN \<Rightarrow> Num 1)"

definition divideScalar :: "vec3 \<Rightarrow> num \<Rightarrow> vec3" where
  "divideScalar v s = multiplyScalar v (Num 1 / s)"

definition normalize :: "vec3 \<Rightarrow> vec3" where
  "normalize v = divideScalar v (orOne (vlength v))"

fun cross :: "vec3 \<Rightarrow> vec3 \<Rightarrow> vec3" where
  "cross (Vector3 ax ay az) (Vector3 bx by bz) =
     Vector3 (ay * bz - az * by) (az * bx - ax * bz) (ax * by - ay * bx)"

section \<open>Source meshes\<close>

text \<open>
  A \<open>THREE.BufferGeometry\<close> as the builders read it: its identifier, the flat
  \<open>position\<close> and \<open>normal\<close> arrays (3 numbers per vertex), the optional \<open>uv\<close> array
  (2 per vertex) and the optional triangle index array of unsigned integers. The
  position and normal attributes are present: \<open>ModelLoader.prepareMeshForFur\<close> rejects a
  mesh without positions and computes missing normals before a mesh reaches a builder.
\<close>

record geometry =
  uuid :: string
  position :: "num list"
  normal :: "num list"
  uv :: "num list option"
  index :: "nat list option"

section \<open>FinGeometry\<close>

text \<open>
  The builder's fields. \<open>finMeshes\<close> is only ever emptied by \<open>clearFins\<close>; nothing in
  the class adds to it.
\<close>

record FinGeometry =
  fg_finLength :: num
  fg_finWidth :: num
  fg_edgeThreshold :: num
  fg_maxFinCount :: num
  fg_finMeshes :: "geometry list"
  fg_taperingEnabled :: bool
  fg_taperingIntensity :: num
  fg_taperingCurve :: string
  fg_taperingMethod :: string

definition FinGeometry_constructor :: FinGeometry where
  "FinGeometry_constructor =
     \<lparr> fg_finLength = Num 0.1, fg_finWidth = Num 0.02, fg_edgeThreshold = Num 0.5,
       fg_maxFinCount = Num 2500, fg_finMeshes = [],
       fg_taperingEnabled = True, fg_taperingIntensity = Num 0.7,
       fg_taperingCurve = ''quadratic'', fg_taperingMethod = ''hybrid'' \<rparr>"

text \<open>
  An edge object as \<open>filterUniqueEdges\<close> and \<open>createFinFromEdge\<close> read it: only the
  properties \<open>v0\<close> and \<open>v1\<close>, each \<open>undefined\<close> (\<open>None\<close>) when the object has no such
  property or when the index was read beyond the index array.
\<close>

datatype edge = Edge (edge_v0: "nat option") (edge_v1: "nat option")

text \<open>
  The loop of \<open>extractEdges\<close> over a non-indexed geometry: \<open>i\<close> runs over the
  multiples of 9 below \<open>positions.length\<close>, so \<open>i / 3\<close> is the integer \<open>i div 3\<close>.
  The three objects pushed per triangle are \<open>{ v0, v1 }\<close>, \<open>{ v1, v2 }\<close> and \<open>{ v2, v0 }\<close>,
  written with shorthand properties: the second has the properties \<open>v1\<close> and \<open>v2\<close> and
  no \<open>v0\<close>, the third has \<open>v2\<close> and \<open>v0\<close> and no \<open>v1\<close>. The property \<open>v2\<close> is never read.
\<close>

function nonIndexedEdges :: "nat \<Rightarrow> nat \<Rightarrow> edge list" where
  "nonIndexedEdges i n =
     (if i < n then
        (let v0 = i div 3; v1 = v0 + 1; v2 = v0 + 2
         in [Edge (Some v0) (Some v1), Edge None (Some v1), Edge (Some v0) None])
        @ nonIndexedEdges (i + 9) n
      else [])"
  by pat_completeness auto
termination
  by (relation "measure (\<lambda>(i, n). n - i)") auto

text \<open>
  The loop over an indexed geometry: \<open>i\<close> runs over the multiples of 3, and pushes the same
  three objects.
\<close>

function indexedEdges :: "nat \<Rightarrow> nat list \<Rightarrow> edge list" where
  "indexedEdges i indices =
     (if i < length indices then
        (let v0 = rd indices i; v1 = rd indices (i + 1); v2 = rd indices (i + 2)
         in [Edge v0 v1, Edge None v1, Edge v0 None])
        @ indexedEdges (i + 3) indices
      else [])"
  by pat_completeness auto
termination
  by (relation "measure (\<lambda>(i, indices). length indices - i)") auto

text \<open>
  The key of an edge, smaller index first. The source builds the string
  \<open>`${a}-${b}`\<close>, which determines the pair \<open>(a, b)\<close>; the model keeps the pair.
  \<open>edge.v0 < edge.v1\<close> is false when an index is \<open>undefined\<close>.
\<close>

fun indexLess :: "nat option \<Rightarrow> nat option \<Rightarrow> bool" where
  "indexLess (Some a) (Some b) = (a < b)"
| "indexLess _ _ = False"

definition edgeKey :: "edge \<Rightarrow> nat option \<times> nat option" where
  "edgeKey e =
     (if indexLess (edge_v0 e) (edge_v1 e) then (edge_v0 e, edge_v1 e)
      else (edge_v1 e, edge_v0 e))"

text \<open>The first loop of \<open>filterUniqueEdges\<close>, with its \<open>edgeMap\<close> and \<open>uniqueEdges\<close>.\<close>

fun uniqueEdgesLoop ::
  "edge list \<Rightarrow> (nat option \<times> nat option \<rightharpoonup> bool) \<Rightarrow> edge list \<Rightarrow> edge list" where
  "uniqueEdgesLoop [] edgeMap uniqueEdges = uniqueEdges"
| "uniqueEdgesLoop (e # es) edgeMap uniqueEdges =
     (let key = edgeKey e
      in if edgeMap key = None
         then uniqueEdgesLoop es (edgeMap(key \<mapsto> True)) (uniqueEdges @ [e])
         else uniqueEdgesLoop es edgeMap uniqueEdges)"

text \<open>
  \<open>uniqueEdges.filter((_, index) => index % step === 0)\<close> for an integer \<open>step\<close>:
  the remainder of a non-negative index has the sign of the index, so it is 0 exactly
  when \<open>|step|\<close> divides the index.
\<close>

definition everyStep :: "int \<Rightarrow> 'a list \<Rightarrow> 'a list" where
  "everyStep step xs =
     map snd (filter (\<lambda>(i, _). int i mod \<bar>step\<bar> = 0) (enumerate 0 xs))"

text \<open>
  The cap: the comparison with a \<open>NaN\<close> cap is false. A cap of 0 makes the step an
  infinity and keeps index 0 only, which the quotient and remainder by 0 of HOL give too.
\<close>

definition filterUniqueEdges :: "FinGeometry \<Rightarrow> edge list \<Rightarrow> edge list" where
  "filterUniqueEdges this edges =
     (let uniqueEdges = uniqueEdgesLoop edges Map.empty []
      in case fg_maxFinCount this of
           NaN \<Rightarrow> uniqueEdges
         | Num maxFinCount \<Rightarrow>
             if real (length uniqueEdges) > maxFinCount
             then (let step = \<lfloor>real (length uniqueEdges) / maxFinCount\<rfloor>
                   in everyStep step uniqueEdges)
             else uniqueEdges)"

definition extractEdges :: "FinGeometry \<Rightarrow> geometry \<Rightarrow> edge list" where
  "extractEdges this g =
     (case index g of
        None \<Rightarrow> filterUniqueEdges this (nonIndexedEdges 0 (length (position g)))
      | Some indices \<Rightarrow> filterUniqueEdges this (indexedEdges 0 indices))"

text \<open>
  The geometry of one fin: 6 vertices (two triangles), the flat normal repeated for each,
  the texture coordinates, and the \<open>userData\<close> entries.
\<close>

record finGeometry =
  fin_position :: "num list"
  fin_normal :: "num list"
  fin_uv :: "num list"
  fin_finNormal :: vec3
  fin_tapered :: bool
  fin_taperingScale :: num

definition FinGeometry_calculateTaperingScale :: "FinGeometry \<Rightarrow> num \<Rightarrow> num" where
  "FinGeometry_calculateTaperingScale this normalizedPosition =
     (if \<not> fg_taperingEnabled this \<or> strictEq (fg_taperingIntensity this) (Num 0) then Num 1
      else
        let curveFactor =
              (if fg_taperingCurve this = ''linear'' then normalizedPosition
               else if fg_taperingCurve this = ''quadratic''
                 then normalizedPosition * normalizedPosition
               else if fg_taperingCurve this = ''exponential''
                 then Math_pow normalizedPosition (Num 2.5)
               else normalizedPosition * normalizedPosition);
            taperingAmount = curveFactor * fg_taperingIntensity this
        in Num 1 - taperingAmount)"

text \<open>The three components of vertex \<open>v\<close> in a flat array: \<open>a[v * 3 + k]\<close>.\<close>

definition component :: "num list \<Rightarrow> nat option \<Rightarrow> nat \<Rightarrow> num option" where
  "component a v k = rdAt a (map_option (\<lambda>i. i * 3 + k) v)"

definition vertexAt :: "num list \<Rightarrow> nat option \<Rightarrow> vec3" where
  "vertexAt a v = newVector3 (component a v 0) (component a v 1) (component a v 2)"

definition coords :: "vec3 \<Rightarrow> num list" where
  "coords v = [vx v, vy v, vz v]"

definition createFinFromEdge ::
  "FinGeometry \<Rightarrow> edge \<Rightarrow> num list \<Rightarrow> num list \<Rightarrow> finGeometry" where
  "createFinFromEdge this e positions normals =
     (let v0 = edge_v0 e; v1 = edge_v1 e;
          p0 = vertexAt positions v0;
          p1 = vertexAt positions v1;
          n0 = normalize (vertexAt normals v0);
          n1 = normalize (vertexAt normals v1);
          avgNormal = normalize (addVectors n0 n1);
          base0 = p0;
          base1 = p1;
          topScale = FinGeometry_calculateTaperingScale this (Num 1);
          edgeVector = subVectors p1 p0;
          edgeMidpoint = multiplyScalar (addVectors p0 p1) (Num 0.5);
          topMidpoint = addVectors edgeMidpoint (multiplyScalar avgNormal (fg_finLength this));
          (top0, top1) =
            (if fg_taperingEnabled this \<and> topScale < Num 1
             then (let scaledEdgeVector = multiplyScalar edgeVector (topScale * Num 0.5)
                   in (subVectors topMidpoint scaledEdgeVector,
                       addVectors topMidpoint scaledEdgeVector))
             else (addVectors p0 (multiplyScalar avgNormal (fg_finLength this)),
                   addVectors p1 (multiplyScalar avgNormal (fg_finLength this))));
          vertices = coords base0 @ coords base1 @ coords top0
                   @ coords base1 @ coords top1 @ coords top0;
          finNormal = normalize (cross (subVectors p1 p0) avgNormal);
          finNormals = concat (replicate 6 (coords finNormal));
          uvs = [Num 0, Num 0, Num 1, Num 0, Num 0.25, Num 1,
                 Num 1, Num 0, Num 0.75, Num 1, Num 0.25, Num 1]
      in \<lparr> fin_position = vertices, fin_normal = finNormals, fin_uv = uvs,
           fin_finNormal = finNormal, fin_tapered = fg_taperingEnabled this,
           fin_taperingScale = topScale \<rparr>)"

definition FinGeometry_clearFins :: "FinGeometry \<Rightarrow> FinGeometry" where
  "FinGeometry_clearFins this = this\<lparr>fg_finMeshes := []\<rparr>"

text \<open>
  \<open>generateFins\<close>: the mesh argument is \<open>None\<close> for a missing mesh or a mesh without
  geometry. \<open>createFinFromEdge\<close> always returns a geometry, so every edge gives a fin.
\<close>

definition FinGeometry_generateFins ::
  "FinGeometry \<Rightarrow> geometry option \<Rightarrow> FinGeometry \<times> finGeometry list" where
  "FinGeometry_generateFins this0 baseMesh =
     (let this = FinGeometry_clearFins this0
      in case baseMesh of
           None \<Rightarrow> (this, [])
         | Some g \<Rightarrow>
             (let positions = position g;
                  normals = normal g;
                  edges = extractEdges this g
              in (this, map (\<lambda>e. createFinFromEdge this e positions normals) edges)))"

definition FinGeometry_setFinLength :: "num \<Rightarrow> FinGeometry \<Rightarrow> FinGeometry" where
  "FinGeometry_setFinLength l this = this\<lparr>fg_finLength := Math_max (Num 0) l\<rparr>"

definition FinGeometry_setMaxFinCount :: "num \<Rightarrow> FinGeometry \<Rightarrow> FinGeometry" where
  "FinGeometry_setMaxFinCount count this =
     this\<lparr>fg_maxFinCount := Math_max (Num 200) (Math_min (Num 2000) (Math_floor count))\<rparr>"

definition FinGeometry_setTaperingEnabled :: "bool \<Rightarrow> FinGeometry \<Rightarrow> FinGeometry" where
  "FinGeometry_setTaperingEnabled enabled this = this\<lparr>fg_taperingEnabled := enabled\<rparr>"

definition FinGeometry_setTaperingIntensity :: "num \<Rightarrow> FinGeometry \<Rightarrow> FinGeometry" where
  "FinGeometry_setTaperingIntensity intensity this =
     this\<lparr>fg_taperingIntensity := Math_max (Num 0) (Math_min (Num 1) intensity)\<rparr>"

definition validCurves :: "string list" where
  "validCurves = [''linear'', ''quadratic'', ''exponential'']"

definition validMethods :: "string list" where
  "validMethods = [''centroid'', ''normal'', ''hybrid'']"

definition FinGeometry_setTaperingCurve :: "string \<Rightarrow> FinGeometry \<Rightarrow> FinGeometry" where
  "FinGeometry_setTaperingCurve curve this =
     (if List.member validCurves curve then this\<lparr>fg_taperingCurve := curve\<rparr> else this)"

definition FinGeometry_setTaperingMethod :: "string \<Rightarrow> FinGeometry \<Rightarrow> FinGeometry" where
  "FinGeometry_setTaperingMethod method this =
     (if List.member validMethods method then this\<lparr>fg_taperingMethod := method\<rparr> else this)"

declare nonIndexedEdges.simps [simp del] indexedEdges.simps [simp del]

section \<open>ShellGeometry\<close>

text \<open>
  The \<open>userData\<close> the builder attaches to a shell layer, and a shell layer's geometry:
  its attribute arrays, the index (never set by the builder) and the extra
  \<open>randomizedNormal\<close> attribute.
\<close>

record userData =
  ud_shellLayer :: num
  ud_shellCount :: num
  ud_offsetDistance :: num
  ud_normalizedLayer :: num
  ud_geometricallyIsolated :: bool

record shellGeometry =
  sh_position :: "num list"
  sh_normal :: "num list"
  sh_uv :: "num list option"
  sh_index :: "nat list option"
  sh_randomizedNormal :: "num list option"
  sh_userData :: "userData option"

text \<open>\<open>attributes.position.count\<close>: the array length over the item size 3.\<close>

definition vertexCount :: "shellGeometry \<Rightarrow> num" where
  "vertexCount g = Num (real (length (sh_position g))) / Num 3"

text \<open>
  The pool key is a string built from the fields below, separated by \<open>_\<close>; the model
  keeps the tuple of the fields (the constant suffix \<open>isolated\<close> is left out).
\<close>

type_synonym poolKey = "string \<times> num \<times> num \<times> num \<times> num \<times> bool \<times> num \<times> string \<times> string"

text \<open>
  The builder's fields. The pool is a \<open>Map\<close>, which keeps its entries in insertion
  order: an association list. \<open>sg_disposed\<close> is not a field of the class: it records, in
  order, the geometries on which \<open>dispose()\<close> has been called. The base geometry always
  has normals (see \<open>geometry\<close>), so \<open>computeVertexNormals\<close> is never needed.
\<close>

record ShellGeometry =
  sg_shellCount :: num
  sg_shellSpacing :: num
  sg_maxShellDistance :: num
  sg_taperingEnabled :: bool
  sg_taperingIntensity :: num
  sg_taperingCurve :: string
  sg_taperingMethod :: string
  sg_shellGeometries :: "shellGeometry list"
  sg_baseGeometry :: "geometry option"
  sg_useInstancedGeometry :: bool
  sg_geometryPool :: "(poolKey \<times> shellGeometry list) list"
  sg_disposed :: "shellGeometry list"

definition maxPoolSize :: nat where
  "maxPoolSize = 64"

definition ShellGeometry_constructor :: ShellGeometry where
  "ShellGeometry_constructor =
     \<lparr> sg_shellCount = Num 16, sg_shellSpacing = Num 0.02, sg_maxShellDistance = Num 0.3,
       sg_taperingEnabled = True, sg_taperingIntensity = Num 0.7,
       sg_taperingCurve = ''quadratic'', sg_taperingMethod = ''hybrid'',
       sg_shellGeometries = [], sg_baseGeometry = None,
       sg_useInstancedGeometry = True, sg_geometryPool = [], sg_disposed = [] \<rparr>"

definition clearShells :: "ShellGeometry \<Rightarrow> ShellGeometry" where
  "clearShells this =
     this\<lparr> sg_disposed := sg_disposed this @ sg_shellGeometries this,
           sg_shellGeometries := [] \<rparr>"

definition setShellCount :: "num \<Rightarrow> ShellGeometry \<Rightarrow> ShellGeometry" where
  "setShellCount count this =
     clearShells (this\<lparr>sg_shellCount := Math_max (Num 8) (Math_min (Num 32) (Math_floor count))\<rparr>)"

definition getShellCount :: "ShellGeometry \<Rightarrow> num" where
  "getShellCount this = sg_shellCount this"

definition setShellSpacing :: "num \<Rightarrow> ShellGeometry \<Rightarrow> ShellGeometry" where
  "setShellSpacing spacing this =
     clearShells (this\<lparr>sg_shellSpacing := Math_max (Num 0.001) spacing\<rparr>)"

definition setMaxShellDistance :: "num \<Rightarrow> ShellGeometry \<Rightarrow> ShellGeometry" where
  "setMaxShellDistance distance this =
     clearShells (this\<lparr>sg_maxShellDistance := Math_max (Num 0.01) distance\<rparr>)"

definition setTaperingEnabled :: "bool \<Rightarrow> ShellGeometry \<Rightarrow> ShellGeometry" where
  "setTaperingEnabled enabled this = clearShells (this\<lparr>sg_taperingEnabled := enabled\<rparr>)"

definition setTaperingIntensity :: "num \<Rightarrow> ShellGeometry \<Rightarrow> ShellGeometry" where
  "setTaperingIntensity intensity this =
     clearShells (this\<lparr>sg_taperingIntensity := Math_max (Num 0) (Math_min (Num 1) intensity)\<rparr>)"

definition setTaperingCurve :: "string \<Rightarrow> ShellGeometry \<Rightarrow> ShellGeometry" where
  "setTaperingCurve curve this =
     (if List.member validCurves curve
      then clearShells (this\<lparr>sg_taperingCurve := curve\<rparr>)
      else this)"

definition setTaperingMethod :: "string \<Rightarrow> ShellGeometry \<Rightarrow> ShellGeometry" where
  "setTaperingMethod method this =
     (if List.member validMethods method
      then clearShells (this\<lparr>sg_taperingMethod := method\<rparr>)
      else this)"

definition getShellGeometries :: "ShellGeometry \<Rightarrow> shellGeometry list" where
  "getShellGeometries this = sg_shellGeometries this"

definition ShellGeometry_calculateTaperingScale :: "ShellGeometry \<Rightarrow> num \<Rightarrow> num" where
  "ShellGeometry_calculateTaperingScale this normalizedLayer =
     (if \<not> sg_taperingEnabled this \<or> strictEq (sg_taperingIntensity this) (Num 0) then Num 1
      else
        let curveFactor =
              (if sg_taperingCurve this = ''linear'' then normalizedLayer
               else if sg_taperingCurve this = ''quadratic''
                 then normalizedLayer * normalizedLayer
               else if sg_taperingCurve this = ''exponential''
                 then Math_pow normalizedLayer (Num 2.5)
               else normalizedLayer * normalizedLayer);
            taperingAmount = curveFactor * sg_taperingIntensity this
        in Num 1 - taperingAmount)"

text \<open>
  \<open>for (let i = i0; i < n; i++) body\<close> with a numeric bound \<open>n\<close>: the loops over faces
  compare the counter with a quotient, which need not be an integer.
\<close>

function forLoop :: "nat \<Rightarrow> num \<Rightarrow> (nat \<Rightarrow> 's \<Rightarrow> 's) \<Rightarrow> 's \<Rightarrow> 's" where
  "forLoop i n body s = (if Num (real i) < n then forLoop (i + 1) n body (body i s) else s)"
  by pat_completeness auto
termination
proof (relation "measure (\<lambda>(i, n, body, s). case n of Num r \<Rightarrow> nat \<lceil>r\<rceil> - i | NaN \<Rightarrow> 0)")
  show "wf (measure (\<lambda>(i, n, body, s). case n of Num r \<Rightarrow> nat \<lceil>r\<rceil> - i | NaN \<Rightarrow> 0))"
    by simp
next
  fix i :: nat and n :: num and body :: "nat \<Rightarrow> 's \<Rightarrow> 's" and s :: 's
  assume lt: "Num (real i) < n"
  then obtain r where n: "n = Num r" and ir: "real i < r" by (cases n) simp_all
  from ir have "int i < \<lceil>r\<rceil>" by linarith
  then have "nat \<lceil>r\<rceil> - (i + 1) < nat \<lceil>r\<rceil> - i" by linarith
  then show "((i + 1, n, body, body i s), (i, n, body, s))
      \<in> measure (\<lambda>(i, n, body, s). case n of Num r \<Rightarrow> nat \<lceil>r\<rceil> - i | NaN \<Rightarrow> 0)"
    by (simp add: n)
qed

declare forLoop.simps [simp del]

text \<open>\<open>new Float32Array(n)\<close>: \<open>n\<close> truncated to an integer, all elements 0.\<close>

fun newFloat32Array :: "num \<Rightarrow> num list" where
  "newFloat32Array (Num r) = replicate (nat \<lfloor>r\<rfloor>) (Num 0)"
| "newFloat32Array NaN = []"

text \<open>Component \<open>k\<close> of the texture coordinate of vertex \<open>v\<close>: \<open>a[v * 2 + k]\<close>.\<close>

definition uvComponent :: "num list \<Rightarrow> nat option \<Rightarrow> nat \<Rightarrow> num option" where
  "uvComponent a v k = rdAt a (map_option (\<lambda>i. i * 2 + k) v)"

text \<open>
  The body of the inner loop of \<open>createIndependentGeometry\<close>: vertex \<open>v\<close> of face
  \<open>faceIndex\<close> is copied from the source vertex the index array names.
\<close>

definition copyFaceVertex ::
  "nat list \<Rightarrow> geometry \<Rightarrow> nat \<Rightarrow> nat \<Rightarrow>
   num list \<times> num list \<times> num list option \<Rightarrow> num list \<times> num list \<times> num list option" where
  "copyFaceVertex indexArray base faceIndex v arrays =
     (case arrays of (newPositions, newNormals, newUvs) \<Rightarrow>
        let srcIndex = rd indexArray (faceIndex * 3 + v);
            dstIndex = faceIndex * 3 + v
        in (newPositions
              [dstIndex * 3 := toNumber (component (position base) srcIndex 0),
               dstIndex * 3 + 1 := toNumber (component (position base) srcIndex 1),
               dstIndex * 3 + 2 := toNumber (component (position base) srcIndex 2)],
            newNormals
              [dstIndex * 3 := toNumber (component (normal base) srcIndex 0),
               dstIndex * 3 + 1 := toNumber (component (normal base) srcIndex 1),
               dstIndex * 3 + 2 := toNumber (component (normal base) srcIndex 2)],
            (case (uv base, newUvs) of
               (Some baseUvs, Some uvs) \<Rightarrow>
                 Some (uvs
                   [dstIndex * 2 := toNumber (uvComponent baseUvs srcIndex 0),
                    dstIndex * 2 + 1 := toNumber (uvComponent baseUvs srcIndex 1)])
             | _ \<Rightarrow> newUvs)))"

definition createIndependentGeometry :: "ShellGeometry \<Rightarrow> shellGeometry option" where
  "createIndependentGeometry this =
     (case sg_baseGeometry this of
        None \<Rightarrow> None
      | Some base \<Rightarrow>
          (case index base of
             Some indexArray \<Rightarrow>
               (let faceCount = Num (real (length indexArray)) / Num 3;
                    newVertexCount = faceCount * Num 3;
                    newPositions = newFloat32Array (newVertexCount * Num 3);
                    newNormals = newFloat32Array (newVertexCount * Num 3);
                    newUvs = (case uv base of
                                Some _ \<Rightarrow> Some (newFloat32Array (newVertexCount * Num 2))
                              | None \<Rightarrow> None)
                in case forLoop 0 faceCount
                          (\<lambda>faceIndex. forLoop 0 (Num 3) (copyFaceVertex indexArray base faceIndex))
                          (newPositions, newNormals, newUvs) of
                     (p, n, u) \<Rightarrow>
                       Some \<lparr> sh_position = p, sh_normal = n, sh_uv = u, sh_index = None,
                              sh_randomizedNormal = None, sh_userData = None \<rparr>)
           | None \<Rightarrow>
               Some \<lparr> sh_position = position base, sh_normal = normal base, sh_uv = uv base,
                      sh_index = None, sh_randomizedNormal = None, sh_userData = None \<rparr>))"

definition fract :: "num \<Rightarrow> num" where
  "fract v = v - Math_floor v"

text \<open>The body of the loop over faces in \<open>addRandomizedNormals\<close>.\<close>

definition randomizeFace :: "num list \<Rightarrow> num list \<Rightarrow> nat \<Rightarrow> num list \<Rightarrow> num list" where
  "randomizeFace positionArray normalArray faceIndex randomizedNormals0 =
     (let baseIndex = faceIndex * 9;
          P = (\<lambda>k. toNumber (rd positionArray (baseIndex + k)));
          centroidX = (P 0 + P 3 + P 6) / Num 3;
          centroidY = (P 1 + P 4 + P 7) / Num 3;
          centroidZ = (P 2 + P 5 + P 8) / Num 3;
          seed = centroidX * Num 12.9898 + centroidY * Num 78.233 + centroidZ * Num 37.719;
          random1 = fract (Math_sin seed * Num 43758.5453);
          random2 = fract (Math_sin (seed * Num 1.1) * Num 43758.5453);
          random3 = fract (Math_sin (seed * Num 1.3) * Num 43758.5453);
          randomOffsetX = (random1 * Num 2 - Num 1) * Num 0.3;
          randomOffsetY = (random2 * Num 2 - Num 1) * Num 0.3;
          randomOffsetZ = (random3 * Num 2 - Num 1) * Num 0.3
      in forLoop 0 (Num 3)
           (\<lambda>v randomizedNormals.
              let vIndex = baseIndex + v * 3;
                  nx = toNumber (rd normalArray vIndex);
                  ny = toNumber (rd normalArray (vIndex + 1));
                  nz = toNumber (rd normalArray (vIndex + 2));
                  randomizedNx = nx + randomOffsetX;
                  randomizedNy = ny + randomOffsetY;
                  randomizedNz = nz + randomOffsetZ;
                  len = Math_sqrt (randomizedNx * randomizedNx + randomizedNy * randomizedNy
                                   + randomizedNz * randomizedNz);
                  scaled = (if len > Num 0
                            then (randomizedNx / len, randomizedNy / len, randomizedNz / len)
                            else (randomizedNx, randomizedNy, randomizedNz))
              in case scaled of (rx, ry, rz) \<Rightarrow>
                   randomizedNormals[vIndex := rx, vIndex + 1 := ry, vIndex + 2 := rz])
           randomizedNormals0)"

definition addRandomizedNormals :: "shellGeometry \<Rightarrow> num \<Rightarrow> num \<Rightarrow> shellGeometry" where
  "addRandomizedNormals g layerIndex totalShells =
     (let positionArray = sh_position g;
          normalArray = sh_normal g;
          vertexCount = Num (real (length positionArray)) / Num 3;
          faceCount = vertexCount / Num 3;
          randomizedNormals = newFloat32Array (Num (real (length normalArray)))
      in g\<lparr>sh_randomizedNormal :=
             Some (forLoop 0 faceCount (randomizeFace positionArray normalArray)
                     randomizedNormals)\<rparr>)"

definition applyGeometricIsolationTapering :: "vec3 \<Rightarrow> vec3 \<Rightarrow> num \<Rightarrow> vec3" where
  "applyGeometricIsolationTapering vertex centroid scale =
     (if scale \<ge> Num 1 then vertex
      else
        let toVertex = Vector3 (vx vertex - vx centroid) (vy vertex - vy centroid)
                               (vz vertex - vz centroid)
        in Vector3 (vx centroid + vx toVertex * scale) (vy centroid + vy toVertex * scale)
                   (vz centroid + vz toVertex * scale))"

text \<open>
  \<open>processIndependentFace\<close>: the three vertices of the face are read with their
  normals, moved along the normals, tapered towards the centroid of the moved face, and
  written back.
\<close>

definition processIndependentFace ::
  "ShellGeometry \<Rightarrow> num list \<Rightarrow> nat \<Rightarrow> num \<Rightarrow> num \<Rightarrow> num list \<Rightarrow> num list" where
  "processIndependentFace this normalArray faceIndex offsetDistance taperingScale positionArray =
     (let baseIndex = faceIndex * 9;
          readVertex = (\<lambda>v. let vIndex = baseIndex + v * 3 in
             (Vector3 (toNumber (rd positionArray vIndex))
                      (toNumber (rd positionArray (vIndex + 1)))
                      (toNumber (rd positionArray (vIndex + 2))),
              Vector3 (toNumber (rd normalArray vIndex))
                      (toNumber (rd normalArray (vIndex + 1)))
                      (toNumber (rd normalArray (vIndex + 2)))));
          displace = (\<lambda>(p, n). Vector3 (vx p + vx n * offsetDistance)
                                        (vy p + vy n * offsetDistance)
                                        (vz p + vz n * offsetDistance));
          vertices = map (\<lambda>v. displace (readVertex v)) [0, 1, 2];
          tapered =
            (if sg_taperingEnabled this \<and> taperingScale < Num 1
             then (let centroid =
                         Vector3 ((vx (vertices ! 0) + vx (vertices ! 1) + vx (vertices ! 2)) / Num 3)
                                 ((vy (vertices ! 0) + vy (vertices ! 1) + vy (vertices ! 2)) / Num 3)
                                 ((vz (vertices ! 0) + vz (vertices ! 1) + vz (vertices ! 2)) / Num 3)
                   in map (\<lambda>vertex. applyGeometricIsolationTapering vertex centroid taperingScale)
                        vertices)
             else vertices)
      in forLoop 0 (Num 3)
           (\<lambda>v a. let vIndex = baseIndex + v * 3
                   in a[vIndex := vx (tapered ! v), vIndex + 1 := vy (tapered ! v),
                        vIndex + 2 := vz (tapered ! v)])
           positionArray)"

definition processVerticesWithGeometricIsolation ::
  "ShellGeometry \<Rightarrow> num list \<Rightarrow> num list \<Rightarrow> num \<Rightarrow> num \<Rightarrow> num \<Rightarrow> num list" where
  "processVerticesWithGeometricIsolation this positionArray normalArray offsetDistance
       layerIndex totalShells =
     (let normalizedLayer = layerIndex / totalShells;
          taperingScale = ShellGeometry_calculateTaperingScale this normalizedLayer;
          vertexCount = Num (real (length positionArray)) / Num 3;
          faceCount = vertexCount / Num 3
      in forLoop 0 faceCount
           (\<lambda>faceIndex. processIndependentFace this normalArray faceIndex offsetDistance
                           taperingScale)
           positionArray)"

text \<open>
  \<open>createShellLayer\<close>. The bounding sphere that the source recomputes is derived from
  the positions and is not kept in the model.
\<close>

definition createShellLayer :: "ShellGeometry \<Rightarrow> num \<Rightarrow> num \<Rightarrow> shellGeometry option" where
  "createShellLayer this layerIndex totalShells =
     (case sg_baseGeometry this of
        None \<Rightarrow> None
      | Some _ \<Rightarrow>
          (let normalizedLayer = layerIndex / totalShells;
               nonLinearFactor = Math_pow normalizedLayer (Num 1.2);
               offsetDistance = nonLinearFactor * sg_maxShellDistance this
           in case createIndependentGeometry this of
                None \<Rightarrow> None
              | Some shellGeometry0 \<Rightarrow>
                  (let shellGeometry1 = addRandomizedNormals shellGeometry0 layerIndex totalShells;
                       positions = processVerticesWithGeometricIsolation this
                                     (sh_position shellGeometry1) (sh_normal shellGeometry1)
                                     offsetDistance layerIndex totalShells
                   in Some (shellGeometry1
                        \<lparr> sh_position := positions,
                          sh_userData := Some
                            \<lparr> ud_shellLayer = layerIndex, ud_shellCount = totalShells,
                              ud_offsetDistance = offsetDistance,
                              ud_normalizedLayer = normalizedLayer,
                              ud_geometricallyIsolated = True \<rparr> \<rparr>))))"

definition generatePoolKey :: "ShellGeometry \<Rightarrow> geometry \<Rightarrow> num \<Rightarrow> poolKey" where
  "generatePoolKey this g shellCount =
     (let vertexCount = Num (real (length (position g))) / Num 3;
          geometryId = (if uuid g = [] then ''unknown'' else uuid g)
      in (geometryId, vertexCount, shellCount, sg_shellSpacing this, sg_maxShellDistance this,
          sg_taperingEnabled this, sg_taperingIntensity this, sg_taperingCurve this,
          sg_taperingMethod this))"

text \<open>\<open>Map.set\<close>: an existing key keeps its place, a new key goes to the end.\<close>

fun poolSet ::
  "'k \<Rightarrow> 'v \<Rightarrow> ('k \<times> 'v) list \<Rightarrow> ('k \<times> 'v) list" where
  "poolSet k v [] = [(k, v)]"
| "poolSet k v ((k', v') # rest) =
     (if k' = k then (k, v) # rest else (k', v') # poolSet k v rest)"

text \<open>
  \<open>addToGeometryPool\<close>: a full pool loses its oldest entry, whose geometries are
  disposed; the clones that are stored are equal to the geometries.
\<close>

definition addToGeometryPool ::
  "poolKey \<Rightarrow> shellGeometry list \<Rightarrow> ShellGeometry \<Rightarrow> ShellGeometry" where
  "addToGeometryPool key geometries this =
     (let this1 =
            (if length (sg_geometryPool this) \<ge> maxPoolSize
             then (case sg_geometryPool this of
                     (firstKey, oldGeometries) # rest \<Rightarrow>
                       this\<lparr> sg_disposed := sg_disposed this @ oldGeometries,
                             sg_geometryPool := rest \<rparr>
                   | [] \<Rightarrow> this)
             else this);
          clonedGeometries = geometries
      in this1\<lparr>sg_geometryPool := poolSet key clonedGeometries (sg_geometryPool this1)\<rparr>)"

text \<open>The loop of \<open>generateShells\<close>: \<open>for (let i = 1; i <= effectiveShellCount; i++)\<close>.\<close>

function shellLayersLoop ::
  "ShellGeometry \<Rightarrow> nat \<Rightarrow> num \<Rightarrow> shellGeometry list \<Rightarrow> shellGeometry list" where
  "shellLayersLoop this i effectiveShellCount shellGeometries =
     (if Num (real i) \<le> effectiveShellCount
      then shellLayersLoop this (i + 1) effectiveShellCount
             (case createShellLayer this (Num (real i)) effectiveShellCount of
                Some shellGeometry \<Rightarrow> shellGeometries @ [shellGeometry]
              | None \<Rightarrow> shellGeometries)
      else shellGeometries)"
  by pat_completeness auto
termination
proof (relation "measure (\<lambda>(this, i, n, acc). case n of Num r \<Rightarrow> nat \<lfloor>r\<rfloor> + 1 - i | NaN \<Rightarrow> 0)")
  show "wf (measure (\<lambda>(this, i, n, acc). case n of Num r \<Rightarrow> nat \<lfloor>r\<rfloor> + 1 - i | NaN \<Rightarrow> 0))"
    by simp
next
  fix this :: ShellGeometry and i :: nat and n :: num and acc :: "shellGeometry list"
  assume le: "Num (real i) \<le> n"
  then obtain r where n: "n = Num r" and ir: "real i \<le> r" by (cases n) simp_all
  from ir have "int i \<le> \<lfloor>r\<rfloor>" by linarith
  then have "nat \<lfloor>r\<rfloor> + 1 - (i + 1) < nat \<lfloor>r\<rfloor> + 1 - i" by linarith
  then show "((this, i + 1, n,
        case createShellLayer this (Num (real i)) n of None \<Rightarrow> acc | Some g \<Rightarrow> acc @ [g]),
       (this, i, n, acc))
      \<in> measure (\<lambda>(this, i, n, acc). case n of Num r \<Rightarrow> nat \<lfloor>r\<rfloor> + 1 - i | NaN \<Rightarrow> 0)"
    by (simp add: n)
qed

declare shellLayersLoop.simps [simp del]

text \<open>
  \<open>generateShells\<close>: the mesh argument is \<open>None\<close> for a missing mesh or a mesh without
  geometry. On a pool hit the pooled layers are returned; otherwise the layers are built
  and a copy is put into the pool.
\<close>

definition generateShells ::
  "ShellGeometry \<Rightarrow> geometry option \<Rightarrow> ShellGeometry \<times> shellGeometry list" where
  "generateShells this0 baseMesh =
     (case baseMesh of
        None \<Rightarrow> (this0, [])
      | Some g \<Rightarrow>
          (let this1 = clearShells this0;
               this2 = this1\<lparr>sg_baseGeometry := Some g\<rparr>;
               effectiveShellCount = sg_shellCount this2;
               poolKey = generatePoolKey this2 g effectiveShellCount
           in case map_of (sg_geometryPool this2) poolKey of
                Some pooled \<Rightarrow> (this2\<lparr>sg_shellGeometries := pooled\<rparr>, pooled)
              | None \<Rightarrow>
                  (let layers = shellLayersLoop this2 1 effectiveShellCount
                                  (sg_shellGeometries this2);
                       this3 = this2\<lparr>sg_shellGeometries := layers\<rparr>;
                       this4 = addToGeometryPool poolKey (sg_shellGeometries this3) this3
                   in (this4, sg_shellGeometries this4))))"

section \<open>WindSimulation\<close>

record performanceStats =
  ps_updateCount :: nat
  ps_averageUpdateTime :: num
  ps_lastUpdateDuration :: num

text \<open>
  The fields of the simulation that its methods read or write. The constants
  \<open>updateFrequency\<close>, \<open>lastUpdateTime\<close>, \<open>frameSkipCounter\<close>, \<open>frameSkipThreshold\<close> and
  \<open>qualityLevel\<close> are set by the constructor and used by no computation. The noise
  offsets are drawn at random by the constructor, so they are its parameter.
\<close>

record WindSimulation =
  ws_windDirection :: vec3
  ws_windStrength :: num
  ws_turbulenceIntensity :: num
  ws_turbulenceFrequency :: num
  ws_gustStrength :: num
  ws_gustFrequency :: num
  ws_gustDuration :: num
  ws_windDampening :: num
  ws_windResponsiveness :: num
  ws_windRandomnessIntensity :: num
  ws_animationSpeed :: num
  ws_windEnabled :: bool
  ws_time :: num
  ws_cachedWindForce :: vec3
  ws_cachedTurbulence :: vec3
  ws_cachedGustForce :: vec3
  ws_finalWindVector :: vec3
  ws_deltaTime :: num
  ws_noiseOffset :: vec3
  ws_performanceStats :: performanceStats

definition WindSimulation_constructor :: "vec3 \<Rightarrow> WindSimulation" where
  "WindSimulation_constructor noiseOffset =
     \<lparr> ws_windDirection = Vector3 (Num 0.3) (Num 0.4) (Num 0.7),
       ws_windStrength = Num 1,
       ws_turbulenceIntensity = Num 0.4,
       ws_turbulenceFrequency = Num 2,
       ws_gustStrength = Num 0.5,
       ws_gustFrequency = Num 0.7,
       ws_gustDuration = Num 2,
       ws_windDampening = Num 0.7,
       ws_windResponsiveness = Num 1,
       ws_windRandomnessIntensity = Num 0.3,
       ws_animationSpeed = Num 1,
       ws_windEnabled = True,
       ws_time = Num 0,
       ws_cachedWindForce = zeroVector,
       ws_cachedTurbulence = zeroVector,
       ws_cachedGustForce = zeroVector,
       ws_finalWindVector = zeroVector,
       ws_deltaTime = Num 0,
       ws_noiseOffset = noiseOffset,
       ws_performanceStats =
         \<lparr> ps_updateCount = 0, ps_averageUpdateTime = Num 0, ps_lastUpdateDuration = Num 0 \<rparr> \<rparr>"

definition calculateBaseWindForce :: "WindSimulation \<Rightarrow> WindSimulation" where
  "calculateBaseWindForce this =
     this\<lparr>ws_cachedWindForce := multiplyScalar (ws_windDirection this) (ws_windStrength this)\<rparr>"

definition calculateTurbulenceOctave :: "WindSimulation \<Rightarrow> num \<Rightarrow> num \<Rightarrow> num \<Rightarrow> vec3" where
  "calculateTurbulenceOctave this time frequency amplitude =
     (let t = time * frequency;
          turbX = Math_sin (t + vx (ws_noiseOffset this))
                  * Math_cos (t * Num 1.3 + vx (ws_noiseOffset this) * Num 0.7)
                  * amplitude;
          turbY = Math_sin (t * Num 1.1 + vy (ws_noiseOffset this))
                  * Math_cos (t * Num 0.9 + vy (ws_noiseOffset this) * Num 0.8)
                  * amplitude;
          turbZ = Math_sin (t * Num 0.8 + vz (ws_noiseOffset this))
                  * Math_cos (t * Num 1.2 + vz (ws_noiseOffset this) * Num 0.6)
                  * amplitude
      in Vector3 turbX turbY turbZ)"

definition calculateHighQualityTurbulence :: "num \<Rightarrow> WindSimulation \<Rightarrow> WindSimulation" where
  "calculateHighQualityTurbulence turbTime this =
     (let octave1 = calculateTurbulenceOctave this turbTime (Num 1) (Num 1);
          octave2 = calculateTurbulenceOctave this turbTime (Num 2) (Num 0.5);
          octave3 = calculateTurbulenceOctave this turbTime (Num 4) (Num 0.25)
      in this\<lparr>ws_cachedTurbulence :=
             multiplyScalar (addVectors (addVectors octave1 octave2) octave3)
               (ws_turbulenceIntensity this)\<rparr>)"

definition calculateTurbulence :: "WindSimulation \<Rightarrow> WindSimulation" where
  "calculateTurbulence this =
     (if ws_turbulenceIntensity this \<le> Num 0
      then this\<lparr>ws_cachedTurbulence := zeroVector\<rparr>
      else
        let turbTime = ws_time this * ws_turbulenceFrequency this
        in calculateHighQualityTurbulence turbTime this)"

definition calculateGusts :: "WindSimulation \<Rightarrow> WindSimulation" where
  "calculateGusts this =
     (if ws_gustStrength this \<le> Num 0
      then this\<lparr>ws_cachedGustForce := zeroVector\<rparr>
      else
        let gustTime = ws_time this * ws_gustFrequency this;
            gustCycle = Math_sin gustTime * Num 0.5 + Num 0.5;
            gustEnvelope =
              Math_pow gustCycle (Num 2)
              * Math_exp (Num 0 - Math_abs (Math_sin (gustTime * ws_gustDuration this)) * Num 2);
            gustDirection0 = normalize (ws_windDirection this);
            gustVariation =
              Vector3 (Math_sin (gustTime * Num 2.1) * Num 0.3)
                      (Math_sin (gustTime * Num 1.7) * Num 0.2)
                      (Math_sin (gustTime * Num 2.3) * Num 0.3);
            gustDirection1 = normalize (addVectors gustDirection0 gustVariation);
            gustDirection = multiplyScalar gustDirection1 (gustEnvelope * ws_gustStrength this)
        in this\<lparr>ws_cachedGustForce := gustDirection\<rparr>)"

definition combineFinalWindVector :: "WindSimulation \<Rightarrow> WindSimulation" where
  "combineFinalWindVector this =
     (let v0 = ws_cachedWindForce this;
          v1 = addVectors v0 (ws_cachedTurbulence this);
          v2 = addVectors v1 (ws_cachedGustForce this);
          v3 = multiplyScalar v2 (ws_windDampening this);
          v4 = (if \<not> strictEq (ws_windResponsiveness this) (Num 1)
                then (let responseFactor =
                            Math_min (ws_deltaTime this * ws_windResponsiveness this * Num 10)
                                     (Num 1)
                      in multiplyScalar v3 responseFactor)
                else v3)
      in this\<lparr>ws_finalWindVector := v4\<rparr>)"

definition calculateWindForces :: "WindSimulation \<Rightarrow> WindSimulation" where
  "calculateWindForces this =
     combineFinalWindVector (calculateGusts (calculateTurbulence (calculateBaseWindForce this)))"

definition updatePerformanceStats :: "num \<Rightarrow> WindSimulation \<Rightarrow> WindSimulation" where
  "updatePerformanceStats updateDuration this =
     (let stats = ws_performanceStats this;
          alpha = Num 0.1
      in this\<lparr>ws_performanceStats :=
             \<lparr> ps_updateCount = ps_updateCount stats + 1,
               ps_averageUpdateTime =
                 ps_averageUpdateTime stats * (Num 1 - alpha) + updateDuration * alpha,
               ps_lastUpdateDuration = updateDuration \<rparr>\<rparr>)"

text \<open>
  \<open>update(deltaTime)\<close>. The two readings of \<open>performance.now()\<close> only feed the
  statistics; their difference is the second argument.
\<close>

definition update :: "num \<Rightarrow> num \<Rightarrow> WindSimulation \<Rightarrow> WindSimulation" where
  "update deltaTime updateDuration this =
     (if \<not> ws_windEnabled this
      then this\<lparr>ws_finalWindVector := zeroVector\<rparr>
      else
        let this1 = this\<lparr>ws_deltaTime := deltaTime\<rparr>;
            this2 = this1\<lparr>ws_time := ws_time this1 + deltaTime * ws_animationSpeed this1\<rparr>;
            this3 = calculateWindForces this2
        in updatePerformanceStats updateDuration this3)"

definition getWindVector :: "WindSimulation \<Rightarrow> vec3" where
  "getWindVector this = ws_finalWindVector this"

definition clamp :: "real \<Rightarrow> real \<Rightarrow> num \<Rightarrow> num" where
  "clamp lo hi v = Math_max (Num lo) (Math_min (Num hi) v)"

definition setWindDirectionX :: "num \<Rightarrow> WindSimulation \<Rightarrow> WindSimulation" where
  "setWindDirectionX v this =
     this\<lparr>ws_windDirection :=
       Vector3 (clamp (-1) 1 v) (vy (ws_windDirection this)) (vz (ws_windDirection this))\<rparr>"

definition setWindDirectionY :: "num \<Rightarrow> WindSimulation \<Rightarrow> WindSimulation" where
  "setWindDirectionY v this =
     this\<lparr>ws_windDirection :=
       Vector3 (vx (ws_windDirection this)) (clamp (-1) 1 v) (vz (ws_windDirection this))\<rparr>"

definition setWindDirectionZ :: "num \<Rightarrow> WindSimulation \<Rightarrow> WindSimulation" where
  "setWindDirectionZ v this =
     this\<lparr>ws_windDirection :=
       Vector3 (vx (ws_windDirection this)) (vy (ws_windDirection this)) (clamp (-1) 1 v)\<rparr>"

definition setWindDirection :: "num \<Rightarrow> num \<Rightarrow> num \<Rightarrow> WindSimulation \<Rightarrow> WindSimulation" where
  "setWindDirection a b c this =
     setWindDirectionZ c (setWindDirectionY b (setWindDirectionX a this))"

definition setWindStrength :: "num \<Rightarrow> WindSimulation \<Rightarrow> WindSimulation" where
  "setWindStrength v this = this\<lparr>ws_windStrength := clamp 0 2 v\<rparr>"

definition setTurbulenceIntensity :: "num \<Rightarrow> WindSimulation \<Rightarrow> WindSimulation" where
  "setTurbulenceIntensity v this = this\<lparr>ws_turbulenceIntensity := clamp 0 1 v\<rparr>"

definition setTurbulenceFrequency :: "num \<Rightarrow> WindSimulation \<Rightarrow> WindSimulation" where
  "setTurbulenceFrequency v this = this\<lparr>ws_turbulenceFrequency := clamp 0.1 5 v\<rparr>"

definition setGustStrength :: "num \<Rightarrow> WindSimulation \<Rightarrow> WindSimulation" where
  "setGustStrength v this = this\<lparr>ws_gustStrength := clamp 0 2 v\<rparr>"

definition setGustFrequency :: "num \<Rightarrow> WindSimulation \<Rightarrow> WindSimulation" where
  "setGustFrequency v this = this\<lparr>ws_gustFrequency := clamp 0.1 3 v\<rparr>"

definition setGustDuration :: "num \<Rightarrow> WindSimulation \<Rightarrow> WindSimulation" where
  "setGustDuration v this = this\<lparr>ws_gustDuration := clamp 0.5 5 v\<rparr>"

definition setWindDampening :: "num \<Rightarrow> WindSimulation \<Rightarrow> WindSimulation" where
  "setWindDampening v this = this\<lparr>ws_windDampening := clamp 0.1 1 v\<rparr>"

definition setWindResponsiveness :: "num \<Rightarrow> WindSimulation \<Rightarrow> WindSimulation" where
  "setWindResponsiveness v this = this\<lparr>ws_windResponsiveness := clamp 0.1 3 v\<rparr>"

definition setWindRandomnessIntensity :: "num \<Rightarrow> WindSimulation \<Rightarrow> WindSimulation" where
  "setWindRandomnessIntensity v this = this\<lparr>ws_windRandomnessIntensity := clamp 0 1 v\<rparr>"

definition setAnimationSpeed :: "num \<Rightarrow> WindSimulation \<Rightarrow> WindSimulation" where
  "setAnimationSpeed v this = this\<lparr>ws_animationSpeed := clamp 0.1 3 v\<rparr>"

definition setWindEnabled :: "bool \<Rightarrow> WindSimulation \<Rightarrow> WindSimulation" where
  "setWindEnabled enabled this =
     (let this1 = this\<lparr>ws_windEnabled := enabled\<rparr>
      in if \<not> enabled then this1\<lparr>ws_finalWindVector := zeroVector\<rparr> else this1)"

definition resetToCalm :: "WindSimulation \<Rightarrow> WindSimulation" where
  "resetToCalm this =
     setWindRandomnessIntensity (Num 0)
       (setWindResponsiveness (Num 1)
         (setWindDampening (Num 0.85)
           (setGustStrength (Num 0)
             (setTurbulenceIntensity (Num 0)
               (setWindStrength (Num 0)
                 (setWindDirection (Num 0) (Num 0) (Num 0) this))))))"

text \<open>A run of \<open>update\<close> calls, each with its delta time and measured duration.\<close>

fun updates :: "(num \<times> num) list \<Rightarrow> WindSimulation \<Rightarrow> WindSimulation" where
  "updates [] this = this"
| "updates ((deltaTime, updateDuration) # rest) this =
     updates rest (update deltaTime updateDuration this)"

section \<open>FurRenderer\<close>

text \<open>
  The assembly, as far as geometry generation goes: the two builders, the lists of fin
  and shell meshes (a mesh is kept as its geometry), the fin and shell parameters, and
  the current mesh (its geometry, \<open>None\<close> when there is none). Materials, shader
  uniforms, the scene graph and the meshes' transforms are not modelled; the materials
  are taken to exist (the asynchronous \<open>init\<close> has finished).

  The last four fields are not fields of the class. \<open>fr_disposedFins\<close> and
  \<open>fr_disposedShells\<close> log the geometries on which \<open>clearFins\<close> and \<open>clearShells\<close> call
  \<open>dispose()\<close>; \<open>fr_shellGenerations\<close> and \<open>fr_finGenerations\<close> count the runs of
  \<open>generateShells\<close> and \<open>generateFins\<close> that pass the guard at the top and rebuild the
  geometry.
\<close>

record FurRenderer =
  fr_finGeometry :: FinGeometry
  fr_finMeshes :: "finGeometry list"
  fr_shellGeometry :: ShellGeometry
  fr_shellMeshes :: "shellGeometry list"
  fr_finEnabled :: bool
  fr_finLength :: num
  fr_maxFinCount :: num
  fr_finTaperingEnabled :: bool
  fr_finTaperingIntensity :: num
  fr_finTaperingCurve :: string
  fr_finTaperingMethod :: string
  fr_shellEnabled :: bool
  fr_shellCount :: num
  fr_shellSpacing :: num
  fr_maxShellDistance :: num
  fr_taperingEnabled :: bool
  fr_taperingIntensity :: num
  fr_taperingCurve :: string
  fr_taperingMethod :: string
  fr_currentMesh :: "geometry option"
  fr_disposedFins :: "finGeometry list"
  fr_disposedShells :: "shellGeometry list"
  fr_shellGenerations :: nat
  fr_finGenerations :: nat

definition FurRenderer_constructor :: FurRenderer where
  "FurRenderer_constructor =
     \<lparr> fr_finGeometry = FinGeometry_constructor, fr_finMeshes = [],
       fr_shellGeometry = ShellGeometry_constructor, fr_shellMeshes = [],
       fr_finEnabled = True, fr_finLength = Num 0.05, fr_maxFinCount = Num 5000,
       fr_finTaperingEnabled = True, fr_finTaperingIntensity = Num 0.7,
       fr_finTaperingCurve = ''quadratic'', fr_finTaperingMethod = ''hybrid'',
       fr_shellEnabled = True, fr_shellCount = Num 24, fr_shellSpacing = Num 0.005,
       fr_maxShellDistance = Num 0.1,
       fr_taperingEnabled = True, fr_taperingIntensity = Num 0.7,
       fr_taperingCurve = ''quadratic'', fr_taperingMethod = ''hybrid'',
       fr_currentMesh = None,
       fr_disposedFins = [], fr_disposedShells = [],
       fr_shellGenerations = 0, fr_finGenerations = 0 \<rparr>"

text \<open>
  \<open>clearFins\<close> and \<open>clearShells\<close>: every mesh is removed from the scene and its geometry
  disposed, then the list is emptied.
\<close>

definition FurRenderer_clearFins :: "FurRenderer \<Rightarrow> FurRenderer" where
  "FurRenderer_clearFins this =
     this\<lparr> fr_disposedFins := fr_disposedFins this @ fr_finMeshes this,
           fr_finMeshes := [] \<rparr>"

definition FurRenderer_clearShells :: "FurRenderer \<Rightarrow> FurRenderer" where
  "FurRenderer_clearShells this =
     this\<lparr> fr_disposedShells := fr_disposedShells this @ fr_shellMeshes this,
           fr_shellMeshes := [] \<rparr>"

definition FurRenderer_generateFins :: "FurRenderer \<Rightarrow> FurRenderer" where
  "FurRenderer_generateFins this0 =
     (if fr_currentMesh this0 = None \<or> \<not> fr_finEnabled this0 then this0
      else
        let this = FurRenderer_clearFins this0;
            fg = FinGeometry_setTaperingMethod (fr_finTaperingMethod this)
                   (FinGeometry_setTaperingCurve (fr_finTaperingCurve this)
                     (FinGeometry_setTaperingIntensity (fr_finTaperingIntensity this)
                       (FinGeometry_setTaperingEnabled (fr_finTaperingEnabled this)
                         (FinGeometry_setMaxFinCount (fr_maxFinCount this)
                           (FinGeometry_setFinLength (fr_finLength this)
                             (fr_finGeometry this))))))
        in case FinGeometry_generateFins fg (fr_currentMesh this) of
             (fg', finGeometries) \<Rightarrow>
               this\<lparr> fr_finGeometry := fg',
                     fr_finMeshes := fr_finMeshes this @ finGeometries,
                     fr_finGenerations := fr_finGenerations this + 1 \<rparr>)"

definition FurRenderer_generateShells :: "FurRenderer \<Rightarrow> FurRenderer" where
  "FurRenderer_generateShells this0 =
     (if fr_currentMesh this0 = None \<or> \<not> fr_shellEnabled this0 then this0
      else
        let this = FurRenderer_clearShells this0;
            sg = setTaperingMethod (fr_taperingMethod this)
                   (setTaperingCurve (fr_taperingCurve this)
                     (setTaperingIntensity (fr_taperingIntensity this)
                       (setTaperingEnabled (fr_taperingEnabled this)
                         (setMaxShellDistance (fr_maxShellDistance this)
                           (setShellSpacing (fr_shellSpacing this)
                             (setShellCount (fr_shellCount this)
                               (fr_shellGeometry this)))))))
        in case generateShells sg (fr_currentMesh this) of
             (sg', shellGeometries) \<Rightarrow>
               this\<lparr> fr_shellGeometry := sg',
                     fr_shellMeshes := fr_shellMeshes this @ shellGeometries,
                     fr_shellGenerations := fr_shellGenerations this + 1 \<rparr>)"

definition setMesh :: "geometry option \<Rightarrow> FurRenderer \<Rightarrow> FurRenderer" where
  "setMesh mesh this0 =
     (let this1 = (if fr_currentMesh this0 \<noteq> None
                   then FurRenderer_clearShells (FurRenderer_clearFins this0)
                   else this0);
          this2 = this1\<lparr>fr_currentMesh := mesh\<rparr>
      in if mesh \<noteq> None
         then (let this3 = (if fr_finEnabled this2 then FurRenderer_generateFins this2 else this2)
               in if fr_shellEnabled this3 then FurRenderer_generateShells this3 else this3)
         else this2)"

definition FurRenderer_setFinLength :: "num \<Rightarrow> FurRenderer \<Rightarrow> FurRenderer" where
  "FurRenderer_setFinLength l this0 =
     (let this = this0\<lparr>fr_finLength := Math_max (Num 0) l\<rparr>
      in if fr_finEnabled this \<and> fr_currentMesh this \<noteq> None
         then FurRenderer_generateFins this else this)"

definition FurRenderer_setMaxFinCount :: "num \<Rightarrow> FurRenderer \<Rightarrow> FurRenderer" where
  "FurRenderer_setMaxFinCount count this0 =
     (let this = this0\<lparr>fr_maxFinCount :=
                        Math_max (Num 200) (Math_min (Num 2000) (Math_floor count))\<rparr>
      in if fr_finEnabled this \<and> fr_currentMesh this \<noteq> None
         then FurRenderer_generateFins this else this)"

definition FurRenderer_setShellCount :: "num \<Rightarrow> FurRenderer \<Rightarrow> FurRenderer" where
  "FurRenderer_setShellCount count this0 =
     (let this = this0\<lparr>fr_shellCount :=
                        Math_max (Num 8) (Math_min (Num 32) (Math_floor count))\<rparr>
      in if fr_shellEnabled this \<and> fr_currentMesh this \<noteq> None
         then FurRenderer_generateShells this else this)"

definition FurRenderer_setShellSpacing :: "num \<Rightarrow> FurRenderer \<Rightarrow> FurRenderer" where
  "FurRenderer_setShellSpacing spacing this0 =
     (let this = this0\<lparr>fr_shellSpacing := Math_max (Num 0.001) spacing\<rparr>
      in if fr_shellEnabled this \<and> fr_currentMesh this \<noteq> None
         then FurRenderer_generateShells this else this)"

definition FurRenderer_setMaxShellDistance :: "num \<Rightarrow> FurRenderer \<Rightarrow> FurRenderer" where
  "FurRenderer_setMaxShellDistance distance this0 =
     (let this = this0\<lparr>fr_maxShellDistance := Math_max (Num 0.01) distance\<rparr>
      in if fr_shellEnabled this \<and> fr_currentMesh this \<noteq> None
         then FurRenderer_generateShells this else this)"

definition FurRenderer_setTaperingEnabled :: "bool \<Rightarrow> FurRenderer \<Rightarrow> FurRenderer" where
  "FurRenderer_setTaperingEnabled enabled this0 =
     (let this = this0\<lparr>fr_taperingEnabled := enabled\<rparr>
      in if fr_shellEnabled this \<and> fr_currentMesh this \<noteq> None
         then FurRenderer_generateShells this else this)"

definition FurRenderer_setTaperingIntensity :: "num \<Rightarrow> FurRenderer \<Rightarrow> FurRenderer" where
  "FurRenderer_setTaperingIntensity intensity this0 =
     (let this = this0\<lparr>fr_taperingIntensity := Math_max (Num 0) (Math_min (Num 1) intensity)\<rparr>
      in if fr_shellEnabled this \<and> fr_currentMesh this \<noteq> None
         then FurRenderer_generateShells this else this)"

definition FurRenderer_setTaperingCurve :: "string \<Rightarrow> FurRenderer \<Rightarrow> FurRenderer" where
  "FurRenderer_setTaperingCurve curve this0 =
     (if List.member validCurves curve
      then (let this = this0\<lparr>fr_taperingCurve := curve\<rparr>
            in if fr_shellEnabled this \<and> fr_currentMesh this \<noteq> None
               then FurRenderer_generateShells this else this)
      else this0)"

definition FurRenderer_setTaperingMethod :: "string \<Rightarrow> FurRenderer \<Rightarrow> FurRenderer" where
  "FurRenderer_setTaperingMethod method this0 =
     (if List.member validMethods method
      then (let this = this0\<lparr>fr_taperingMethod := method\<rparr>
            in if fr_shellEnabled this \<and> fr_currentMesh this \<noteq> None
               then FurRenderer_generateShells this else this)
      else this0)"

definition FurRenderer_setFinTaperingEnabled :: "bool \<Rightarrow> FurRenderer \<Rightarrow> FurRenderer" where
  "FurRenderer_setFinTaperingEnabled enabled this0 =
     (let this = this0\<lparr>fr_finTaperingEnabled := enabled\<rparr>
      in if fr_finEnabled this \<and> fr_currentMesh this \<noteq> None
         then FurRenderer_generateFins this else this)"

definition FurRenderer_setFinTaperingIntensity :: "num \<Rightarrow> FurRenderer \<Rightarrow> FurRenderer" where
  "FurRenderer_setFinTaperingIntensity intensity this0 =
     (let this = this0\<lparr>fr_finTaperingIntensity :=
                        Math_max (Num 0) (Math_min (Num 1) intensity)\<rparr>
      in if fr_finEnabled this \<and> fr_currentMesh this \<noteq> None
         then FurRenderer_generateFins this else this)"

definition FurRenderer_setFinTaperingCurve :: "string \<Rightarrow> FurRenderer \<Rightarrow> FurRenderer" where
  "FurRenderer_setFinTaperingCurve curve this0 =
     (if List.member validCurves curve
      then (let this = this0\<lparr>fr_finTaperingCurve := curve\<rparr>
            in if fr_finEnabled this \<and> fr_currentMesh this \<noteq> None
               then FurRenderer_generateFins this else this)
      else this0)"

definition FurRenderer_setFinTaperingMethod :: "string \<Rightarrow> FurRenderer \<Rightarrow> FurRenderer" where
  "FurRenderer_setFinTaperingMethod method this0 =
     (if List.member validMethods method
      then (let this = this0\<lparr>fr_finTaperingMethod := method\<rparr>
            in if fr_finEnabled this \<and> fr_currentMesh this \<noteq> None
               then FurRenderer_generateFins this else this)
      else this0)"

section \<open>Concrete meshes\<close>

text \<open>
  The three edge objects that the loop of \<open>extractEdges\<close> pushes for the triangle on the
  consecutive vertices \<open>a\<close>, \<open>a + 1\<close>, \<open>a + 2\<close>.
\<close>

definition triangleEdges :: "nat \<Rightarrow> edge list" where
  "triangleEdges a = [Edge (Some a) (Some (a + 1)), Edge None (Some (a + 1)), Edge (Some a) None]"

text \<open>
  The unit square in the plane \<open>z = 0\<close> as two triangles that share the diagonal from
  \<open>(0,0,0)\<close> to \<open>(1,1,0)\<close>: once indexed (4 vertices, 6 indices), once non-indexed
  (6 vertices).
\<close>

definition quadIndexed :: geometry where
  "quadIndexed =
     \<lparr> uuid = ''quad-indexed'',
       position = map Num [0,0,0, 1,0,0, 1,1,0, 0,1,0],
       normal = map Num [0,0,1, 0,0,1, 0,0,1, 0,0,1],
       uv = None,
       index = Some [0, 1, 2, 0, 2, 3] \<rparr>"

text \<open>
  The same indexed square with the same two triangles, the second one listed from
  vertex 2: \<open>(2, 3, 0)\<close> instead of \<open>(0, 2, 3)\<close>.
\<close>

definition quadIndexedFrom2 :: geometry where
  "quadIndexedFrom2 =
     \<lparr> uuid = ''quad-indexed-from-2'',
       position = map Num [0,0,0, 1,0,0, 1,1,0, 0,1,0],
       normal = map Num [0,0,1, 0,0,1, 0,0,1, 0,0,1],
       uv = None,
       index = Some [0, 1, 2, 2, 3, 0] \<rparr>"

definition quadNonIndexed :: geometry where
  "quadNonIndexed =
     \<lparr> uuid = ''quad-soup'',
       position = map Num [0,0,0, 1,0,0, 1,1,0,  0,0,0, 1,1,0, 0,1,0],
       normal = map Num [0,0,1, 0,0,1, 0,0,1,  0,0,1, 0,0,1, 0,0,1],
       uv = None,
       index = None \<rparr>"

text \<open>A non-indexed mesh of \<open>F\<close> copies of one triangle.\<close>

definition triangleSoup :: "nat \<Rightarrow> geometry" where
  "triangleSoup F =
     \<lparr> uuid = ''soup'',
       position = concat (replicate F (map Num [0,0,0, 1,0,0, 0,1,0])),
       normal = concat (replicate F (map Num [0,0,1, 0,0,1, 0,0,1])),
       uv = None,
       index = None \<rparr>"

text \<open>
  The unit box as three.js builds it (\<open>new THREE.BoxGeometry(1, 1, 1)\<close>, the built-in
  cube of the model loader): 6 faces with 4 vertices of their own each, 24 vertices and
  12 triangles.
\<close>

definition cubeIndex :: "nat list" where
  "cubeIndex =
     [0, 2, 1, 2, 3, 1,
      4, 6, 5, 6, 7, 5,
      8, 10, 9, 10, 11, 9,
      12, 14, 13, 14, 15, 13,
      16, 18, 17, 18, 19, 17,
      20, 22, 21, 22, 23, 21]"

definition cube :: geometry where
  "cube =
     \<lparr> uuid = ''cube'',
       position = map Num
         [0.5, 0.5, 0.5, 0.5, 0.5, -0.5, 0.5, -0.5, 0.5, 0.5, -0.5, -0.5,
          -0.5, 0.5, -0.5, -0.5, 0.5, 0.5, -0.5, -0.5, -0.5, -0.5, -0.5, 0.5,
          -0.5, 0.5, -0.5, 0.5, 0.5, -0.5, -0.5, 0.5, 0.5, 0.5, 0.5, 0.5,
          -0.5, -0.5, 0.5, 0.5, -0.5, 0.5, -0.5, -0.5, -0.5, 0.5, -0.5, -0.5,
          -0.5, 0.5, 0.5, 0.5, 0.5, 0.5, -0.5, -0.5, 0.5, 0.5, -0.5, 0.5,
          0.5, 0.5, -0.5, -0.5, 0.5, -0.5, 0.5, -0.5, -0.5, -0.5, -0.5, -0.5],
       normal = map Num
         [1, 0, 0, 1, 0, 0, 1, 0, 0, 1, 0, 0,
          -1, 0, 0, -1, 0, 0, -1, 0, 0, -1, 0, 0,
          0, 1, 0, 0, 1, 0, 0, 1, 0, 0, 1, 0,
          0, -1, 0, 0, -1, 0, 0, -1, 0, 0, -1, 0,
          0, 0, 1, 0, 0, 1, 0, 0, 1, 0, 0, 1,
          0, 0, -1, 0, 0, -1, 0, 0, -1, 0, 0, -1],
       uv = Some (map Num
         [0, 1, 1, 1, 0, 0, 1, 0,
          0, 1, 1, 1, 0, 0, 1, 0,
          0, 1, 1, 1, 0, 0, 1, 0,
          0, 1, 1, 1, 0, 0, 1, 0,
          0, 1, 1, 1, 0, 0, 1, 0,
          0, 1, 1, 1, 0, 0, 1, 0]),
       index = Some cubeIndex \<rparr>"

section \<open>Auxiliary notions for the properties\<close>

text \<open>
  The state the calm preset establishes, as far as the wind force depends on it: no
  direction, no strength, no turbulence, no gusts, and a responsiveness of exactly 1.
\<close>

definition calm :: "WindSimulation \<Rightarrow> bool" where
  "calm this =
     (ws_windDirection this = zeroVector \<and> ws_windStrength this = Num 0 \<and>
      ws_turbulenceIntensity this = Num 0 \<and> ws_gustStrength this = Num 0 \<and>
      ws_windDampening this = Num 0.85 \<and> ws_windResponsiveness this = Num 1)"

text \<open>The offset distance that \<open>createShellLayer\<close> records in the layer's \<open>userData\<close>.\<close>

definition layerOffsetDistance :: "ShellGeometry \<Rightarrow> num \<Rightarrow> num \<Rightarrow> num option" where
  "layerOffsetDistance this layerIndex totalShells =
     (case createShellLayer this layerIndex totalShells of
        None \<Rightarrow> None
      | Some layer \<Rightarrow> map_option ud_offsetDistance (sh_userData layer))"

text \<open>
  The curve factor as the specification words it: the position for the linear curve, its
  power 2.5 for the exponential one, and its square for the quadratic curve and for any
  other name.
\<close>

definition curveFactor :: "string \<Rightarrow> real \<Rightarrow> real" where
  "curveFactor curve p =
     (if curve = ''linear'' then p
      else if curve = ''exponential'' then p powr 2.5
      else p * p)"

text \<open>
  The vertices that an index array names, one after the other: for each index \<open>v\<close> the
  \<open>itemSize\<close> numbers \<open>a[v * itemSize + k]\<close>, as a \<open>Float32Array\<close> stores them.
\<close>

definition gatherVertices :: "nat \<Rightarrow> num list \<Rightarrow> nat list \<Rightarrow> num list" where
  "gatherVertices itemSize a indices =
     concat (map (\<lambda>v. map (\<lambda>k. toNumber (rd a (v * itemSize + k))) [0..<itemSize]) indices)"

text \<open>
  The invariant of the copying loop of \<open>createIndependentGeometry\<close> for an index array
  of \<open>3 * F\<close> entries: after \<open>d\<close> vertices, the arrays have their final lengths and
  their first \<open>d\<close> vertices are the first \<open>d\<close> vertices the index array names.
\<close>

definition copiedPrefix ::
  "geometry \<Rightarrow> nat list \<Rightarrow> nat \<Rightarrow> nat \<Rightarrow> num list \<times> num list \<times> num list option \<Rightarrow> bool" where
  "copiedPrefix g idx F d s =
     (case s of (p, n, u) \<Rightarrow>
        length p = 9 * F \<and> length n = 9 * F \<and>
        take (d * 3) p = gatherVertices 3 (position g) (take d idx) \<and>
        take (d * 3) n = gatherVertices 3 (normal g) (take d idx) \<and>
        (case uv g of
           None \<Rightarrow> u = None
         | Some baseUvs \<Rightarrow>
             (case u of
                None \<Rightarrow> False
              | Some a \<Rightarrow> length a = 6 * F \<and>
                          take (d * 2) a = gatherVertices 2 baseUvs (take d idx))))"

text \<open>The three keys of the edge objects of the triangle on the vertices \<open>a\<close>, \<open>a + 1\<close>, \<open>a + 2\<close>.\<close>

definition triangleKey :: "nat \<Rightarrow> nat option \<times> nat option \<Rightarrow> bool" where
  "triangleKey a k \<longleftrightarrow>
     k = (Some a, Some (a + 1)) \<or> k = (Some (a + 1), None) \<or> k = (None, Some a)"

text \<open>
  The fin builder and the shell builder of the assembly once \<open>generateFins\<close> and
  \<open>generateShells\<close> have passed the stored parameters on to them.
\<close>

definition finBuilder :: "FurRenderer \<Rightarrow> FinGeometry" where
  "finBuilder s =
     FinGeometry_setTaperingMethod (fr_finTaperingMethod s)
       (FinGeometry_setTaperingCurve (fr_finTaperingCurve s)
         (FinGeometry_setTaperingIntensity (fr_finTaperingIntensity s)
           (FinGeometry_setTaperingEnabled (fr_finTaperingEnabled s)
             (FinGeometry_setMaxFinCount (fr_maxFinCount s)
               (FinGeometry_setFinLength (fr_finLength s) (fr_finGeometry s))))))"

definition shellBuilder :: "FurRenderer \<Rightarrow> ShellGeometry" where
  "shellBuilder s =
     setTaperingMethod (fr_taperingMethod s)
       (setTaperingCurve (fr_taperingCurve s)
         (setTaperingIntensity (fr_taperingIntensity s)
           (setTaperingEnabled (fr_taperingEnabled s)
             (setMaxShellDistance (fr_maxShellDistance s)
               (setShellSpacing (fr_shellSpacing s)
                 (setShellCount (fr_shellCount s) (fr_shellGeometry s)))))))"

text \<open>One newly built fin for every edge that \<open>extractEdges\<close> returns for the mesh.\<close>

definition builtFins :: "FinGeometry \<Rightarrow> geometry \<Rightarrow> finGeometry list" where
  "builtFins builder g =
     map (\<lambda>e. createFinFromEdge builder e (position g) (normal g)) (extractEdges builder g)"

text \<open>
  The layers of a builder for a mesh: the pooled layers when the pool has the key of the
  mesh and the builder's parameters, and otherwise the layers that \<open>createShellLayer\<close>
  builds for the layer indices from 1 up to the shell count.
\<close>

definition pooledOrBuiltLayers :: "ShellGeometry \<Rightarrow> geometry \<Rightarrow> shellGeometry list" where
  "pooledOrBuiltLayers builder g =
     (case map_of (sg_geometryPool builder) (generatePoolKey builder g (sg_shellCount builder)) of
        Some pooled \<Rightarrow> pooled
      | None \<Rightarrow>
          shellLayersLoop (builder\<lparr>sg_baseGeometry := Some g\<rparr>) 1 (sg_shellCount builder) [])"

text \<open>
  The fins of the assembly \<open>t\<close> are the regenerated fins of the assembly \<open>s\<close> with the
  mesh \<open>g\<close>: the fins of \<open>s\<close> have been disposed, the fin builder carries the parameters
  stored in \<open>s\<close>, the fin list holds the fins newly built with them, one more run of
  \<open>generateFins\<close> is counted, and nothing else has changed.
\<close>

definition finsRegenerated :: "geometry \<Rightarrow> FurRenderer \<Rightarrow> FurRenderer \<Rightarrow> bool" where
  "finsRegenerated g s t \<longleftrightarrow>
     fr_disposedFins t = fr_disposedFins s @ fr_finMeshes s \<and>
     fr_finGeometry t = FinGeometry_clearFins (finBuilder s) \<and>
     fr_finMeshes t = builtFins (finBuilder s) g \<and>
     fr_finGenerations t = fr_finGenerations s + 1 \<and>
     t = s\<lparr> fr_finGeometry := fr_finGeometry t, fr_finMeshes := fr_finMeshes t,
            fr_disposedFins := fr_disposedFins t, fr_finGenerations := fr_finGenerations t \<rparr>"

text \<open>
  The shells of the assembly \<open>t\<close> are the regenerated shells of the assembly \<open>s\<close> with the
  mesh \<open>g\<close>: the shell geometries of \<open>s\<close> have been disposed, by the assembly and (the
  builder's generated layers) by the builder; the builder is the result of
  \<open>generateShells\<close> with the parameters stored in \<open>s\<close>; the shell list holds the builder's
  current layers, which are the pooled or newly built layers for these parameters; one
  more run of \<open>generateShells\<close> is counted, and nothing else has changed.
\<close>

definition shellsRegenerated :: "geometry \<Rightarrow> FurRenderer \<Rightarrow> FurRenderer \<Rightarrow> bool" where
  "shellsRegenerated g s t \<longleftrightarrow>
     fr_disposedShells t = fr_disposedShells s @ fr_shellMeshes s \<and>
     take (length (sg_disposed (fr_shellGeometry s) @ sg_shellGeometries (fr_shellGeometry s)))
          (sg_disposed (fr_shellGeometry t))
       = sg_disposed (fr_shellGeometry s) @ sg_shellGeometries (fr_shellGeometry s) \<and>
     fr_shellGeometry t = fst (generateShells (shellBuilder s) (Some g)) \<and>
     fr_shellMeshes t = sg_shellGeometries (fr_shellGeometry t) \<and>
     fr_shellMeshes t = pooledOrBuiltLayers (shellBuilder s) g \<and>
     fr_shellGenerations t = fr_shellGenerations s + 1 \<and>
     t = s\<lparr> fr_shellGeometry := fr_shellGeometry t, fr_shellMeshes := fr_shellMeshes t,
            fr_disposedShells := fr_disposedShells t,
            fr_shellGenerations := fr_shellGenerations t \<rparr>"

text \<open>
  What a setter that has stored its value leaves behind: \<open>s\<close> is the assembly with the
  value stored, \<open>t\<close> the assembly after the call. With the geometry enabled and a mesh
  set the geometry has been regenerated; otherwise storing the value was all.
\<close>

definition finSetterOutcome :: "FurRenderer \<Rightarrow> FurRenderer \<Rightarrow> bool" where
  "finSetterOutcome s t =
     (case fr_currentMesh s of
        Some g \<Rightarrow> if fr_finEnabled s then finsRegenerated g s t else t = s
      | None \<Rightarrow> t = s)"

definition shellSetterOutcome :: "FurRenderer \<Rightarrow> FurRenderer \<Rightarrow> bool" where
  "shellSetterOutcome s t =
     (case fr_currentMesh s of
        Some g \<Rightarrow> if fr_shellEnabled s then shellsRegenerated g s t else t = s
      | None \<Rightarrow> t = s)"

text \<open>
  The assembly that has been given the indexed quad as its first mesh, and what it
  holds: the fin builder and the shell builder with the parameters the assembly's
  constructor stores, the shell layers that this shell builder, its pool still empty,
  builds for the quad, and their key in the pool.
\<close>

definition quadAssembly :: FurRenderer where
  "quadAssembly = setMesh (Some quadIndexed) FurRenderer_constructor"

definition quadFinBuilder :: FinGeometry where
  "quadFinBuilder =
     FinGeometry_constructor\<lparr>fg_finLength := Num 0.05, fg_maxFinCount := Num 2000\<rparr>"

definition quadShellBuilder :: ShellGeometry where
  "quadShellBuilder =
     ShellGeometry_constructor
       \<lparr>sg_shellCount := Num 24, sg_shellSpacing := Num 0.005, sg_maxShellDistance := Num 0.1\<rparr>"

definition quadLayers :: "shellGeometry list" where
  "quadLayers = pooledOrBuiltLayers quadShellBuilder quadIndexed"

definition quadKey :: poolKey where
  "quadKey = generatePoolKey quadShellBuilder quadIndexed (Num 24)"

section \<open>Properties\<close>

subsection \<open>Edges and fins\<close>

lemma uniqueEdgesLoop_new:
  "m (edgeKey e) = None \<Longrightarrow>
   uniqueEdgesLoop (e # es) m u = uniqueEdgesLoop es (m(edgeKey e \<mapsto> True)) (u @ [e])"
  by (simp add: Let_def)

lemma uniqueEdgesLoop_old:
  "m (edgeKey e) \<noteq> None \<Longrightarrow> uniqueEdgesLoop (e # es) m u = uniqueEdgesLoop es m u"
  by (cases "m (edgeKey e)") (simp_all add: Let_def)

lemma dom_keys_upd:
  "dom m = edgeKey ` set u \<Longrightarrow> dom (m(edgeKey e \<mapsto> True)) = edgeKey ` set (u @ [e])"
  by auto

lemma uniqueEdgesLoop_keys:
  "dom m = edgeKey ` set u \<Longrightarrow>
   edgeKey ` set (uniqueEdgesLoop es m u) = edgeKey ` set u \<union> edgeKey ` set es"
proof (induction es arbitrary: m u)
  case Nil
  then show ?case by simp
next
  case (Cons e es)
  show ?case
  proof (cases "m (edgeKey e) = None")
    case True
    have "edgeKey ` set (uniqueEdgesLoop es (m(edgeKey e \<mapsto> True)) (u @ [e]))
          = edgeKey ` set (u @ [e]) \<union> edgeKey ` set es"
      by (rule Cons.IH[OF dom_keys_upd[OF Cons.prems]])
    also have "\<dots> = edgeKey ` set u \<union> edgeKey ` set (e # es)" by auto
    finally show ?thesis unfolding uniqueEdgesLoop_new[of m e es u, OF True] .
  next
    case False
    then have "edgeKey e \<in> dom m" by (simp add: domIff)
    then have in_u: "edgeKey e \<in> edgeKey ` set u" using Cons.prems by simp
    have "edgeKey ` set (uniqueEdgesLoop es m u) = edgeKey ` set u \<union> edgeKey ` set es"
      by (rule Cons.IH[OF Cons.prems])
    also have "\<dots> = edgeKey ` set u \<union> edgeKey ` set (e # es)" using in_u by auto
    finally show ?thesis unfolding uniqueEdgesLoop_old[of m e es u, OF False] .
  qed
qed

lemma uniqueEdgesLoop_distinct:
  "dom m = edgeKey ` set u \<Longrightarrow> distinct (map edgeKey u) \<Longrightarrow>
   distinct (map edgeKey (uniqueEdgesLoop es m u))"
proof (induction es arbitrary: m u)
  case Nil
  then show ?case by simp
next
  case (Cons e es)
  show ?case
  proof (cases "m (edgeKey e) = None")
    case True
    then have "edgeKey e \<notin> dom m" by (simp add: domIff)
    then have "edgeKey e \<notin> edgeKey ` set u" using Cons.prems(1) by simp
    then have "distinct (map edgeKey (u @ [e]))" using Cons.prems(2) by simp
    from Cons.IH[OF dom_keys_upd[OF Cons.prems(1)] this]
    show ?thesis unfolding uniqueEdgesLoop_new[of m e es u, OF True] .
  next
    case False
    from Cons.IH[OF Cons.prems] show ?thesis unfolding uniqueEdgesLoop_old[of m e es u, OF False] .
  qed
qed

lemma uniqueEdgesLoop_id:
  "dom m = edgeKey ` set u \<Longrightarrow> distinct (map edgeKey (u @ es)) \<Longrightarrow>
   uniqueEdgesLoop es m u = u @ es"
proof (induction es arbitrary: m u)
  case Nil
  then show ?case by simp
next
  case (Cons e es)
  have "edgeKey e \<notin> edgeKey ` set u" using Cons.prems(2) by auto
  then have "edgeKey e \<notin> dom m" using Cons.prems(1) by simp
  then have n: "m (edgeKey e) = None" by (simp add: domIff)
  have "distinct (map edgeKey ((u @ [e]) @ es))" using Cons.prems(2) by simp
  then have "uniqueEdgesLoop es (m(edgeKey e \<mapsto> True)) (u @ [e]) = (u @ [e]) @ es"
    by (rule Cons.IH[OF dom_keys_upd[OF Cons.prems(1)]])
  also have "\<dots> = u @ e # es" by simp
  finally show ?case unfolding uniqueEdgesLoop_new[of m e es u, OF n] .
qed

lemma nonIndexedEdges_step:
  "i < n \<Longrightarrow> nonIndexedEdges i n = triangleEdges (i div 3) @ nonIndexedEdges (i + 9) n"
  by (subst nonIndexedEdges.simps) (simp add: Let_def triangleEdges_def)

lemma nonIndexedEdges_stop: "\<not> i < n \<Longrightarrow> nonIndexedEdges i n = []"
  by (subst nonIndexedEdges.simps) simp

lemma triangleEdges_keys:
  "map edgeKey (triangleEdges a) = [(Some a, Some (a + 1)), (Some (a + 1), None), (None, Some a)]"
  by (simp add: triangleEdges_def edgeKey_def)

lemma nonIndexedEdges_lower:
  "k \<in> set (map edgeKey (nonIndexedEdges i n)) \<Longrightarrow> \<exists>a. triangleKey a k \<and> i div 3 \<le> a"
proof (induction i n rule: nonIndexedEdges.induct)
  case (1 i n)
  show ?case
  proof (cases "i < n")
    case True
    from "1.prems" have "k \<in> set (map edgeKey (triangleEdges (i div 3))) \<or> k \<in> set (map edgeKey (nonIndexedEdges (i + 9) n))"
      unfolding nonIndexedEdges_step[OF True] by auto
    then show ?thesis
    proof
      assume "k \<in> set (map edgeKey (triangleEdges (i div 3)))"
      then have "triangleKey (i div 3) k" unfolding triangleEdges_keys triangleKey_def by auto
      then show ?thesis by blast
    next
      assume "k \<in> set (map edgeKey (nonIndexedEdges (i + 9) n))"
      from "1.IH"[OF True this] obtain a where a: "triangleKey a k" "(i + 9) div 3 \<le> a" by blast
      have "i div 3 \<le> a" using a(2) by linarith
      with a(1) show ?thesis by blast
    qed
  next
    case False
    with "1.prems" show ?thesis by (simp add: nonIndexedEdges_stop)
  qed
qed

lemma nonIndexedEdges_distinct: "distinct (map edgeKey (nonIndexedEdges i n))"
proof (induction i n rule: nonIndexedEdges.induct)
  case (1 i n)
  show ?case
  proof (cases "i < n")
    case True
    have d1: "distinct (map edgeKey (triangleEdges (i div 3)))"
      unfolding triangleEdges_keys by simp
    have d2: "distinct (map edgeKey (nonIndexedEdges (i + 9) n))" using "1.IH"[OF True] .
    have disj: "set (map edgeKey (triangleEdges (i div 3))) \<inter> set (map edgeKey (nonIndexedEdges (i + 9) n)) = {}"
    proof (rule ccontr)
      assume "\<not> ?thesis"
      then obtain k where k1: "k \<in> set (map edgeKey (triangleEdges (i div 3)))"
        and k2: "k \<in> set (map edgeKey (nonIndexedEdges (i + 9) n))" by blast
      from nonIndexedEdges_lower[OF k2] obtain a where a: "triangleKey a k" "(i + 9) div 3 \<le> a" by blast
      have "i div 3 + 3 \<le> a" using a(2) by linarith
      then have "i div 3 \<noteq> a" by simp
      moreover from k1 have "triangleKey (i div 3) k" unfolding triangleEdges_keys triangleKey_def by auto
      ultimately show False using a(1) unfolding triangleKey_def by auto
    qed
    show ?thesis unfolding nonIndexedEdges_step[OF True] map_append distinct_append
      using d1 d2 disj by blast
  next
    case False
    then show ?thesis by (simp add: nonIndexedEdges_stop)
  qed
qed

lemma nonIndexedEdges_length: "length (nonIndexedEdges i n) = 3 * ((n - i + 8) div 9)"
proof (induction i n rule: nonIndexedEdges.induct)
  case (1 i n)
  show ?case
  proof (cases "i < n")
    case True
    have eq: "(n - i + 8) div 9 = Suc ((n - (i + 9) + 8) div 9)"
    proof (cases "i + 9 \<le> n")
      case True
      then have "n - i + 8 = (n - (i + 9) + 8) + 9" by simp
      then show ?thesis by (metis div_add_self2 zero_neq_numeral Suc_eq_plus1)
    next
      case False
      with \<open>i < n\<close> have "9 \<le> n - i + 8" "n - i + 8 < 18" "n - (i + 9) = 0" by simp_all
      then show ?thesis by simp
    qed
    have len: "length (nonIndexedEdges i n) = 3 + length (nonIndexedEdges (i + 9) n)"
      unfolding nonIndexedEdges_step[OF True] by (simp add: triangleEdges_def)
    show ?thesis unfolding len "1.IH"[OF True] eq by simp
  next
    case False
    then show ?thesis by (simp add: nonIndexedEdges_stop)
  qed
qed

lemma everyStep_one: "everyStep 1 xs = xs"
  by (simp add: everyStep_def case_prod_unfold map_snd_enumerate)

lemma indexedEdges_step:
  "i < length indices \<Longrightarrow> indexedEdges i indices =
     [Edge (rd indices i) (rd indices (i + 1)), Edge None (rd indices (i + 1)),
      Edge (rd indices i) None] @ indexedEdges (i + 3) indices"
  by (subst indexedEdges.simps) (simp add: Let_def)

lemma indexedEdges_stop: "\<not> i < length indices \<Longrightarrow> indexedEdges i indices = []"
  by (subst indexedEdges.simps) simp

lemma nonIndexedEdges_triangles:
  "t \<le> F \<Longrightarrow> nonIndexedEdges (9 * t) (9 * F) = concat (map (\<lambda>k. triangleEdges (3 * k)) [t..<F])"
proof (induction "F - t" arbitrary: t)
  case 0
  then show ?case by (simp add: nonIndexedEdges_stop)
next
  case (Suc d)
  then have lt: "t < F" by simp
  have ih: "nonIndexedEdges (9 * Suc t) (9 * F) = concat (map (\<lambda>k. triangleEdges (3 * k)) [Suc t..<F])"
    by (rule Suc.hyps(1)) (use Suc.hyps(2) Suc.prems lt in simp_all)
  have e: "9 * t + 9 = 9 * Suc t" by simp
  have u: "[t..<F] = t # [Suc t..<F]" using lt by (rule upt_conv_Cons)
  have s: "nonIndexedEdges (9 * t) (9 * F) = triangleEdges (9 * t div 3) @ nonIndexedEdges (9 * t + 9) (9 * F)"
    by (rule nonIndexedEdges_step) (use lt in simp)
  have d3: "9 * t div 3 = 3 * t" by simp
  show ?case unfolding s e ih u d3 by simp
qed

lemma uniqueEdges_nonIndexed:
  "uniqueEdgesLoop (nonIndexedEdges i n) Map.empty [] = nonIndexedEdges i n"
  using uniqueEdgesLoop_id[of Map.empty "[]" "nonIndexedEdges i n"] nonIndexedEdges_distinct[of i n]
  by simp

lemma quadIndexed_edges:
  "extractEdges FinGeometry_constructor quadIndexed =
     [Edge (Some 0) (Some 1), Edge None (Some 1), Edge (Some 0) None,
      Edge (Some 0) (Some 2), Edge None (Some 2)]"
  by code_simp

lemma quadIndexedFrom2_edges:
  "extractEdges FinGeometry_constructor quadIndexedFrom2 =
     [Edge (Some 0) (Some 1), Edge None (Some 1), Edge (Some 0) None,
      Edge (Some 2) (Some 3), Edge None (Some 3), Edge (Some 2) None]"
  by code_simp

lemma quadNonIndexed_edges:
  "extractEdges FinGeometry_constructor quadNonIndexed =
     [Edge (Some 0) (Some 1), Edge None (Some 1), Edge (Some 0) None,
      Edge (Some 3) (Some 4), Edge None (Some 4), Edge (Some 3) None]"
  by code_simp

lemma generateFins_length:
  "length (snd (FinGeometry_generateFins this (Some g))) = length (extractEdges this g)"
  by (simp add: FinGeometry_generateFins_def FinGeometry_clearFins_def Let_def extractEdges_def
      filterUniqueEdges_def split: option.splits)

lemma triangleSoup_length: "length (position (triangleSoup F)) = 9 * F"
  by (induction F) (simp_all add: triangleSoup_def)

lemma triangleSoup_index: "index (triangleSoup F) = None"
  by (simp add: triangleSoup_def)

lemma soup_edges:
  "extractEdges (FinGeometry_setMaxFinCount (Num 200) FinGeometry_constructor) (triangleSoup 67)
     = nonIndexedEdges 0 603"
  by (simp add: extractEdges_def triangleSoup_length triangleSoup_index filterUniqueEdges_def
      uniqueEdges_nonIndexed
      FinGeometry_setMaxFinCount_def FinGeometry_constructor_def nonIndexedEdges_length Let_def
      everyStep_one)

text \<open>
  What the stride does: above the cap, \<open>filterUniqueEdges\<close> keeps the unique edges
  whose position is a multiple of the step, in their order.
\<close>

lemma filter_zip_swap:
  "length is = length xs \<Longrightarrow>
   map snd (filter (\<lambda>(i, _). P i) (zip is xs)) = map fst (filter (\<lambda>p. P (snd p)) (zip xs is))"
  by (induction "is" xs rule: list_induct2) auto

lemma everyStep_nths: "everyStep step xs = nths xs {i. int i mod \<bar>step\<bar> = 0}"
  unfolding everyStep_def nths_def enumerate_eq_zip
  using filter_zip_swap[of "[0..<length xs]" xs "\<lambda>i. int i mod \<bar>step\<bar> = 0"]
  by simp

lemma filterUniqueEdges_stride:
  assumes "fg_maxFinCount this = Num m" "m < real (length (uniqueEdgesLoop es Map.empty []))"
  shows "filterUniqueEdges this es
         = nths (uniqueEdgesLoop es Map.empty [])
             {i. int i mod \<bar>\<lfloor>real (length (uniqueEdgesLoop es Map.empty [])) / m\<rfloor>\<bar> = 0}"
  using assms by (simp add: filterUniqueEdges_def Let_def everyStep_nths)

text \<open>
  With more unique edges than the cap but fewer than twice the cap, the step is 1 and
  every unique edge is kept.
\<close>

lemma filterUniqueEdges_below_twice_cap:
  assumes "fg_maxFinCount this = Num m"
    and "m < real (length (uniqueEdgesLoop es Map.empty []))"
    and "real (length (uniqueEdgesLoop es Map.empty [])) < 2 * m"
  shows "filterUniqueEdges this es = uniqueEdgesLoop es Map.empty []"
proof -
  let ?L = "real (length (uniqueEdgesLoop es Map.empty []))"
  have m: "0 < m" using assms(2,3) by linarith
  have "1 \<le> ?L / m" "?L / m < 2" using assms(2,3) m by (simp_all add: field_simps)
  then have "\<lfloor>?L / m\<rfloor> = 1" by linarith
  then show ?thesis using assms(1,2) by (simp add: filterUniqueEdges_def Let_def everyStep_one)
qed

text \<open>
  C1. The builder documents \<open>maxFinCount\<close> as the maximum number of fins, and the stride
  \<open>floor(count / maxFinCount)\<close> is meant to enforce it. With the cap set to 200 and a
  non-indexed mesh of 67 triangles there are 201 unique edges, the stride is 1, and
  \<open>generateFins\<close> returns 201 fins: more than the cap.
\<close>

theorem fin_cap_exceeded:
  "fg_maxFinCount (FinGeometry_setMaxFinCount (Num 200) FinGeometry_constructor) = Num 200 \<and>
   length (snd (FinGeometry_generateFins
                  (FinGeometry_setMaxFinCount (Num 200) FinGeometry_constructor)
                  (Some (triangleSoup 67)))) = 201"
  by (simp add: generateFins_length soup_edges nonIndexedEdges_length)
     (simp add: FinGeometry_setMaxFinCount_def FinGeometry_constructor_def)


text \<open>
  C3. The comments of the code announce a key with the smaller index first and the
  removal of duplicate edges, but of the three objects pushed per triangle only the first
  has both properties \<open>v0\<close> and \<open>v1\<close>: the other two are keyed \<open>v1-undefined\<close> and
  \<open>undefined-v0\<close>. For the indexed quad whose triangles \<open>(0, 1, 2)\<close> and \<open>(2, 3, 0)\<close> share
  the diagonal between the vertices 0 and 2, the six objects have six different keys,
  nothing is merged, and \<open>generateFins\<close> returns 6 fins, not 5. When the second triangle
  is listed as \<open>(0, 2, 3)\<close> five objects are kept, but the one dropped is the edge from
  vertex 3 to vertex 0, and the diagonal is kept twice. The non-indexed quad gives 6.
\<close>

theorem shared_diagonal_not_merged:
  "index quadIndexedFrom2 = Some [0, 1, 2, 2, 3, 0] \<and>
   indexedEdges 0 [0, 1, 2, 2, 3, 0] =
     [Edge (Some 0) (Some 1), Edge None (Some 1), Edge (Some 0) None,
      Edge (Some 2) (Some 3), Edge None (Some 3), Edge (Some 2) None] \<and>
   map edgeKey (indexedEdges 0 [0, 1, 2, 2, 3, 0]) =
     [(Some 0, Some 1), (Some 1, None), (None, Some 0),
      (Some 2, Some 3), (Some 3, None), (None, Some 2)] \<and>
   extractEdges FinGeometry_constructor quadIndexedFrom2 = indexedEdges 0 [0, 1, 2, 2, 3, 0] \<and>
   length (snd (FinGeometry_generateFins FinGeometry_constructor (Some quadIndexedFrom2))) = 6 \<and>
   extractEdges FinGeometry_constructor quadIndexed =
     [Edge (Some 0) (Some 1), Edge None (Some 1), Edge (Some 0) None,
      Edge (Some 0) (Some 2), Edge None (Some 2)] \<and>
   length (snd (FinGeometry_generateFins FinGeometry_constructor (Some quadNonIndexed))) = 6"
proof -
  have i: "index quadIndexedFrom2 = Some [0, 1, 2, 2, 3, 0]"
    by (simp add: quadIndexedFrom2_def)
  have e: "indexedEdges 0 [0, 1, 2, 2, 3, 0] =
     [Edge (Some 0) (Some 1), Edge None (Some 1), Edge (Some 0) None,
      Edge (Some 2) (Some 3), Edge None (Some 3), Edge (Some 2) None]"
    by code_simp
  have k: "map edgeKey (indexedEdges 0 [0, 1, 2, 2, 3, 0]) =
     [(Some 0, Some 1), (Some 1, None), (None, Some 0),
      (Some 2, Some 3), (Some 3, None), (None, Some 2)]"
    unfolding e by (simp add: edgeKey_def)
  have x: "extractEdges FinGeometry_constructor quadIndexedFrom2 = indexedEdges 0 [0, 1, 2, 2, 3, 0]"
    unfolding e by (rule quadIndexedFrom2_edges)
  have f: "length (snd (FinGeometry_generateFins FinGeometry_constructor (Some quadIndexedFrom2))) = 6"
    by (simp add: generateFins_length quadIndexedFrom2_edges)
  have n: "length (snd (FinGeometry_generateFins FinGeometry_constructor (Some quadNonIndexed))) = 6"
    by (simp add: generateFins_length quadNonIndexed_edges)
  show ?thesis by (intro conjI i e k x f quadIndexed_edges n)
qed
subsection \<open>Wind\<close>

lemma calculateWindForces_frame:
  "ws_time (calculateWindForces w) = ws_time w"
  "ws_animationSpeed (calculateWindForces w) = ws_animationSpeed w"
  "ws_windEnabled (calculateWindForces w) = ws_windEnabled w"
  by (simp_all add: calculateWindForces_def combineFinalWindVector_def calculateGusts_def
      calculateTurbulence_def calculateHighQualityTurbulence_def calculateBaseWindForce_def Let_def)

lemma update_disabled:
  "\<not> ws_windEnabled w \<Longrightarrow> update dt el w = w\<lparr>ws_finalWindVector := zeroVector\<rparr>"
  by (simp add: update_def)

lemma update_enabled_time:
  "ws_windEnabled w \<Longrightarrow> ws_time (update dt el w) = ws_time w + dt * ws_animationSpeed w"
  by (simp add: update_def Let_def updatePerformanceStats_def calculateWindForces_frame)

lemma update_frame:
  "ws_animationSpeed (update dt el w) = ws_animationSpeed w"
  "ws_windEnabled (update dt el w) = ws_windEnabled w"
  by (simp_all add: update_def Let_def updatePerformanceStats_def calculateWindForces_frame)

lemma updates_time_mono:
  "ws_animationSpeed w = Num a \<Longrightarrow> 0 \<le> a \<Longrightarrow> ws_time w = Num t \<Longrightarrow>
   (\<forall>(dt, el) \<in> set ds. \<exists>d. dt = Num d \<and> 0 \<le> d) \<Longrightarrow>
   \<exists>t'. ws_time (updates ds w) = Num t' \<and> t \<le> t'"
proof (induction ds arbitrary: w t)
  case Nil
  then show ?case by simp
next
  case (Cons x ds)
  obtain dt el where x: "x = (dt, el)" by (cases x)
  from Cons.prems(4) x obtain d where d: "dt = Num d" "0 \<le> d" by auto
  have "\<exists>t1. ws_time (update dt el w) = Num t1 \<and> t \<le> t1"
  proof (cases "ws_windEnabled w")
    case True
    then show ?thesis using Cons.prems(1,2,3) d by (simp add: update_enabled_time)
  next
    case False
    then show ?thesis using Cons.prems(3) by (simp add: update_disabled)
  qed
  then obtain t1 where t1: "ws_time (update dt el w) = Num t1" "t \<le> t1" by blast
  have "\<exists>t'. ws_time (updates ds (update dt el w)) = Num t' \<and> t1 \<le> t'"
    by (rule Cons.IH) (use Cons.prems t1 in \<open>simp_all add: update_frame\<close>)
  with t1 x show ?case by auto
qed

lemma updates_disabled_time:
  "\<not> ws_windEnabled w \<Longrightarrow> ws_time (updates ds w) = ws_time w"
  by (induction ds arbitrary: w) (auto simp: update_disabled)

text \<open>
  C4. A disabled simulation answers \<open>update\<close> by zeroing the force and leaves the time
  alone; an enabled one adds \<open>deltaTime * animationSpeed\<close> to the time. With an
  animation speed that is not negative (the constructor sets 1, the setter clamps to
  \<open>[0.1, 3]\<close>) and delta times that are not negative, the time never decreases over any
  run of updates, and it stays put over any run while disabled.
\<close>

theorem update_advances_time:
  "(\<not> ws_windEnabled w \<longrightarrow>
      ws_finalWindVector (update dt el w) = zeroVector \<and> ws_time (update dt el w) = ws_time w) \<and>
   (ws_windEnabled w \<longrightarrow> ws_time (update dt el w) = ws_time w + dt * ws_animationSpeed w) \<and>
   (ws_windEnabled w \<and> ws_time w = Num t \<and> ws_animationSpeed w = Num a \<longrightarrow>
      ws_time (update (Num d) el w) = Num (t + d * a)) \<and>
   (ws_time w = Num t \<and> ws_animationSpeed w = Num a \<and> 0 \<le> a \<and>
    (\<forall>(dt, el) \<in> set ds. \<exists>d. dt = Num d \<and> 0 \<le> d) \<longrightarrow>
      (\<exists>t'. ws_time (updates ds w) = Num t' \<and> t \<le> t')) \<and>
   (\<not> ws_windEnabled w \<longrightarrow> ws_time (updates ds w) = ws_time w)"
  using updates_time_mono[of w a t ds] updates_disabled_time[of w ds]
  by (auto simp: update_disabled update_enabled_time)

theorem update_advances_time_witness:
  "ws_windEnabled (WindSimulation_constructor (Vector3 (Num 1) (Num 2) (Num 3))) \<and>
   ws_time (update (Num 0.5) (Num 1) (WindSimulation_constructor (Vector3 (Num 1) (Num 2) (Num 3))))
     = Num 0.5 \<and>
   (\<exists>t'. ws_time (updates [(Num 1, Num 1), (Num 2, Num 2)]
                  (WindSimulation_constructor (Vector3 (Num 1) (Num 2) (Num 3)))) = Num t'
         \<and> 0 \<le> t') \<and>
   ws_finalWindVector (update (Num 0.5) (Num 1)
       (setWindEnabled False (WindSimulation_constructor (Vector3 (Num 1) (Num 2) (Num 3)))))
     = zeroVector"
proof -
  let ?w = "WindSimulation_constructor (Vector3 (Num 1) (Num 2) (Num 3))"
  have w: "ws_windEnabled ?w" "ws_time ?w = Num 0" "ws_animationSpeed ?w = Num 1"
    by (simp_all add: WindSimulation_constructor_def)
  have ds: "\<forall>(dt, el) \<in> set [(Num 1, Num 1), (Num 2, Num 2)]. \<exists>d. dt = Num d \<and> 0 \<le> d"
    by simp
  have off: "\<not> ws_windEnabled (setWindEnabled False ?w)"
    by (simp add: setWindEnabled_def)
  note on = update_advances_time[of ?w "Num 0.5" "Num 1" 0 1 "0.5"
      "[(Num 1, Num 1), (Num 2, Num 2)]"]
  have "ws_time (update (Num 0.5) (Num 1) ?w) = Num (0 + 0.5 * 1)"
    by (rule mp[OF on[THEN conjunct2, THEN conjunct2, THEN conjunct1]]) (intro conjI w)
  then have 1: "ws_time (update (Num 0.5) (Num 1) ?w) = Num 0.5" by simp
  have z: "(0::real) \<le> 1" by simp
  have 2: "\<exists>t'. ws_time (updates [(Num 1, Num 1), (Num 2, Num 2)] ?w) = Num t' \<and> 0 \<le> t'"
    by (rule mp[OF on[THEN conjunct2, THEN conjunct2, THEN conjunct2, THEN conjunct1]])
       (intro conjI w ds z)
  have 3: "ws_finalWindVector (update (Num 0.5) (Num 1) (setWindEnabled False ?w)) = zeroVector"
    by (rule mp[OF update_advances_time[of "setWindEnabled False ?w" "Num 0.5" "Num 1" 0 1 "0.5" "[]",
            THEN conjunct1], THEN conjunct1])
       (rule off)
  show ?thesis by (intro conjI w(1) 1 2 3)
qed

lemma setAnimationSpeed_range:
  "\<exists>a. ws_animationSpeed (setAnimationSpeed (Num v) w) = Num a \<and> 0.1 \<le> a \<and> a \<le> 3"
  by (simp add: setAnimationSpeed_def clamp_def)

lemma calm_resetToCalm: "calm (resetToCalm w)"
  by (simp add: calm_def resetToCalm_def setWindRandomnessIntensity_def setWindResponsiveness_def
      setWindDampening_def setGustStrength_def setTurbulenceIntensity_def setWindStrength_def
      setWindDirection_def setWindDirectionX_def setWindDirectionY_def setWindDirectionZ_def
      clamp_def zeroVector_def)

lemma calm_update:
  "calm w \<Longrightarrow> calm (update dt el w) \<and> ws_finalWindVector (update dt el w) = zeroVector"
  by (simp add: calm_def update_def Let_def updatePerformanceStats_def
      calculateWindForces_def combineFinalWindVector_def calculateGusts_def
      calculateTurbulence_def calculateBaseWindForce_def zeroVector_def)

lemma calm_updates:
  "calm w \<Longrightarrow> ds \<noteq> [] \<Longrightarrow> ws_finalWindVector (updates ds w) = zeroVector"
proof (induction ds arbitrary: w)
  case Nil
  then show ?case by simp
next
  case (Cons x ds)
  obtain dt el where x: "x = (dt, el)" by (cases x)
  show ?case
  proof (cases ds)
    case Nil
    then show ?thesis using calm_update[OF Cons.prems(1), of dt el] x by simp
  next
    case (Cons y ys)
    then have "ws_finalWindVector (updates ds (update dt el w)) = zeroVector"
      using Cons.IH[of "update dt el w"] calm_update[OF Cons.prems(1), of dt el] by simp
    then show ?thesis using x by simp
  qed
qed

text \<open>
  C5. After the calm preset every run of at least one \<open>update\<close>, whatever the delta
  times (\<open>NaN\<close> included) and whether or not the simulation is enabled, leaves the
  force vector at \<open>(0, 0, 0)\<close>.
\<close>

theorem calm_force_stays_zero:
  "ds \<noteq> [] \<Longrightarrow>
   ws_finalWindVector (updates ds (resetToCalm w)) = zeroVector \<and>
   getWindVector (updates ds (resetToCalm w)) = Vector3 (Num 0) (Num 0) (Num 0)"
  using calm_updates[OF calm_resetToCalm, of ds w]
  by (simp add: getWindVector_def zeroVector_def)

theorem calm_force_stays_zero_witness:
  "[(Num 0.016, Num 1), (NaN, Num 2), (Num 5, Num 1)] \<noteq> [] \<and>
   getWindVector (updates [(Num 0.016, Num 1), (NaN, Num 2), (Num 5, Num 1)]
     (resetToCalm (WindSimulation_constructor (Vector3 (Num 1) (Num 2) (Num 3)))))
   = Vector3 (Num 0) (Num 0) (Num 0)"
  using calm_force_stays_zero[of "[(Num 0.016, Num 1), (NaN, Num 2), (Num 5, Num 1)]"
      "WindSimulation_constructor (Vector3 (Num 1) (Num 2) (Num 3))"]
  by simp

subsection \<open>Tapering and shell offsets\<close>

lemma Math_pow_nonneg: "0 \<le> p \<Longrightarrow> 0 < b \<Longrightarrow> Math_pow (Num p) (Num b) = Num (p powr b)"
  by (cases "p = 0") simp_all

lemma scale_disabled:
  "\<not> sg_taperingEnabled this \<or> sg_taperingIntensity this = Num 0 \<Longrightarrow>
   ShellGeometry_calculateTaperingScale this v = Num 1"
  by (auto simp: ShellGeometry_calculateTaperingScale_def)

lemma scale_enabled:
  assumes "sg_taperingEnabled this" "sg_taperingIntensity this = Num i" "i \<noteq> 0" "0 \<le> p"
  shows "ShellGeometry_calculateTaperingScale this (Num p)
         = Num (1 - curveFactor (sg_taperingCurve this) p * i)"
  using assms
  by (simp add: ShellGeometry_calculateTaperingScale_def curveFactor_def Math_pow_nonneg Let_def)

lemma curveFactor_range: "0 \<le> p \<Longrightarrow> p \<le> 1 \<Longrightarrow> 0 \<le> curveFactor c p \<and> curveFactor c p \<le> 1"
  by (auto simp: curveFactor_def powr_le1 mult_le_one)

lemma curveFactor_ends: "curveFactor c 0 = 0" "curveFactor c 1 = 1"
  by (simp_all add: curveFactor_def)

text \<open>
  C6. For an intensity and a position in \<open>[0, 1]\<close>: the scale is 1 when tapering is
  disabled or the intensity is 0, and otherwise 1 minus the curve factor times the
  intensity, the curve factor being \<open>p\<close>, \<open>p\<^sup>2\<close> or \<open>p\<close> to the power 2.5, and
  \<open>p\<^sup>2\<close> for an unknown curve. So the scale at 0 is 1, the scale at 1 of an enabled
  tapering is 1 minus the intensity, and the scale lies in \<open>[0, 1]\<close>.
\<close>

theorem tapering_scale_formula:
  assumes "sg_taperingIntensity this = Num i" "0 \<le> i" "i \<le> 1" "0 \<le> p" "p \<le> 1"
  shows "(\<not> sg_taperingEnabled this \<or> i = 0 \<longrightarrow>
            ShellGeometry_calculateTaperingScale this (Num p) = Num 1) \<and>
         (sg_taperingEnabled this \<and> i \<noteq> 0 \<longrightarrow>
            ShellGeometry_calculateTaperingScale this (Num p)
            = Num (1 - curveFactor (sg_taperingCurve this) p * i)) \<and>
         ShellGeometry_calculateTaperingScale this (Num 0) = Num 1 \<and>
         (sg_taperingEnabled this \<longrightarrow>
            ShellGeometry_calculateTaperingScale this (Num 1) = Num (1 - i)) \<and>
         (\<exists>r. ShellGeometry_calculateTaperingScale this (Num p) = Num r \<and> 0 \<le> r \<and> r \<le> 1)"
proof -
  have a: "\<not> sg_taperingEnabled this \<or> i = 0 \<Longrightarrow>
            ShellGeometry_calculateTaperingScale this v = Num 1" for v
    using assms(1) by (auto intro: scale_disabled)
  have b: "sg_taperingEnabled this \<and> i \<noteq> 0 \<Longrightarrow> 0 \<le> q \<Longrightarrow>
            ShellGeometry_calculateTaperingScale this (Num q)
            = Num (1 - curveFactor (sg_taperingCurve this) q * i)" for q
    using assms(1) by (auto intro: scale_enabled)
  have c: "ShellGeometry_calculateTaperingScale this (Num 0) = Num 1"
    using a[of "Num 0"] b[of 0] by (cases "sg_taperingEnabled this \<and> i \<noteq> 0") (auto simp: curveFactor_ends)
  have d: "sg_taperingEnabled this \<longrightarrow>
            ShellGeometry_calculateTaperingScale this (Num 1) = Num (1 - i)"
    using a[of "Num 1"] b[of 1] by (cases "i = 0") (auto simp: curveFactor_ends)
  have e: "\<exists>r. ShellGeometry_calculateTaperingScale this (Num p) = Num r \<and> 0 \<le> r \<and> r \<le> 1"
  proof (cases "sg_taperingEnabled this \<and> i \<noteq> 0")
    case True
    have cf: "0 \<le> curveFactor (sg_taperingCurve this) p" "curveFactor (sg_taperingCurve this) p \<le> 1"
      using curveFactor_range[OF assms(4,5)] by simp_all
    have "curveFactor (sg_taperingCurve this) p * i \<le> 1" using cf assms(2,3) by (simp add: mult_le_one)
    moreover have "0 \<le> curveFactor (sg_taperingCurve this) p * i" using cf assms(2) by simp
    ultimately show ?thesis using b[OF True assms(4)] by simp
  next
    case False
    then show ?thesis using a[of "Num p"] by auto
  qed
  show ?thesis using a[of "Num p"] b[of p] c d e assms(4) by blast
qed

theorem tapering_scale_formula_witness:
  "sg_taperingIntensity ShellGeometry_constructor = Num 0.7 \<and>
   ShellGeometry_calculateTaperingScale ShellGeometry_constructor (Num 0.5) = Num 0.825 \<and>
   ShellGeometry_calculateTaperingScale ShellGeometry_constructor (Num 0) = Num 1 \<and>
   ShellGeometry_calculateTaperingScale ShellGeometry_constructor (Num 1) = Num 0.3"
proof -
  have c: "sg_taperingIntensity ShellGeometry_constructor = Num 0.7"
    "sg_taperingEnabled ShellGeometry_constructor"
    "sg_taperingCurve ShellGeometry_constructor = ''quadratic''"
    by (simp_all add: ShellGeometry_constructor_def)
  have cf: "curveFactor ''quadratic'' 0.5 = 0.25" by (simp add: curveFactor_def)
  show ?thesis
    using tapering_scale_formula[of ShellGeometry_constructor "0.7" "0.5"] c cf by simp
qed

text \<open>
  C7. The fin builder's and the shell builder's \<open>calculateTaperingScale\<close> agree at every
  position (\<open>NaN\<close> included) whenever the two builders hold the same enabled flag,
  intensity and curve.
\<close>

theorem tapering_scale_shared:
  assumes "fg_taperingEnabled f = sg_taperingEnabled s"
    and "fg_taperingIntensity f = sg_taperingIntensity s"
    and "fg_taperingCurve f = sg_taperingCurve s"
  shows "FinGeometry_calculateTaperingScale f p = ShellGeometry_calculateTaperingScale s p"
  using assms
  by (simp add: FinGeometry_calculateTaperingScale_def ShellGeometry_calculateTaperingScale_def)

theorem tapering_scale_shared_witness:
  "fg_taperingEnabled FinGeometry_constructor = sg_taperingEnabled ShellGeometry_constructor \<and>
   fg_taperingIntensity FinGeometry_constructor = sg_taperingIntensity ShellGeometry_constructor \<and>
   fg_taperingCurve FinGeometry_constructor = sg_taperingCurve ShellGeometry_constructor \<and>
   FinGeometry_calculateTaperingScale FinGeometry_constructor (Num 1)
   = ShellGeometry_calculateTaperingScale ShellGeometry_constructor (Num 1)"
proof -
  have c: "fg_taperingEnabled FinGeometry_constructor = sg_taperingEnabled ShellGeometry_constructor"
    "fg_taperingIntensity FinGeometry_constructor = sg_taperingIntensity ShellGeometry_constructor"
    "fg_taperingCurve FinGeometry_constructor = sg_taperingCurve ShellGeometry_constructor"
    by (simp_all add: FinGeometry_constructor_def ShellGeometry_constructor_def)
  show ?thesis
    using tapering_scale_shared[OF c, of "Num 1"] c by blast
qed

lemma createIndependentGeometry_Some:
  "sg_baseGeometry this = Some g \<Longrightarrow> \<exists>L. createIndependentGeometry this = Some L"
  by (simp add: createIndependentGeometry_def Let_def split: option.splits prod.splits)

lemma layerOffsetDistance_eq:
  "sg_baseGeometry this = Some g \<Longrightarrow>
   layerOffsetDistance this layerIndex totalShells
   = Some (Math_pow (layerIndex / totalShells) (Num 1.2) * sg_maxShellDistance this)"
  using createIndependentGeometry_Some[of this g]
  by (auto simp: layerOffsetDistance_def createShellLayer_def Let_def)

lemma offset_value:
  assumes "sg_baseGeometry this = Some g" "sg_maxShellDistance this = Num m" "0 < n" "0 \<le> i"
  shows "layerOffsetDistance this (Num i) (Num n) = Some (Num ((i / n) powr 1.2 * m))"
  using assms by (simp add: layerOffsetDistance_eq Math_pow_nonneg)

text \<open>
  C8. For a shell count of at least 1 and a positive maximal distance, the offset distance
  that \<open>createShellLayer\<close> records for layer \<open>i\<close> is
  \<open>(i / shellCount)\<close> to the power 1.2, times the maximal distance; over the layers
  1 to \<open>shellCount\<close> it increases strictly, and for the last layer it is the maximal
  distance itself.
\<close>

theorem shell_offset_distance:
  assumes "sg_baseGeometry this = Some g" "sg_maxShellDistance this = Num m" "0 < m"
    and "1 \<le> shellCount"
  shows "(\<forall>i \<in> {1..shellCount}.
            layerOffsetDistance this (Num (real i)) (Num (real shellCount))
            = Some (Num ((real i / real shellCount) powr 1.2 * m))) \<and>
         (\<forall>i \<in> {1..shellCount}. \<forall>j \<in> {1..shellCount}. i < j \<longrightarrow>
            the (layerOffsetDistance this (Num (real i)) (Num (real shellCount)))
            < the (layerOffsetDistance this (Num (real j)) (Num (real shellCount)))) \<and>
         layerOffsetDistance this (Num (real shellCount)) (Num (real shellCount)) = Some (Num m)"
proof -
  have n: "0 < real shellCount" using assms(4) by simp
  have v: "layerOffsetDistance this (Num (real i)) (Num (real shellCount))
            = Some (Num ((real i / real shellCount) powr 1.2 * m))" for i
    using offset_value[OF assms(1,2) n, of "real i"] by simp
  have mono: "(real i / real shellCount) powr 1.2 * m < (real j / real shellCount) powr 1.2 * m"
    if "1 \<le> i" "i < j" for i j
  proof -
    have "real i / real shellCount < real j / real shellCount"
      using that n by (simp add: divide_strict_right_mono)
    moreover have "0 \<le> real i / real shellCount" using n by simp
    ultimately have "(real i / real shellCount) powr 1.2 < (real j / real shellCount) powr 1.2"
      by (intro powr_less_mono2) simp_all
    then show ?thesis using assms(3) by simp
  qed
  have top: "layerOffsetDistance this (Num (real shellCount)) (Num (real shellCount)) = Some (Num m)"
    using v[of shellCount] n by simp
  show ?thesis using v mono top by auto
qed

theorem shell_offset_distance_witness:
  "sg_baseGeometry (ShellGeometry_constructor\<lparr>sg_baseGeometry := Some quadIndexed\<rparr>)
     = Some quadIndexed \<and>
   (1::nat) \<in> {1..16} \<and> (16::nat) \<in> {1..16} \<and>
   the (layerOffsetDistance (ShellGeometry_constructor\<lparr>sg_baseGeometry := Some quadIndexed\<rparr>)
          (Num (real (1::nat))) (Num (real (16::nat))))
   < the (layerOffsetDistance (ShellGeometry_constructor\<lparr>sg_baseGeometry := Some quadIndexed\<rparr>)
          (Num (real (16::nat))) (Num (real (16::nat)))) \<and>
   layerOffsetDistance (ShellGeometry_constructor\<lparr>sg_baseGeometry := Some quadIndexed\<rparr>)
          (Num (real (16::nat))) (Num (real (16::nat))) = Some (Num 0.3)"
proof -
  let ?s = "ShellGeometry_constructor\<lparr>sg_baseGeometry := Some quadIndexed\<rparr>"
  have s: "sg_baseGeometry ?s = Some quadIndexed" "sg_maxShellDistance ?s = Num 0.3"
    by (simp_all add: ShellGeometry_constructor_def)
  have m: "(0::real) < 0.3" "(1::nat) \<le> 16" by simp_all
  note t = shell_offset_distance[OF s m]
  have i: "(1::nat) \<in> {1..16}" "(16::nat) \<in> {1..16}" "(1::nat) < 16" by simp_all
  from t i have lt: "the (layerOffsetDistance ?s (Num (real (1::nat))) (Num (real (16::nat))))
     < the (layerOffsetDistance ?s (Num (real (16::nat))) (Num (real (16::nat))))" by blast
  from t have top: "layerOffsetDistance ?s (Num (real (16::nat))) (Num (real (16::nat))) = Some (Num 0.3)"
    by blast
  show ?thesis using s(1) i(1,2) lt top by blast
qed

subsection \<open>Shell generation\<close>

lemma forLoop_NaN: "forLoop i NaN body s = s"
  by (subst forLoop.simps) simp

lemma forLoop_fold: "forLoop i (Num r) body s = fold body [i..<nat \<lceil>r\<rceil>] s"
proof (induction "nat \<lceil>r\<rceil> - i" arbitrary: i s)
  case 0
  then have "\<not> real i < r" by linarith
  moreover have "[i..<nat \<lceil>r\<rceil>] = []" using 0 by simp
  ultimately show ?case by (subst forLoop.simps) simp
next
  case (Suc d)
  then have lt: "i < nat \<lceil>r\<rceil>" by linarith
  then have r: "real i < r" by linarith
  have u: "[i..<nat \<lceil>r\<rceil>] = i # [i + 1..<nat \<lceil>r\<rceil>]" using lt by (simp add: upt_conv_Cons)
  have ih: "forLoop (i + 1) (Num r) body (body i s) = fold body [i + 1..<nat \<lceil>r\<rceil>] (body i s)"
    by (rule Suc.hyps(1)) (use Suc.hyps(2) in linarith)
  have "forLoop i (Num r) body s = forLoop (i + 1) (Num r) body (body i s)"
    using r by (subst forLoop.simps) simp
  then show ?case unfolding ih u by simp
qed

lemma forLoop_nat: "forLoop i (Num (real n)) body s = fold body [i..<n] s"
  by (simp add: forLoop_fold)

lemma forLoop_invariant:
  "(\<And>j t. P t \<Longrightarrow> P (body j t)) \<Longrightarrow> P s \<Longrightarrow> P (forLoop i n body s)"
proof (induction i n body s rule: forLoop.induct)
  case (1 i n body s)
  show ?case
  proof (cases "Num (real i) < n")
    case True
    have "P (forLoop (i + 1) n body (body i s))"
      by (rule "1.IH"[OF True]) (use "1.prems" in auto)
    then show ?thesis using True by (subst forLoop.simps) simp
  next
    case False
    then show ?thesis using "1.prems"(2) by (subst forLoop.simps) simp
  qed
qed

lemma createShellLayer_Some:
  "sg_baseGeometry this = Some g \<Longrightarrow> \<exists>L. createShellLayer this i n = Some L"
  using createIndependentGeometry_Some[of this g]
  by (auto simp: createShellLayer_def Let_def)

lemma shellLayersLoop_map:
  assumes "sg_baseGeometry this = Some g"
  shows "shellLayersLoop this i (Num (real n)) acc
         = acc @ map (\<lambda>k. the (createShellLayer this (Num (real k)) (Num (real n)))) [i..<n + 1]"
proof (induction "n + 1 - i" arbitrary: i acc)
  case 0
  then have "\<not> i \<le> n" by simp
  then show ?case by (subst shellLayersLoop.simps) simp
next
  case (Suc d)
  then have le: "i \<le> n" by simp
  obtain L where L: "createShellLayer this (Num (real i)) (Num (real n)) = Some L"
    using createShellLayer_Some[OF assms] by blast
  have u: "[i..<n + 1] = i # [i + 1..<n + 1]" using le by (simp add: upt_conv_Cons)
  have ih: "shellLayersLoop this (i + 1) (Num (real n)) (acc @ [L])
        = (acc @ [L]) @ map (\<lambda>k. the (createShellLayer this (Num (real k)) (Num (real n)))) [i + 1..<n + 1]"
    by (rule Suc.hyps(1)) (use Suc.hyps(2) in simp)
  have "shellLayersLoop this i (Num (real n)) acc = shellLayersLoop this (i + 1) (Num (real n)) (acc @ [L])"
    using le L by (subst shellLayersLoop.simps) simp
  then show ?case unfolding ih u using L by simp
qed


lemma upt3: "[0..<3] = [0, 1, 2]" by code_simp
lemma upt2: "[0..<2] = [0, 1]" by code_simp

lemma gatherVertices_snoc3:
  "gatherVertices 3 a (xs @ [v])
   = gatherVertices 3 a xs @ [toNumber (rd a (v * 3)), toNumber (rd a (v * 3 + 1)), toNumber (rd a (v * 3 + 2))]"
  by (simp add: gatherVertices_def upt3)

lemma gatherVertices_snoc2:
  "gatherVertices 2 a (xs @ [v])
   = gatherVertices 2 a xs @ [toNumber (rd a (v * 2)), toNumber (rd a (v * 2 + 1))]"
  by (simp add: gatherVertices_def upt2)

lemma gatherVertices_length: "length (gatherVertices s a xs) = s * length xs"
  by (induction xs) (simp_all add: gatherVertices_def)

lemma take_write3:
  assumes "d * 3 + 3 \<le> length a"
  shows "take (d * 3 + 3) (a[d * 3 := x, d * 3 + 1 := y, d * 3 + 2 := z]) = take (d * 3) a @ [x, y, z]"
proof (rule nth_equalityI)
  show "length (take (d * 3 + 3) (a[d * 3 := x, d * 3 + 1 := y, d * 3 + 2 := z])) = length (take (d * 3) a @ [x, y, z])"
    using assms by simp
next
  fix i assume "i < length (take (d * 3 + 3) (a[d * 3 := x, d * 3 + 1 := y, d * 3 + 2 := z]))"
  then have i: "i < d * 3 + 3" using assms by simp
  consider "i < d * 3" | "i = d * 3" | "i = d * 3 + 1" | "i = d * 3 + 2" using i by linarith
  then show "take (d * 3 + 3) (a[d * 3 := x, d * 3 + 1 := y, d * 3 + 2 := z]) ! i = (take (d * 3) a @ [x, y, z]) ! i"
    using assms by cases (simp_all add: nth_append)
qed

lemma take_write2:
  assumes "d * 2 + 2 \<le> length a"
  shows "take (d * 2 + 2) (a[d * 2 := x, d * 2 + 1 := y]) = take (d * 2) a @ [x, y]"
proof (rule nth_equalityI)
  show "length (take (d * 2 + 2) (a[d * 2 := x, d * 2 + 1 := y])) = length (take (d * 2) a @ [x, y])"
    using assms by simp
next
  fix i assume "i < length (take (d * 2 + 2) (a[d * 2 := x, d * 2 + 1 := y]))"
  then have i: "i < d * 2 + 2" using assms by simp
  consider "i < d * 2" | "i = d * 2" | "i = d * 2 + 1" using i by linarith
  then show "take (d * 2 + 2) (a[d * 2 := x, d * 2 + 1 := y]) ! i = (take (d * 2) a @ [x, y]) ! i"
    using assms by cases (simp_all add: nth_append)
qed


lemma copyFaceVertex_step:
  assumes idx: "length idx = 3 * F" and v: "v < 3" and f: "f < F"
    and inv: "copiedPrefix g idx F (f * 3 + v) s"
  shows "copiedPrefix g idx F (f * 3 + v + 1) (copyFaceVertex idx g f v s)"
proof -
  obtain p n u where s: "s = (p, n, u)" by (cases s)
  let ?d = "f * 3 + v"
  have d: "?d < length idx" using idx v f by linarith
  have r: "rd idx ?d = Some (idx ! ?d)" using d by (simp add: rd_def)
  have tk: "take (?d + 1) idx = take ?d idx @ [idx ! ?d]"
    using d by (simp add: take_Suc_conv_app_nth)
  have d1: "?d + 1 \<le> 3 * F" using idx d by simp
  have "(?d + 1) * 3 \<le> (3 * F) * 3" using d1 by (rule mult_le_mono1)
  then have b3: "?d * 3 + 3 \<le> 9 * F" by simp
  have "(?d + 1) * 2 \<le> (3 * F) * 2" using d1 by (rule mult_le_mono1)
  then have b2: "?d * 2 + 2 \<le> 6 * F" by simp
  from inv have lp: "length p = 9 * F" and ln: "length n = 9 * F"
    and tp: "take (?d * 3) p = gatherVertices 3 (position g) (take ?d idx)"
    and tn: "take (?d * 3) n = gatherVertices 3 (normal g) (take ?d idx)"
    by (simp_all add: copiedPrefix_def s)
  have e3: "(?d + 1) * 3 = ?d * 3 + 3" by simp
  have e2: "(?d + 1) * 2 = ?d * 2 + 2" by simp
  have P: "take ((?d + 1) * 3)
        (p[?d * 3 := toNumber (component (position g) (Some (idx ! ?d)) 0),
           ?d * 3 + 1 := toNumber (component (position g) (Some (idx ! ?d)) 1),
           ?d * 3 + 2 := toNumber (component (position g) (Some (idx ! ?d)) 2)])
      = gatherVertices 3 (position g) (take (?d + 1) idx)"
    unfolding e3 tk gatherVertices_snoc3
    using take_write3[of ?d p] b3 lp tp by (simp add: component_def)
  have N: "take ((?d + 1) * 3)
        (n[?d * 3 := toNumber (component (normal g) (Some (idx ! ?d)) 0),
           ?d * 3 + 1 := toNumber (component (normal g) (Some (idx ! ?d)) 1),
           ?d * 3 + 2 := toNumber (component (normal g) (Some (idx ! ?d)) 2)])
      = gatherVertices 3 (normal g) (take (?d + 1) idx)"
    unfolding e3 tk gatherVertices_snoc3
    using take_write3[of ?d n] b3 ln tn by (simp add: component_def)
  show ?thesis
  proof (cases "uv g")
    case None
    with inv have "u = None" by (simp add: copiedPrefix_def s)
    with None P N lp ln show ?thesis
      by (simp add: copiedPrefix_def s copyFaceVertex_def Let_def r)
  next
    case (Some baseUvs)
    with inv obtain a where a: "u = Some a" "length a = 6 * F"
      "take (?d * 2) a = gatherVertices 2 baseUvs (take ?d idx)"
      by (auto simp: copiedPrefix_def s split: option.splits)
    have U: "take ((?d + 1) * 2)
        (a[?d * 2 := toNumber (uvComponent baseUvs (Some (idx ! ?d)) 0),
           ?d * 2 + 1 := toNumber (uvComponent baseUvs (Some (idx ! ?d)) 1)])
      = gatherVertices 2 baseUvs (take (?d + 1) idx)"
      unfolding e2 tk gatherVertices_snoc2
      using take_write2[of ?d a] b2 a(2,3) by (simp add: uvComponent_def)
    from Some a P N U lp ln show ?thesis
      by (simp add: copiedPrefix_def s copyFaceVertex_def Let_def r)
  qed
qed

lemma forLoop3: "forLoop 0 (Num 3) body s = body 2 (body 1 (body 0 s))"
proof -
  have "forLoop 0 (Num (real 3)) body s = fold body [0..<3] s" by (rule forLoop_nat)
  then show ?thesis by (simp add: upt3)
qed

lemma copyFace_step:
  assumes idx: "length idx = 3 * F" and f: "f < F" and inv: "copiedPrefix g idx F (f * 3) s"
  shows "copiedPrefix g idx F ((f + 1) * 3) (forLoop 0 (Num 3) (copyFaceVertex idx g f) s)"
proof -
  have i0: "copiedPrefix g idx F (f * 3 + 0) s" using inv by simp
  have 0: "copiedPrefix g idx F (f * 3 + 0 + 1) (copyFaceVertex idx g f 0 s)"
    by (rule copyFaceVertex_step[OF idx _ f i0]) simp
  then have i1: "copiedPrefix g idx F (f * 3 + 1) (copyFaceVertex idx g f 0 s)" by simp
  have 1: "copiedPrefix g idx F (f * 3 + 1 + 1) (copyFaceVertex idx g f 1 (copyFaceVertex idx g f 0 s))"
    by (rule copyFaceVertex_step[OF idx _ f i1]) simp
  then have i2: "copiedPrefix g idx F (f * 3 + 2)
      (copyFaceVertex idx g f 1 (copyFaceVertex idx g f 0 s))"
    by (simp add: numeral_2_eq_2)
  have 2: "copiedPrefix g idx F (f * 3 + 2 + 1)
      (copyFaceVertex idx g f 2 (copyFaceVertex idx g f 1 (copyFaceVertex idx g f 0 s)))"
    by (rule copyFaceVertex_step[OF idx _ f i2]) simp
  have e: "(f + 1) * 3 = f * 3 + 2 + 1" by simp
  show ?thesis unfolding forLoop3 e by (rule 2)
qed

lemma copyFaces_loop:
  assumes idx: "length idx = 3 * F" and inv: "copiedPrefix g idx F 0 s"
  shows "k \<le> F \<Longrightarrow>
         copiedPrefix g idx F (k * 3)
           (fold (\<lambda>f. forLoop 0 (Num 3) (copyFaceVertex idx g f)) [0..<k] s)"
proof (induction k)
  case 0
  then show ?case using inv by simp
next
  case (Suc k)
  then have k: "k < F"
    and ih: "copiedPrefix g idx F (k * 3)
               (fold (\<lambda>f. forLoop 0 (Num 3) (copyFaceVertex idx g f)) [0..<k] s)"
    by simp_all
  have "copiedPrefix g idx F ((k + 1) * 3) (forLoop 0 (Num 3) (copyFaceVertex idx g k)
          (fold (\<lambda>f. forLoop 0 (Num 3) (copyFaceVertex idx g f)) [0..<k] s))"
    by (rule copyFace_step[OF idx k ih])
  then show ?case by simp
qed

lemma createIndependentGeometry_indexed:
  assumes base: "sg_baseGeometry this = Some g" and ix: "index g = Some idx"
    and idx: "length idx = 3 * F"
  shows "createIndependentGeometry this =
     Some \<lparr> sh_position = gatherVertices 3 (position g) idx,
            sh_normal = gatherVertices 3 (normal g) idx,
            sh_uv = map_option (\<lambda>baseUvs. gatherVertices 2 baseUvs idx) (uv g),
            sh_index = None, sh_randomizedNormal = None, sh_userData = None \<rparr>"
proof -
  let ?s0 = "(replicate (9 * F) (Num 0), replicate (9 * F) (Num 0),
              case uv g of Some x \<Rightarrow> Some (replicate (6 * F) (Num 0)) | None \<Rightarrow> None)"
  let ?loop = "fold (\<lambda>f. forLoop 0 (Num 3) (copyFaceVertex idx g f)) [0..<F] ?s0"
  obtain p n u where r: "?loop = (p, n, u)" by (cases ?loop)
  have inv0: "copiedPrefix g idx F 0 ?s0"
    by (simp add: copiedPrefix_def gatherVertices_def split: option.splits)
  have fin: "copiedPrefix g idx F (F * 3) (p, n, u)"
    using copyFaces_loop[OF idx inv0, of F] unfolding r by simp
  have tk: "take (F * 3) idx = idx" using idx by simp
  from fin have lp: "length p = 9 * F" and ln: "length n = 9 * F"
    and tp: "take (F * 3 * 3) p = gatherVertices 3 (position g) (take (F * 3) idx)"
    and tn: "take (F * 3 * 3) n = gatherVertices 3 (normal g) (take (F * 3) idx)"
    and tu: "case uv g of None \<Rightarrow> u = None
         | Some baseUvs \<Rightarrow>
             (case u of None \<Rightarrow> False
              | Some a \<Rightarrow> length a = 6 * F \<and>
                  take (F * 3 * 2) a = gatherVertices 2 baseUvs (take (F * 3) idx))"
    unfolding copiedPrefix_def prod.case by blast+
  have "take (F * 3 * 3) p = p" using lp by simp
  then have pe: "p = gatherVertices 3 (position g) idx" using tp unfolding tk by simp
  have "take (F * 3 * 3) n = n" using ln by simp
  then have ne: "n = gatherVertices 3 (normal g) idx" using tn unfolding tk by simp
  have ue: "u = map_option (\<lambda>baseUvs. gatherVertices 2 baseUvs idx) (uv g)"
  proof (cases "uv g")
    case None
    then show ?thesis using tu by simp
  next
    case uvs: (Some baseUvs)
    from tu have tu': "case u of None \<Rightarrow> False
              | Some a \<Rightarrow> length a = 6 * F \<and>
                  take (F * 3 * 2) a = gatherVertices 2 baseUvs (take (F * 3) idx)"
      unfolding uvs option.case .
    show ?thesis
    proof (cases u)
      case None
      with tu' show ?thesis by simp
    next
      case (Some a)
      from tu' have la: "length a = 6 * F"
        and ta: "take (F * 3 * 2) a = gatherVertices 2 baseUvs (take (F * 3) idx)"
        unfolding Some option.case by blast+
      have "take (F * 3 * 2) a = a" using la by simp
      with ta have "a = gatherVertices 2 baseUvs idx" unfolding tk by (simp only:)
      then show ?thesis unfolding Some uvs by simp
    qed
  qed
  have fc: "Num (real (length idx)) / Num 3 = Num (real F)" using idx by simp
  have a9: "newFloat32Array (Num (real F) * Num 3 * Num 3) = replicate (9 * F) (Num 0)"
  proof -
    have "real F * 3 * 3 = real (9 * F)" by simp
    then show ?thesis by (simp only: times_num.simps newFloat32Array.simps floor_of_nat nat_int)
  qed
  have a6: "newFloat32Array (Num (real F) * Num 3 * Num 2) = replicate (6 * F) (Num 0)"
  proof -
    have "real F * 3 * 2 = real (6 * F)" by simp
    then show ?thesis by (simp only: times_num.simps newFloat32Array.simps floor_of_nat nat_int)
  qed
  show ?thesis
    unfolding createIndependentGeometry_def base ix option.case Let_def fc a9 a6 forLoop_nat
    using r pe ne ue by (simp split: option.splits)
qed

lemma processIndependentFace_length:
  "length (processIndependentFace this na f off ts pa) = length pa"
  unfolding processIndependentFace_def Let_def
  by (rule forLoop_invariant) simp_all

lemma processVertices_length:
  "length (processVerticesWithGeometricIsolation this pa na off i n) = length pa"
  unfolding processVerticesWithGeometricIsolation_def Let_def
  by (rule forLoop_invariant) (simp_all add: processIndependentFace_length)

lemma createShellLayer_fields:
  assumes "sg_baseGeometry this = Some g" "createIndependentGeometry this = Some g0"
  shows "\<exists>L. createShellLayer this i n = Some L \<and>
           sh_normal L = sh_normal g0 \<and> sh_uv L = sh_uv g0 \<and> sh_index L = sh_index g0 \<and>
           length (sh_position L) = length (sh_position g0) \<and>
           sh_userData L = Some \<lparr> ud_shellLayer = i, ud_shellCount = n,
              ud_offsetDistance = Math_pow (i / n) (Num 1.2) * sg_maxShellDistance this,
              ud_normalizedLayer = i / n, ud_geometricallyIsolated = True \<rparr>"
  using assms
  by (simp add: createShellLayer_def Let_def addRandomizedNormals_def processVertices_length)

lemma generatePoolKey_frame:
  "generatePoolKey ((clearShells this)\<lparr>sg_baseGeometry := b\<rparr>) g c = generatePoolKey this g c"
  by (simp add: generatePoolKey_def clearShells_def)

lemma addToGeometryPool_shells:
  "sg_shellGeometries (addToGeometryPool key gs this) = sg_shellGeometries this"
  by (simp add: addToGeometryPool_def Let_def split: list.splits)

lemma generateShells_miss:
  assumes n: "sg_shellCount this = Num (real n)"
    and miss: "map_of (sg_geometryPool this) (generatePoolKey this g (sg_shellCount this)) = None"
  shows "snd (generateShells this (Some g)) =
           map (\<lambda>k. the (createShellLayer ((clearShells this)\<lparr>sg_baseGeometry := Some g\<rparr>)
                             (Num (real k)) (Num (real n)))) [1..<n + 1]"
    and "getShellGeometries (fst (generateShells this (Some g))) = snd (generateShells this (Some g))"
proof -
  let ?t = "(clearShells this)\<lparr>sg_baseGeometry := Some g\<rparr>"
  have b: "sg_baseGeometry ?t = Some g" by simp
  have c: "sg_shellCount ?t = Num (real n)" using n by (simp add: clearShells_def)
  have e: "sg_shellGeometries ?t = []" by (simp add: clearShells_def)
  have m: "map_of (sg_geometryPool ?t) (generatePoolKey ?t g (Num (real n))) = None"
    using miss n by (simp add: generatePoolKey_frame) (simp add: clearShells_def)
  have l: "shellLayersLoop ?t 1 (Num (real n)) [] =
      map (\<lambda>k. the (createShellLayer ?t (Num (real k)) (Num (real n)))) [1..<n + 1]"
    using shellLayersLoop_map[OF b, of 1 n "[]"] by simp
  show "snd (generateShells this (Some g)) =
           map (\<lambda>k. the (createShellLayer ?t (Num (real k)) (Num (real n)))) [1..<n + 1]"
    unfolding generateShells_def option.case Let_def c m e l
    by (simp add: addToGeometryPool_shells)
  show "getShellGeometries (fst (generateShells this (Some g))) = snd (generateShells this (Some g))"
    unfolding generateShells_def option.case Let_def c m e l
    by (simp add: getShellGeometries_def)
qed

text \<open>
  C9. For an indexed mesh of \<open>F\<close> triangles and a shell count \<open>n\<close>, a run of
  \<open>generateShells\<close> that misses the pool returns exactly \<open>n\<close> geometries, which are
  also the builder's current layers. Each of them has no index and \<open>3 * F\<close> vertices,
  and its normals and texture coordinates are those of the source vertices that the index
  array names, triangle after triangle; the positions of the independent copy, before the
  layer is displaced, are gathered in the same way.
\<close>

theorem shells_are_triangle_soups:
  assumes ix: "index g = Some idx" and idx: "length idx = 3 * F"
    and n: "sg_shellCount this = Num (real n)"
    and miss: "map_of (sg_geometryPool this) (generatePoolKey this g (sg_shellCount this)) = None"
  shows "length (snd (generateShells this (Some g))) = n \<and>
         getShellGeometries (fst (generateShells this (Some g))) = snd (generateShells this (Some g)) \<and>
         (\<forall>L \<in> set (snd (generateShells this (Some g))).
            sh_index L = None \<and>
            vertexCount L = Num (real (3 * F)) \<and>
            sh_normal L = gatherVertices 3 (normal g) idx \<and>
            sh_uv L = map_option (\<lambda>baseUvs. gatherVertices 2 baseUvs idx) (uv g)) \<and>
         map_option sh_position
           (createIndependentGeometry ((clearShells this)\<lparr>sg_baseGeometry := Some g\<rparr>))
         = Some (gatherVertices 3 (position g) idx)"
proof -
  let ?t = "(clearShells this)\<lparr>sg_baseGeometry := Some g\<rparr>"
  let ?gs = "snd (generateShells this (Some g))"
  have b: "sg_baseGeometry ?t = Some g" by simp
  note ig = createIndependentGeometry_indexed[OF b ix idx]
  have gs: "?gs = map (\<lambda>k. the (createShellLayer ?t (Num (real k)) (Num (real n)))) [1..<n + 1]"
    by (rule generateShells_miss(1)[OF n miss])
  have 1: "length ?gs = n" unfolding gs by simp
  have 2: "getShellGeometries (fst (generateShells this (Some g))) = ?gs"
    by (rule generateShells_miss(2)[OF n miss])
  have 3: "\<forall>L \<in> set ?gs.
            sh_index L = None \<and>
            vertexCount L = Num (real (3 * F)) \<and>
            sh_normal L = gatherVertices 3 (normal g) idx \<and>
            sh_uv L = map_option (\<lambda>baseUvs. gatherVertices 2 baseUvs idx) (uv g)"
  proof
    fix L assume "L \<in> set ?gs"
    then obtain k where L: "L = the (createShellLayer ?t (Num (real k)) (Num (real n)))"
      unfolding gs by auto
    from createShellLayer_fields[OF b ig, of "Num (real k)" "Num (real n)"]
    obtain L' where L': "createShellLayer ?t (Num (real k)) (Num (real n)) = Some L'"
      and f: "sh_normal L' = gatherVertices 3 (normal g) idx"
        "sh_uv L' = map_option (\<lambda>baseUvs. gatherVertices 2 baseUvs idx) (uv g)"
        "sh_index L' = None"
        "length (sh_position L') = length (gatherVertices 3 (position g) idx)"
      by auto
    have LL: "L = L'" using L L' by simp
    have "length (sh_position L) = 3 * (3 * F)"
      using f(4) idx unfolding LL by (simp add: gatherVertices_length)
    then have "vertexCount L = Num (real (3 * F))" by (simp add: vertexCount_def)
    with f show "sh_index L = None \<and>
            vertexCount L = Num (real (3 * F)) \<and>
            sh_normal L = gatherVertices 3 (normal g) idx \<and>
            sh_uv L = map_option (\<lambda>baseUvs. gatherVertices 2 baseUvs idx) (uv g)"
      unfolding LL by simp
  qed
  have 4: "map_option sh_position (createIndependentGeometry ?t)
         = Some (gatherVertices 3 (position g) idx)"
    unfolding ig by simp
  show ?thesis by (intro conjI 1 2 3 4)
qed

lemma map_constant: "\<forall>x \<in> set xs. f x = c \<Longrightarrow> map f xs = replicate (length xs) c"
  by (induction xs) simp_all

theorem shells_are_triangle_soups_witness:
  "index cube = Some cubeIndex \<and> length cubeIndex = 3 * 12 \<and>
   length (snd (generateShells
       (setMaxShellDistance (Num 0.1) (setShellSpacing (Num 0.02)
          (setShellCount (Num 8) ShellGeometry_constructor)))
       (Some cube))) = 8 \<and>
   map vertexCount (snd (generateShells
       (setMaxShellDistance (Num 0.1) (setShellSpacing (Num 0.02)
          (setShellCount (Num 8) ShellGeometry_constructor)))
       (Some cube))) = replicate 8 (Num 36) \<and>
   map sh_index (snd (generateShells
       (setMaxShellDistance (Num 0.1) (setShellSpacing (Num 0.02)
          (setShellCount (Num 8) ShellGeometry_constructor)))
       (Some cube))) = replicate 8 None"
proof -
  let ?s = "setMaxShellDistance (Num 0.1) (setShellSpacing (Num 0.02)
          (setShellCount (Num 8) ShellGeometry_constructor))"
  have ix: "index cube = Some cubeIndex" by (simp add: cube_def)
  have len: "length cubeIndex = 3 * 12" by (simp add: cubeIndex_def)
  have n: "sg_shellCount ?s = Num (real (8::nat))"
    by (simp add: setMaxShellDistance_def setShellSpacing_def setShellCount_def clearShells_def
        ShellGeometry_constructor_def)
  have pool: "sg_geometryPool ?s = []"
    by (simp add: setMaxShellDistance_def setShellSpacing_def setShellCount_def clearShells_def
        ShellGeometry_constructor_def)
  have miss: "map_of (sg_geometryPool ?s) (generatePoolKey ?s cube (sg_shellCount ?s)) = None"
    unfolding pool by simp
  note t = shells_are_triangle_soups[OF ix len n miss]
  have 1: "length (snd (generateShells ?s (Some cube))) = 8" using t by (rule conjunct1)
  have a: "\<forall>L \<in> set (snd (generateShells ?s (Some cube))). vertexCount L = Num 36"
    using t[THEN conjunct2, THEN conjunct2, THEN conjunct1] by simp
  have b: "\<forall>L \<in> set (snd (generateShells ?s (Some cube))). sh_index L = None"
    using t[THEN conjunct2, THEN conjunct2, THEN conjunct1] by simp
  have 3: "map vertexCount (snd (generateShells ?s (Some cube))) = replicate 8 (Num 36)"
    using map_constant[OF a] unfolding 1 .
  have 4: "map sh_index (snd (generateShells ?s (Some cube))) = replicate 8 None"
    using map_constant[OF b] unfolding 1 .
  show ?thesis by (intro conjI ix len 1 3 4)
qed

lemma clearShells_effect:
  "sg_shellGeometries (clearShells s) = [] \<and>
   sg_disposed (clearShells s) = sg_disposed s @ sg_shellGeometries s"
  by (simp add: clearShells_def)

text \<open>
  C10, amended. The setters of the shell count, the spacing, the maximal distance, the
  tapering flag and the tapering intensity always dispose the generated layers and empty
  the list, whatever the argument. The setters of the tapering curve and method do so
  exactly when the argument is one of the valid names (also when it is the stored one);
  for any other argument they leave the builder as it is.
\<close>

theorem shell_setters_clear:
  "(getShellGeometries (setShellCount c s) = [] \<and>
    sg_disposed (setShellCount c s) = sg_disposed s @ sg_shellGeometries s) \<and>
   (getShellGeometries (setShellSpacing c s) = [] \<and>
    sg_disposed (setShellSpacing c s) = sg_disposed s @ sg_shellGeometries s) \<and>
   (getShellGeometries (setMaxShellDistance c s) = [] \<and>
    sg_disposed (setMaxShellDistance c s) = sg_disposed s @ sg_shellGeometries s) \<and>
   (getShellGeometries (setTaperingEnabled b s) = [] \<and>
    sg_disposed (setTaperingEnabled b s) = sg_disposed s @ sg_shellGeometries s) \<and>
   (getShellGeometries (setTaperingIntensity c s) = [] \<and>
    sg_disposed (setTaperingIntensity c s) = sg_disposed s @ sg_shellGeometries s) \<and>
   (List.member validCurves name \<longrightarrow>
      getShellGeometries (setTaperingCurve name s) = [] \<and>
      sg_disposed (setTaperingCurve name s) = sg_disposed s @ sg_shellGeometries s) \<and>
   (\<not> List.member validCurves name \<longrightarrow> setTaperingCurve name s = s) \<and>
   (List.member validMethods name \<longrightarrow>
      getShellGeometries (setTaperingMethod name s) = [] \<and>
      sg_disposed (setTaperingMethod name s) = sg_disposed s @ sg_shellGeometries s) \<and>
   (\<not> List.member validMethods name \<longrightarrow> setTaperingMethod name s = s)"
  by (simp add: getShellGeometries_def setShellCount_def setShellSpacing_def
      setMaxShellDistance_def setTaperingEnabled_def setTaperingIntensity_def
      setTaperingCurve_def setTaperingMethod_def clearShells_def)

lemma constructor_shells:
  "length (snd (generateShells ShellGeometry_constructor (Some quadIndexed))) = 16"
  "getShellGeometries (fst (generateShells ShellGeometry_constructor (Some quadIndexed)))
   = snd (generateShells ShellGeometry_constructor (Some quadIndexed))"
proof -
  have n: "sg_shellCount ShellGeometry_constructor = Num (real (16::nat))"
    by (simp add: ShellGeometry_constructor_def)
  have miss: "map_of (sg_geometryPool ShellGeometry_constructor)
      (generatePoolKey ShellGeometry_constructor quadIndexed (sg_shellCount ShellGeometry_constructor)) = None"
    by (simp add: ShellGeometry_constructor_def)
  show "length (snd (generateShells ShellGeometry_constructor (Some quadIndexed))) = 16"
    unfolding generateShells_miss(1)[OF n miss] by simp
  show "getShellGeometries (fst (generateShells ShellGeometry_constructor (Some quadIndexed)))
   = snd (generateShells ShellGeometry_constructor (Some quadIndexed))"
    by (rule generateShells_miss(2)[OF n miss])
qed

text \<open>
  C10, as stated, fails for the curve setter: after \<open>generateShells\<close> has produced the
  16 layers of the quad, \<open>setTaperingCurve('cubic')\<close> is ignored and the layers stay.
\<close>

theorem invalid_curve_keeps_shells:
  "\<not> List.member validCurves ''cubic'' \<and>
   length (getShellGeometries (fst (generateShells ShellGeometry_constructor (Some quadIndexed)))) = 16 \<and>
   getShellGeometries
     (setTaperingCurve ''cubic'' (fst (generateShells ShellGeometry_constructor (Some quadIndexed))))
   \<noteq> []"
proof -
  have v: "\<not> List.member validCurves ''cubic''" by (simp add: validCurves_def)
  have l: "length (getShellGeometries (fst (generateShells ShellGeometry_constructor (Some quadIndexed)))) = 16"
    unfolding constructor_shells(2) by (rule constructor_shells(1))
  have e: "setTaperingCurve ''cubic'' (fst (generateShells ShellGeometry_constructor (Some quadIndexed)))
     = fst (generateShells ShellGeometry_constructor (Some quadIndexed))"
    using v by (simp add: setTaperingCurve_def)
  have "getShellGeometries (fst (generateShells ShellGeometry_constructor (Some quadIndexed))) \<noteq> []"
    using l by auto
  then show ?thesis using v l unfolding e by blast
qed

theorem shell_setters_clear_witness:
  "List.member validCurves ''linear'' \<and>
   getShellGeometries (setTaperingCurve ''linear''
     (fst (generateShells ShellGeometry_constructor (Some quadIndexed)))) = [] \<and>
   length (sg_disposed (setTaperingCurve ''linear''
     (fst (generateShells ShellGeometry_constructor (Some quadIndexed)))))
   = length (sg_disposed (fst (generateShells ShellGeometry_constructor (Some quadIndexed)))) + 16"
proof -
  let ?s = "fst (generateShells ShellGeometry_constructor (Some quadIndexed))"
  have v: "List.member validCurves ''linear''" by (simp add: validCurves_def)
  note t = shell_setters_clear[of _ ?s _ "''linear''"]
  have c: "getShellGeometries (setTaperingCurve ''linear'' ?s) = [] \<and>
      sg_disposed (setTaperingCurve ''linear'' ?s) = sg_disposed ?s @ sg_shellGeometries ?s"
    by (rule mp[OF t[THEN conjunct2, THEN conjunct2, THEN conjunct2, THEN conjunct2,
            THEN conjunct2, THEN conjunct1] v])
  have l: "length (sg_shellGeometries ?s) = 16"
    using constructor_shells by (simp add: getShellGeometries_def)
  show ?thesis using v c l by simp
qed

subsection \<open>The setters of the assembly\<close>

lemma shellBuilder_cleared:
  "sg_shellGeometries (shellBuilder s) = []"
  "sg_disposed (shellBuilder s)
     = sg_disposed (fr_shellGeometry s) @ sg_shellGeometries (fr_shellGeometry s)"
  "sg_geometryPool (shellBuilder s) = sg_geometryPool (fr_shellGeometry s)"
  by (simp_all add: shellBuilder_def setShellCount_def setShellSpacing_def
      setMaxShellDistance_def setTaperingEnabled_def setTaperingIntensity_def
      setTaperingCurve_def setTaperingMethod_def clearShells_def)

lemma clearShells_idle: "sg_shellGeometries b = [] \<Longrightarrow> clearShells b = b"
  by (simp add: clearShells_def)

lemma addToGeometryPool_disposed:
  "sg_disposed b = d \<Longrightarrow> take (length d) (sg_disposed (addToGeometryPool k gs b)) = d"
  by (auto simp: addToGeometryPool_def Let_def split: list.splits)

lemma generatePoolKey_base:
  "generatePoolKey (b\<lparr>sg_baseGeometry := x\<rparr>) g c = generatePoolKey b g c"
  by (simp add: generatePoolKey_def)

lemma generateShells_layers:
  assumes "sg_shellGeometries b = []"
  shows "snd (generateShells b (Some g)) = pooledOrBuiltLayers b g"
    and "sg_shellGeometries (fst (generateShells b (Some g))) = pooledOrBuiltLayers b g"
    and "take (length (sg_disposed b)) (sg_disposed (fst (generateShells b (Some g))))
         = sg_disposed b"
  unfolding generateShells_def clearShells_idle[OF assms] pooledOrBuiltLayers_def
  by (simp_all add: Let_def generatePoolKey_base assms addToGeometryPool_shells
      addToGeometryPool_disposed split: option.splits)

lemma generateShells_empty_pool:
  assumes "sg_shellGeometries b = []" "sg_geometryPool b = []"
  shows "fst (generateShells b (Some g))
         = b\<lparr> sg_shellGeometries := pooledOrBuiltLayers b g,
               sg_baseGeometry := Some g,
               sg_geometryPool := [(generatePoolKey b g (sg_shellCount b),
                                    pooledOrBuiltLayers b g)] \<rparr>"
  unfolding generateShells_def clearShells_idle[OF assms(1)] pooledOrBuiltLayers_def
  by (simp add: Let_def generatePoolKey_base assms addToGeometryPool_def maxPoolSize_def)

lemma FurRenderer_generateShells_run:
  assumes "fr_currentMesh s = Some g" "fr_shellEnabled s"
  shows "FurRenderer_generateShells s
         = s\<lparr> fr_shellGeometry := fst (generateShells (shellBuilder s) (Some g)),
               fr_shellMeshes := snd (generateShells (shellBuilder s) (Some g)),
               fr_disposedShells := fr_disposedShells s @ fr_shellMeshes s,
               fr_shellGenerations := fr_shellGenerations s + 1 \<rparr>"
  using assms
  by (simp add: FurRenderer_generateShells_def FurRenderer_clearShells_def shellBuilder_def
      Let_def split: prod.splits)

lemma FurRenderer_generateShells_effect:
  assumes "fr_currentMesh s = Some g" "fr_shellEnabled s"
  shows "shellsRegenerated g s (FurRenderer_generateShells s)"
proof -
  note l = generateShells_layers[OF shellBuilder_cleared(1), of s g]
  have d: "take (length (sg_disposed (fr_shellGeometry s) @ sg_shellGeometries (fr_shellGeometry s)))
             (sg_disposed (fst (generateShells (shellBuilder s) (Some g))))
           = sg_disposed (fr_shellGeometry s) @ sg_shellGeometries (fr_shellGeometry s)"
    using l(3) unfolding shellBuilder_cleared(2) .
  show ?thesis
    unfolding shellsRegenerated_def FurRenderer_generateShells_run[OF assms]
    using d l(1,2) by simp
qed

lemma createFinFromEdge_clearFins:
  "createFinFromEdge (FinGeometry_clearFins b) e p n = createFinFromEdge b e p n"
  by (simp add: createFinFromEdge_def FinGeometry_clearFins_def
      FinGeometry_calculateTaperingScale_def Let_def cong: if_cong)

lemma extractEdges_clearFins: "extractEdges (FinGeometry_clearFins b) g = extractEdges b g"
  by (simp add: extractEdges_def filterUniqueEdges_def FinGeometry_clearFins_def
      cong: option.case_cong)

lemma FinGeometry_generateFins_built:
  "FinGeometry_generateFins b (Some g) = (FinGeometry_clearFins b, builtFins b g)"
  by (simp add: FinGeometry_generateFins_def builtFins_def Let_def createFinFromEdge_clearFins
      extractEdges_clearFins)

lemma FurRenderer_generateFins_run:
  assumes "fr_currentMesh s = Some g" "fr_finEnabled s"
  shows "FurRenderer_generateFins s
         = s\<lparr> fr_finGeometry := FinGeometry_clearFins (finBuilder s),
               fr_finMeshes := builtFins (finBuilder s) g,
               fr_disposedFins := fr_disposedFins s @ fr_finMeshes s,
               fr_finGenerations := fr_finGenerations s + 1 \<rparr>"
  using assms
  by (simp add: FurRenderer_generateFins_def FurRenderer_clearFins_def finBuilder_def
      Let_def FinGeometry_generateFins_built)

lemma FurRenderer_generateFins_effect:
  assumes "fr_currentMesh s = Some g" "fr_finEnabled s"
  shows "finsRegenerated g s (FurRenderer_generateFins s)"
  unfolding finsRegenerated_def FurRenderer_generateFins_run[OF assms] by simp

lemma shellSetterOutcome_generate:
  "shellSetterOutcome s
     (if fr_shellEnabled s \<and> fr_currentMesh s \<noteq> None then FurRenderer_generateShells s else s)"
  by (cases "fr_currentMesh s")
     (simp_all add: shellSetterOutcome_def FurRenderer_generateShells_effect)

lemma finSetterOutcome_generate:
  "finSetterOutcome s
     (if fr_finEnabled s \<and> fr_currentMesh s \<noteq> None then FurRenderer_generateFins s else s)"
  by (cases "fr_currentMesh s")
     (simp_all add: finSetterOutcome_def FurRenderer_generateFins_effect)

lemma quad_fin_builder:
  "finBuilder (FurRenderer_constructor\<lparr>fr_currentMesh := Some quadIndexed\<rparr>)
   = quadFinBuilder"
  by (simp add: finBuilder_def FurRenderer_constructor_def FinGeometry_constructor_def
      quadFinBuilder_def
      FinGeometry_setFinLength_def FinGeometry_setMaxFinCount_def
      FinGeometry_setTaperingEnabled_def FinGeometry_setTaperingIntensity_def
      FinGeometry_setTaperingCurve_def FinGeometry_setTaperingMethod_def
      validCurves_def validMethods_def)

lemma quad_after_fins:
  "FurRenderer_generateFins (FurRenderer_constructor\<lparr>fr_currentMesh := Some quadIndexed\<rparr>)
   = FurRenderer_constructor
       \<lparr> fr_currentMesh := Some quadIndexed,
         fr_finGeometry := quadFinBuilder,
         fr_finMeshes := builtFins quadFinBuilder quadIndexed,
         fr_finGenerations := 1 \<rparr>"
proof -
  have m: "fr_currentMesh (FurRenderer_constructor\<lparr>fr_currentMesh := Some quadIndexed\<rparr>)
           = Some quadIndexed"
    by simp
  have e: "fr_finEnabled (FurRenderer_constructor\<lparr>fr_currentMesh := Some quadIndexed\<rparr>)"
    by (simp add: FurRenderer_constructor_def)
  show ?thesis unfolding FurRenderer_generateFins_run[OF m e] quad_fin_builder
    by (simp add: FurRenderer_constructor_def FinGeometry_clearFins_def
        FinGeometry_constructor_def quadFinBuilder_def)
qed

lemma shellBuilder_parameters:
  "sg_shellCount (shellBuilder s)
     = Math_max (Num 8) (Math_min (Num 32) (Math_floor (fr_shellCount s)))"
  "sg_shellSpacing (shellBuilder s) = Math_max (Num 0.001) (fr_shellSpacing s)"
  "sg_maxShellDistance (shellBuilder s) = Math_max (Num 0.01) (fr_maxShellDistance s)"
  "sg_taperingEnabled (shellBuilder s) = fr_taperingEnabled s"
  "sg_taperingIntensity (shellBuilder s)
     = Math_max (Num 0) (Math_min (Num 1) (fr_taperingIntensity s))"
  "List.member validCurves (fr_taperingCurve s) \<Longrightarrow>
     sg_taperingCurve (shellBuilder s) = fr_taperingCurve s"
  "List.member validMethods (fr_taperingMethod s) \<Longrightarrow>
     sg_taperingMethod (shellBuilder s) = fr_taperingMethod s"
  by (simp_all add: shellBuilder_def setShellCount_def setShellSpacing_def
      setMaxShellDistance_def setTaperingEnabled_def setTaperingIntensity_def
      setTaperingCurve_def setTaperingMethod_def clearShells_def)

lemma quad_shell_builder:
  "shellBuilder
     (FurRenderer_generateFins (FurRenderer_constructor\<lparr>fr_currentMesh := Some quadIndexed\<rparr>))
   = quadShellBuilder"
  unfolding quad_after_fins
  by (simp add: shellBuilder_def FurRenderer_constructor_def ShellGeometry_constructor_def
      quadShellBuilder_def
      setShellCount_def setShellSpacing_def
      setMaxShellDistance_def setTaperingEnabled_def setTaperingIntensity_def
      setTaperingCurve_def setTaperingMethod_def clearShells_def validCurves_def validMethods_def)

lemma FurRenderer_generateFins_enabled:
  "fr_shellEnabled (FurRenderer_generateFins s) = fr_shellEnabled s"
  by (simp add: FurRenderer_generateFins_def FurRenderer_clearFins_def Let_def split: prod.splits)

lemma setMesh_fresh:
  assumes "fr_currentMesh s = None" "fr_finEnabled s" "fr_shellEnabled s"
  shows "setMesh (Some g) s
         = FurRenderer_generateShells (FurRenderer_generateFins (s\<lparr>fr_currentMesh := Some g\<rparr>))"
  using assms by (simp add: setMesh_def Let_def FurRenderer_generateFins_enabled)

lemma shellLayers_miss_length:
  assumes "map_of (sg_geometryPool b) (generatePoolKey b g (sg_shellCount b)) = None"
    and "sg_shellCount b = Num (real n)"
  shows "length (pooledOrBuiltLayers b g) = n"
proof -
  have base: "sg_baseGeometry (b\<lparr>sg_baseGeometry := Some g\<rparr>) = Some g" by simp
  have "pooledOrBuiltLayers b g
        = shellLayersLoop (b\<lparr>sg_baseGeometry := Some g\<rparr>) 1 (Num (real n)) []"
    using assms by (simp add: pooledOrBuiltLayers_def)
  then show ?thesis unfolding shellLayersLoop_map[OF base] by simp
qed

lemma quad_layers_length: "length quadLayers = 24"
  unfolding quadLayers_def
  by (rule shellLayers_miss_length[where n = 24])
     (simp_all add: quadShellBuilder_def ShellGeometry_constructor_def)

lemma quad_state:
  "quadAssembly = FurRenderer_constructor
       \<lparr> fr_currentMesh := Some quadIndexed,
         fr_finGeometry := quadFinBuilder,
         fr_finMeshes := builtFins quadFinBuilder quadIndexed,
         fr_finGenerations := 1,
         fr_shellGeometry := quadShellBuilder\<lparr> sg_shellGeometries := quadLayers,
               sg_baseGeometry := Some quadIndexed,
               sg_geometryPool := [(quadKey, quadLayers)] \<rparr>,
         fr_shellMeshes := quadLayers,
         fr_shellGenerations := 1 \<rparr>"
proof -
  let ?s1 = "FurRenderer_generateFins
               (FurRenderer_constructor\<lparr>fr_currentMesh := Some quadIndexed\<rparr>)"
  have a: "quadAssembly = FurRenderer_generateShells ?s1"
    unfolding quadAssembly_def
    by (rule setMesh_fresh) (simp_all add: FurRenderer_constructor_def)
  have m: "fr_currentMesh ?s1 = Some quadIndexed" unfolding quad_after_fins by simp
  have e: "fr_shellEnabled ?s1"
    unfolding quad_after_fins by (simp add: FurRenderer_constructor_def)
  have g: "sg_shellGeometries quadShellBuilder = []" "sg_geometryPool quadShellBuilder = []"
    "sg_shellCount quadShellBuilder = Num 24"
    by (simp_all add: ShellGeometry_constructor_def quadShellBuilder_def)
  show ?thesis
    unfolding a FurRenderer_generateShells_run[OF m e] quad_shell_builder
      generateShells_empty_pool[OF g(1,2)] generateShells_layers(1)[OF g(1)] g(3)
    unfolding quad_after_fins
    by (simp add: FurRenderer_constructor_def quadLayers_def quadKey_def)
qed

lemma generateShells_hit:
  assumes "sg_shellGeometries b = []"
    and "map_of (sg_geometryPool b) (generatePoolKey b g (sg_shellCount b)) = Some P"
  shows "generateShells b (Some g)
         = (b\<lparr>sg_baseGeometry := Some g, sg_shellGeometries := P\<rparr>, P)"
  unfolding generateShells_def clearShells_idle[OF assms(1)]
  by (simp add: Let_def generatePoolKey_base assms)

lemma extractEdges_cap:
  "fg_maxFinCount a = fg_maxFinCount b \<Longrightarrow> extractEdges a g = extractEdges b g"
  by (simp add: extractEdges_def filterUniqueEdges_def cong: option.case_cong)

lemma fin_tapered_createFinFromEdge:
  "fin_tapered (createFinFromEdge b e p n) = fg_taperingEnabled b"
  by (auto simp: createFinFromEdge_def Let_def split: prod.splits)

lemma fin_tapered_builtFins:
  "map fin_tapered (builtFins b g) = replicate (length (extractEdges b g)) (fg_taperingEnabled b)"
proof -
  have "map fin_tapered (builtFins b g) = map (\<lambda>e. fg_taperingEnabled b) (extractEdges b g)"
    by (simp add: builtFins_def fin_tapered_createFinFromEdge)
  then show ?thesis by (simp add: map_replicate_const)
qed

lemma quad_edges_cap:
  assumes "fg_maxFinCount b = Num 2000"
  shows "length (extractEdges b quadIndexed) = 5"
proof -
  have "extractEdges b quadIndexed = extractEdges quadFinBuilder quadIndexed"
    by (rule extractEdges_cap) (simp add: assms quadFinBuilder_def)
  also have "\<dots> = [Edge (Some 0) (Some 1), Edge None (Some 1), Edge (Some 0) None,
      Edge (Some 0) (Some 2), Edge None (Some 2)]"
    by code_simp
  finally show ?thesis by simp
qed

lemma quad_shell_builder_again:
  "shellBuilder quadAssembly = quadShellBuilder\<lparr> sg_baseGeometry := Some quadIndexed,
               sg_geometryPool := [(quadKey, quadLayers)], sg_disposed := quadLayers \<rparr>"
  unfolding quad_state
  by (simp add: shellBuilder_def FurRenderer_constructor_def ShellGeometry_constructor_def
      quadShellBuilder_def
      setShellCount_def setShellSpacing_def
      setMaxShellDistance_def setTaperingEnabled_def setTaperingIntensity_def
      setTaperingCurve_def setTaperingMethod_def clearShells_def validCurves_def validMethods_def)

lemma quad_guard:
  "fr_currentMesh quadAssembly = Some quadIndexed"
  "fr_shellEnabled quadAssembly"
  "fr_finEnabled quadAssembly"
  unfolding quad_state by (simp_all add: FurRenderer_constructor_def)

lemma quad_same_count:
  "FurRenderer_setShellCount (Num 24) quadAssembly = FurRenderer_generateShells quadAssembly"
proof -
  have "quadAssembly\<lparr>fr_shellCount := Math_max (Num 8) (Math_min (Num 32) (Math_floor (Num 24)))\<rparr>
        = quadAssembly"
    unfolding quad_state by (simp add: FurRenderer_constructor_def)
  then show ?thesis by (simp add: FurRenderer_setShellCount_def Let_def quad_guard)
qed

lemma quad_regenerated_shells:
  "generateShells (shellBuilder quadAssembly) (Some quadIndexed)
   = (quadShellBuilder\<lparr> sg_baseGeometry := Some quadIndexed, sg_geometryPool := [(quadKey, quadLayers)],
            sg_disposed := quadLayers, sg_shellGeometries := quadLayers \<rparr>, quadLayers)"
proof -
  let ?b = "quadShellBuilder\<lparr> sg_baseGeometry := Some quadIndexed,
               sg_geometryPool := [(quadKey, quadLayers)], sg_disposed := quadLayers \<rparr>"
  have e: "sg_shellGeometries ?b = []"
    by (simp add: ShellGeometry_constructor_def quadShellBuilder_def)
  have h: "map_of (sg_geometryPool ?b) (generatePoolKey ?b quadIndexed (sg_shellCount ?b))
           = Some quadLayers"
    by (simp add: generatePoolKey_def quadKey_def ShellGeometry_constructor_def
        quadShellBuilder_def)
  show ?thesis unfolding quad_shell_builder_again generateShells_hit[OF e h] by simp
qed

lemma quad_fin_builder_again: "finBuilder quadAssembly = quadFinBuilder"
  unfolding quad_state
  by (simp add: finBuilder_def FurRenderer_constructor_def FinGeometry_constructor_def
      quadFinBuilder_def
      FinGeometry_setFinLength_def FinGeometry_setMaxFinCount_def
      FinGeometry_setTaperingEnabled_def FinGeometry_setTaperingIntensity_def
      FinGeometry_setTaperingCurve_def FinGeometry_setTaperingMethod_def
      validCurves_def validMethods_def)

lemma quad_same_length:
  "FurRenderer_setFinLength (Num 0.05) quadAssembly = FurRenderer_generateFins quadAssembly"
proof -
  have "quadAssembly\<lparr>fr_finLength := Math_max (Num 0) (Num 0.05)\<rparr> = quadAssembly"
    unfolding quad_state by (simp add: FurRenderer_constructor_def)
  then show ?thesis by (simp add: FurRenderer_setFinLength_def Let_def quad_guard)
qed

lemma quad_fields:
  "fr_shellCount quadAssembly = Num 24"
  "fr_finLength quadAssembly = Num 0.05"
  "fr_shellGenerations quadAssembly = 1"
  "fr_finGenerations quadAssembly = 1"
  "fr_shellMeshes quadAssembly = quadLayers"
  "fr_finMeshes quadAssembly = builtFins quadFinBuilder quadIndexed"
  "fr_disposedShells quadAssembly = []"
  "fr_disposedFins quadAssembly = []"
  "sg_disposed (fr_shellGeometry quadAssembly) = []"
  "sg_shellGeometries (fr_shellGeometry quadAssembly) = quadLayers"
  unfolding quad_state
  by (simp_all add: FurRenderer_constructor_def ShellGeometry_constructor_def
      quadShellBuilder_def)

lemma shellsRegeneratedD:
  assumes "shellsRegenerated g s t"
  shows "fr_disposedShells t = fr_disposedShells s @ fr_shellMeshes s"
    and "fr_shellMeshes t = pooledOrBuiltLayers (shellBuilder s) g"
  using assms unfolding shellsRegenerated_def by blast+

lemma finsRegeneratedD:
  assumes "finsRegenerated g s t"
  shows "fr_disposedFins t = fr_disposedFins s @ fr_finMeshes s"
    and "fr_finMeshes t = builtFins (finBuilder s) g"
  using assms unfolding finsRegenerated_def by blast+

text \<open>
  C2, amended. No parameter setter of the assembly compares its argument with the stored
  value. Each of the thirteen setters stores the argument, clamped where the setter
  clamps; the four setters of a tapering curve or method do so for a valid name only and
  leave the assembly unchanged for any other. With the value stored, and the kind of
  geometry the setter controls enabled and a mesh set, the geometry is regenerated,
  whether or not the value has changed. For a fin setter (fin length, maximal fin count,
  fin tapering flag, intensity, curve, method) the fins in use are disposed and replaced
  by one newly built fin per extracted edge, built with the stored fin parameters. For a
  shell setter (shell count, spacing, maximal distance, tapering flag, intensity, curve,
  method) the shell geometries in use are disposed, the builder runs \<open>generateShells\<close>
  with the stored shell parameters, and the shell list becomes the builder's layers for
  them: the pooled layers when the builder's pool has them, newly built layers otherwise.
  With the geometry disabled or no mesh set, storing the value is all the setter does.
\<close>

theorem setters_always_regenerate:
  "shellSetterOutcome
     (s\<lparr>fr_shellCount := Math_max (Num 8) (Math_min (Num 32) (Math_floor c))\<rparr>)
     (FurRenderer_setShellCount c s) \<and>
   shellSetterOutcome (s\<lparr>fr_shellSpacing := Math_max (Num 0.001) c\<rparr>)
     (FurRenderer_setShellSpacing c s) \<and>
   shellSetterOutcome (s\<lparr>fr_maxShellDistance := Math_max (Num 0.01) c\<rparr>)
     (FurRenderer_setMaxShellDistance c s) \<and>
   shellSetterOutcome (s\<lparr>fr_taperingEnabled := b\<rparr>) (FurRenderer_setTaperingEnabled b s) \<and>
   shellSetterOutcome (s\<lparr>fr_taperingIntensity := Math_max (Num 0) (Math_min (Num 1) c)\<rparr>)
     (FurRenderer_setTaperingIntensity c s) \<and>
   (if List.member validCurves name
    then shellSetterOutcome (s\<lparr>fr_taperingCurve := name\<rparr>) (FurRenderer_setTaperingCurve name s)
    else FurRenderer_setTaperingCurve name s = s) \<and>
   (if List.member validMethods name
    then shellSetterOutcome (s\<lparr>fr_taperingMethod := name\<rparr>) (FurRenderer_setTaperingMethod name s)
    else FurRenderer_setTaperingMethod name s = s) \<and>
   finSetterOutcome (s\<lparr>fr_finLength := Math_max (Num 0) c\<rparr>) (FurRenderer_setFinLength c s) \<and>
   finSetterOutcome
     (s\<lparr>fr_maxFinCount := Math_max (Num 200) (Math_min (Num 2000) (Math_floor c))\<rparr>)
     (FurRenderer_setMaxFinCount c s) \<and>
   finSetterOutcome (s\<lparr>fr_finTaperingEnabled := b\<rparr>) (FurRenderer_setFinTaperingEnabled b s) \<and>
   finSetterOutcome (s\<lparr>fr_finTaperingIntensity := Math_max (Num 0) (Math_min (Num 1) c)\<rparr>)
     (FurRenderer_setFinTaperingIntensity c s) \<and>
   (if List.member validCurves name
    then finSetterOutcome (s\<lparr>fr_finTaperingCurve := name\<rparr>)
           (FurRenderer_setFinTaperingCurve name s)
    else FurRenderer_setFinTaperingCurve name s = s) \<and>
   (if List.member validMethods name
    then finSetterOutcome (s\<lparr>fr_finTaperingMethod := name\<rparr>)
           (FurRenderer_setFinTaperingMethod name s)
    else FurRenderer_setFinTaperingMethod name s = s)"
proof -
  have 1: "shellSetterOutcome
     (s\<lparr>fr_shellCount := Math_max (Num 8) (Math_min (Num 32) (Math_floor c))\<rparr>)
     (FurRenderer_setShellCount c s)"
    unfolding FurRenderer_setShellCount_def Let_def by (rule shellSetterOutcome_generate)
  have 2: "shellSetterOutcome (s\<lparr>fr_shellSpacing := Math_max (Num 0.001) c\<rparr>)
     (FurRenderer_setShellSpacing c s)"
    unfolding FurRenderer_setShellSpacing_def Let_def by (rule shellSetterOutcome_generate)
  have 3: "shellSetterOutcome (s\<lparr>fr_maxShellDistance := Math_max (Num 0.01) c\<rparr>)
     (FurRenderer_setMaxShellDistance c s)"
    unfolding FurRenderer_setMaxShellDistance_def Let_def by (rule shellSetterOutcome_generate)
  have 4: "shellSetterOutcome (s\<lparr>fr_taperingEnabled := b\<rparr>) (FurRenderer_setTaperingEnabled b s)"
    unfolding FurRenderer_setTaperingEnabled_def Let_def by (rule shellSetterOutcome_generate)
  have 5: "shellSetterOutcome (s\<lparr>fr_taperingIntensity := Math_max (Num 0) (Math_min (Num 1) c)\<rparr>)
     (FurRenderer_setTaperingIntensity c s)"
    unfolding FurRenderer_setTaperingIntensity_def Let_def by (rule shellSetterOutcome_generate)
  have 6: "if List.member validCurves name
    then shellSetterOutcome (s\<lparr>fr_taperingCurve := name\<rparr>) (FurRenderer_setTaperingCurve name s)
    else FurRenderer_setTaperingCurve name s = s"
  proof (cases "List.member validCurves name")
    case True
    have "shellSetterOutcome (s\<lparr>fr_taperingCurve := name\<rparr>) (FurRenderer_setTaperingCurve name s)"
      unfolding FurRenderer_setTaperingCurve_def Let_def if_P[OF True]
      by (rule shellSetterOutcome_generate)
    then show ?thesis using True by simp
  next
    case False
    then show ?thesis by (simp add: FurRenderer_setTaperingCurve_def)
  qed
  have 7: "if List.member validMethods name
    then shellSetterOutcome (s\<lparr>fr_taperingMethod := name\<rparr>) (FurRenderer_setTaperingMethod name s)
    else FurRenderer_setTaperingMethod name s = s"
  proof (cases "List.member validMethods name")
    case True
    have "shellSetterOutcome (s\<lparr>fr_taperingMethod := name\<rparr>) (FurRenderer_setTaperingMethod name s)"
      unfolding FurRenderer_setTaperingMethod_def Let_def if_P[OF True]
      by (rule shellSetterOutcome_generate)
    then show ?thesis using True by simp
  next
    case False
    then show ?thesis by (simp add: FurRenderer_setTaperingMethod_def)
  qed
  have 8: "finSetterOutcome (s\<lparr>fr_finLength := Math_max (Num 0) c\<rparr>) (FurRenderer_setFinLength c s)"
    unfolding FurRenderer_setFinLength_def Let_def by (rule finSetterOutcome_generate)
  have 9: "finSetterOutcome
     (s\<lparr>fr_maxFinCount := Math_max (Num 200) (Math_min (Num 2000) (Math_floor c))\<rparr>)
     (FurRenderer_setMaxFinCount c s)"
    unfolding FurRenderer_setMaxFinCount_def Let_def by (rule finSetterOutcome_generate)
  have 10: "finSetterOutcome (s\<lparr>fr_finTaperingEnabled := b\<rparr>) (FurRenderer_setFinTaperingEnabled b s)"
    unfolding FurRenderer_setFinTaperingEnabled_def Let_def by (rule finSetterOutcome_generate)
  have 11: "finSetterOutcome (s\<lparr>fr_finTaperingIntensity := Math_max (Num 0) (Math_min (Num 1) c)\<rparr>)
     (FurRenderer_setFinTaperingIntensity c s)"
    unfolding FurRenderer_setFinTaperingIntensity_def Let_def by (rule finSetterOutcome_generate)
  have 12: "if List.member validCurves name
    then finSetterOutcome (s\<lparr>fr_finTaperingCurve := name\<rparr>)
           (FurRenderer_setFinTaperingCurve name s)
    else FurRenderer_setFinTaperingCurve name s = s"
  proof (cases "List.member validCurves name")
    case True
    have "finSetterOutcome (s\<lparr>fr_finTaperingCurve := name\<rparr>) (FurRenderer_setFinTaperingCurve name s)"
      unfolding FurRenderer_setFinTaperingCurve_def Let_def if_P[OF True]
      by (rule finSetterOutcome_generate)
    then show ?thesis using True by simp
  next
    case False
    then show ?thesis by (simp add: FurRenderer_setFinTaperingCurve_def)
  qed
  have 13: "if List.member validMethods name
    then finSetterOutcome (s\<lparr>fr_finTaperingMethod := name\<rparr>)
           (FurRenderer_setFinTaperingMethod name s)
    else FurRenderer_setFinTaperingMethod name s = s"
  proof (cases "List.member validMethods name")
    case True
    have "finSetterOutcome (s\<lparr>fr_finTaperingMethod := name\<rparr>) (FurRenderer_setFinTaperingMethod name s)"
      unfolding FurRenderer_setFinTaperingMethod_def Let_def if_P[OF True]
      by (rule finSetterOutcome_generate)
    then show ?thesis using True by simp
  next
    case False
    then show ?thesis by (simp add: FurRenderer_setFinTaperingMethod_def)
  qed
  show ?thesis by (intro conjI 1 2 3 4 5 6 7 8 9 10 11 12 13)
qed

text \<open>
  C2, as stated, fails: with the quad as the mesh, the shell count is 24 and the shells
  have been generated once; \<open>setShellCount(24)\<close> stores 24 again and generates them a
  second time: the 24 shell geometries in use are disposed, by the assembly and by the
  builder, and the shell list is filled again, here with the layers the builder's pool
  holds for the unchanged parameters. The same holds for \<open>setFinLength(0.05)\<close> and the
  fins: the 5 fins in use are disposed and 5 fins are built again.
\<close>

theorem same_value_regenerates:
  "fr_shellCount quadAssembly = Num 24 \<and>
   fr_shellGenerations quadAssembly = 1 \<and>
   fr_shellGenerations (FurRenderer_setShellCount (Num 24) quadAssembly) = 2 \<and>
   fr_shellCount (FurRenderer_setShellCount (Num 24) quadAssembly) = Num 24 \<and>
   fr_finLength quadAssembly = Num 0.05 \<and>
   fr_finGenerations quadAssembly = 1 \<and>
   fr_finGenerations (FurRenderer_setFinLength (Num 0.05) quadAssembly) = 2 \<and>
   length (fr_shellMeshes quadAssembly) = 24 \<and>
   fr_disposedShells quadAssembly = [] \<and>
   sg_disposed (fr_shellGeometry quadAssembly) = [] \<and>
   fr_disposedShells (FurRenderer_setShellCount (Num 24) quadAssembly) = fr_shellMeshes quadAssembly \<and>
   sg_disposed (fr_shellGeometry (FurRenderer_setShellCount (Num 24) quadAssembly))
     = fr_shellMeshes quadAssembly \<and>
   fr_shellMeshes (FurRenderer_setShellCount (Num 24) quadAssembly) = fr_shellMeshes quadAssembly \<and>
   length (fr_finMeshes quadAssembly) = 5 \<and>
   fr_disposedFins quadAssembly = [] \<and>
   fr_disposedFins (FurRenderer_setFinLength (Num 0.05) quadAssembly) = fr_finMeshes quadAssembly \<and>
   length (fr_finMeshes (FurRenderer_setFinLength (Num 0.05) quadAssembly)) = 5"
proof -
  have sh: "FurRenderer_setShellCount (Num 24) quadAssembly
      = quadAssembly\<lparr> fr_shellGeometry := quadShellBuilder\<lparr> sg_baseGeometry := Some quadIndexed,
                  sg_geometryPool := [(quadKey, quadLayers)], sg_disposed := quadLayers,
                  sg_shellGeometries := quadLayers \<rparr>,
               fr_shellMeshes := quadLayers,
               fr_disposedShells := fr_disposedShells quadAssembly @ fr_shellMeshes quadAssembly,
               fr_shellGenerations := fr_shellGenerations quadAssembly + 1 \<rparr>"
    unfolding quad_same_count FurRenderer_generateShells_run[OF quad_guard(1,2)]
      quad_regenerated_shells by simp
  have fi: "FurRenderer_setFinLength (Num 0.05) quadAssembly
      = quadAssembly\<lparr> fr_finGeometry := FinGeometry_clearFins quadFinBuilder,
               fr_finMeshes := builtFins quadFinBuilder quadIndexed,
               fr_disposedFins := fr_disposedFins quadAssembly @ fr_finMeshes quadAssembly,
               fr_finGenerations := fr_finGenerations quadAssembly + 1 \<rparr>"
    unfolding quad_same_length FurRenderer_generateFins_run[OF quad_guard(1,3)]
      quad_fin_builder_again by simp
  have n: "length (builtFins quadFinBuilder quadIndexed) = 5"
    by (simp add: builtFins_def quad_edges_cap quadFinBuilder_def)
  have 3: "fr_shellGenerations (FurRenderer_setShellCount (Num 24) quadAssembly) = 2"
    unfolding sh by (simp add: quad_fields)
  have 4: "fr_shellCount (FurRenderer_setShellCount (Num 24) quadAssembly) = Num 24"
    unfolding sh by (simp add: quad_fields)
  have 7: "fr_finGenerations (FurRenderer_setFinLength (Num 0.05) quadAssembly) = 2"
    unfolding fi by (simp add: quad_fields)
  have 8: "length (fr_shellMeshes quadAssembly) = 24"
    unfolding quad_fields by (rule quad_layers_length)
  have 11: "fr_disposedShells (FurRenderer_setShellCount (Num 24) quadAssembly)
            = fr_shellMeshes quadAssembly"
    unfolding sh by (simp add: quad_fields)
  have 12: "sg_disposed (fr_shellGeometry (FurRenderer_setShellCount (Num 24) quadAssembly))
            = fr_shellMeshes quadAssembly"
    unfolding sh by (simp add: quad_fields)
  have 13: "fr_shellMeshes (FurRenderer_setShellCount (Num 24) quadAssembly)
            = fr_shellMeshes quadAssembly"
    unfolding sh by (simp add: quad_fields)
  have 14: "length (fr_finMeshes quadAssembly) = 5"
    unfolding quad_fields by (rule n)
  have 16: "fr_disposedFins (FurRenderer_setFinLength (Num 0.05) quadAssembly)
            = fr_finMeshes quadAssembly"
    unfolding fi by (simp add: quad_fields)
  have 17: "length (fr_finMeshes (FurRenderer_setFinLength (Num 0.05) quadAssembly)) = 5"
    unfolding fi using n by simp
  show ?thesis
    by (intro conjI quad_fields(1) quad_fields(3) 3 4 quad_fields(2) quad_fields(4) 7 8
        quad_fields(7) quad_fields(9) 11 12 13 14 quad_fields(8) 16 17)
qed

theorem setters_always_regenerate_witness:
  "fr_currentMesh quadAssembly = Some quadIndexed \<and>
   fr_shellEnabled quadAssembly \<and>
   fr_finEnabled quadAssembly \<and>
   length (fr_shellMeshes quadAssembly) = 24 \<and>
   length (fr_shellMeshes (FurRenderer_setShellCount (Num 8) quadAssembly)) = 8 \<and>
   fr_disposedShells (FurRenderer_setShellCount (Num 8) quadAssembly) = fr_shellMeshes quadAssembly \<and>
   List.member validCurves ''linear'' \<and>
   length (fr_shellMeshes (FurRenderer_setTaperingCurve ''linear'' quadAssembly)) = 24 \<and>
   fr_disposedShells (FurRenderer_setTaperingCurve ''linear'' quadAssembly) = fr_shellMeshes quadAssembly \<and>
   map fin_tapered (fr_finMeshes quadAssembly) = replicate 5 True \<and>
   map fin_tapered (fr_finMeshes (FurRenderer_setFinTaperingEnabled False quadAssembly))
     = replicate 5 False \<and>
   fr_disposedFins (FurRenderer_setFinTaperingEnabled False quadAssembly) = fr_finMeshes quadAssembly \<and>
   \<not> List.member validCurves ''cubic'' \<and>
   FurRenderer_setFinTaperingCurve ''cubic'' quadAssembly = quadAssembly \<and>
   fr_currentMesh FurRenderer_constructor = None \<and>
   FurRenderer_setShellSpacing (Num 0.01) FurRenderer_constructor
     = FurRenderer_constructor\<lparr>fr_shellSpacing := Num 0.01\<rparr>"
proof -
  let ?s8 = "quadAssembly\<lparr>fr_shellCount := Num 8\<rparr>"
  let ?t8 = "FurRenderer_setShellCount (Num 8) quadAssembly"
  let ?sl = "quadAssembly\<lparr>fr_taperingCurve := ''linear''\<rparr>"
  let ?tl = "FurRenderer_setTaperingCurve ''linear'' quadAssembly"
  let ?sf = "quadAssembly\<lparr>fr_finTaperingEnabled := False\<rparr>"
  let ?tf = "FurRenderer_setFinTaperingEnabled False quadAssembly"
  have cubic: "\<not> List.member validCurves ''cubic''" by (simp add: validCurves_def)
  have linear: "List.member validCurves ''linear''" by (simp add: validCurves_def)
  have nomesh: "fr_currentMesh FurRenderer_constructor = None"
    by (simp add: FurRenderer_constructor_def)
  have "shellSetterOutcome
      (quadAssembly\<lparr>fr_shellCount := Math_max (Num 8) (Math_min (Num 32) (Math_floor (Num 8)))\<rparr>)
      ?t8"
    using setters_always_regenerate[where s = "quadAssembly" and c = "Num 8"] by (rule conjunct1)
  then have "shellSetterOutcome ?s8 ?t8" by simp
  then have r8: "shellsRegenerated quadIndexed ?s8 ?t8"
    by (simp add: shellSetterOutcome_def quad_guard)
  have b8: "shellBuilder ?s8
            = quadShellBuilder\<lparr> sg_shellCount := Num 8, sg_baseGeometry := Some quadIndexed,
               sg_geometryPool := [(quadKey, quadLayers)], sg_disposed := quadLayers \<rparr>"
    unfolding quad_state
    by (simp add: shellBuilder_def FurRenderer_constructor_def ShellGeometry_constructor_def
      quadShellBuilder_def
      setShellCount_def setShellSpacing_def
      setMaxShellDistance_def setTaperingEnabled_def setTaperingIntensity_def
      setTaperingCurve_def setTaperingMethod_def clearShells_def validCurves_def validMethods_def)
  have miss: "map_of (sg_geometryPool (shellBuilder ?s8))
      (generatePoolKey (shellBuilder ?s8) quadIndexed (sg_shellCount (shellBuilder ?s8))) = None"
    unfolding b8
    by (simp add: generatePoolKey_def quadKey_def ShellGeometry_constructor_def
        quadShellBuilder_def)
  have n8: "sg_shellCount (shellBuilder ?s8) = Num (real (8::nat))"
    unfolding b8 by simp
  have 5: "length (fr_shellMeshes ?t8) = 8"
    unfolding shellsRegeneratedD(2)[OF r8] by (rule shellLayers_miss_length[OF miss n8])
  have 6: "fr_disposedShells ?t8 = fr_shellMeshes quadAssembly"
    unfolding shellsRegeneratedD(1)[OF r8] by (simp add: quad_fields)
  have "if List.member validCurves ''linear''
        then shellSetterOutcome ?sl ?tl
        else FurRenderer_setTaperingCurve ''linear'' quadAssembly = quadAssembly"
    by (rule setters_always_regenerate[where s = "quadAssembly" and name = "''linear''",
          THEN conjunct2, THEN conjunct2, THEN conjunct2, THEN conjunct2, THEN conjunct2,
          THEN conjunct1])
  then have "shellSetterOutcome ?sl ?tl" unfolding if_P[OF linear] .
  then have rl: "shellsRegenerated quadIndexed ?sl ?tl"
    by (simp add: shellSetterOutcome_def quad_guard)
  have bl: "shellBuilder ?sl = quadShellBuilder\<lparr> sg_taperingCurve := ''linear'',
               sg_baseGeometry := Some quadIndexed,
               sg_geometryPool := [(quadKey, quadLayers)], sg_disposed := quadLayers \<rparr>"
    unfolding quad_state
    by (simp add: shellBuilder_def FurRenderer_constructor_def ShellGeometry_constructor_def
      quadShellBuilder_def setShellCount_def setShellSpacing_def
      setMaxShellDistance_def setTaperingEnabled_def setTaperingIntensity_def
      setTaperingCurve_def setTaperingMethod_def clearShells_def validCurves_def validMethods_def)
  have missl: "map_of (sg_geometryPool (shellBuilder ?sl))
      (generatePoolKey (shellBuilder ?sl) quadIndexed (sg_shellCount (shellBuilder ?sl))) = None"
    unfolding bl by (simp add: generatePoolKey_def quadKey_def ShellGeometry_constructor_def
        quadShellBuilder_def)
  have nl: "sg_shellCount (shellBuilder ?sl) = Num (real (24::nat))"
    unfolding bl by (simp add: quadShellBuilder_def)
  have l2: "length (fr_shellMeshes ?tl) = 24"
    unfolding shellsRegeneratedD(2)[OF rl] by (rule shellLayers_miss_length[OF missl nl])
  have l3: "fr_disposedShells ?tl = fr_shellMeshes quadAssembly"
    unfolding shellsRegeneratedD(1)[OF rl] by (simp add: quad_fields)
  have "finSetterOutcome ?sf ?tf"
    by (rule setters_always_regenerate[where s = "quadAssembly" and b = False,
          THEN conjunct2, THEN conjunct2, THEN conjunct2, THEN conjunct2, THEN conjunct2,
          THEN conjunct2, THEN conjunct2, THEN conjunct2, THEN conjunct2, THEN conjunct1])
  then have rf: "finsRegenerated quadIndexed ?sf ?tf"
    by (simp add: finSetterOutcome_def quad_guard)
  have bf: "finBuilder ?sf = quadFinBuilder\<lparr>fg_taperingEnabled := False\<rparr>"
    unfolding quad_state
    by (simp add: finBuilder_def FurRenderer_constructor_def FinGeometry_constructor_def
      quadFinBuilder_def
      FinGeometry_setFinLength_def FinGeometry_setMaxFinCount_def
      FinGeometry_setTaperingEnabled_def FinGeometry_setTaperingIntensity_def
      FinGeometry_setTaperingCurve_def FinGeometry_setTaperingMethod_def
      validCurves_def validMethods_def)
  have 7: "map fin_tapered (fr_finMeshes quadAssembly) = replicate 5 True"
    unfolding quad_fields fin_tapered_builtFins
    by (simp add: quad_edges_cap FinGeometry_constructor_def quadFinBuilder_def)
  have 8: "map fin_tapered (fr_finMeshes ?tf) = replicate 5 False"
    unfolding finsRegeneratedD(2)[OF rf] bf fin_tapered_builtFins
    by (simp add: quad_edges_cap quadFinBuilder_def)
  have 9: "fr_disposedFins ?tf = fr_finMeshes quadAssembly"
    unfolding finsRegeneratedD(1)[OF rf] by (simp add: quad_fields)
  have "if List.member validCurves ''cubic''
        then finSetterOutcome (quadAssembly\<lparr>fr_finTaperingCurve := ''cubic''\<rparr>)
               (FurRenderer_setFinTaperingCurve ''cubic'' quadAssembly)
        else FurRenderer_setFinTaperingCurve ''cubic'' quadAssembly = quadAssembly"
    by (rule setters_always_regenerate[where s = "quadAssembly" and name = "''cubic''",
          THEN conjunct2, THEN conjunct2, THEN conjunct2, THEN conjunct2, THEN conjunct2,
          THEN conjunct2, THEN conjunct2, THEN conjunct2, THEN conjunct2, THEN conjunct2,
          THEN conjunct2, THEN conjunct1])
  then have 11: "FurRenderer_setFinTaperingCurve ''cubic'' quadAssembly = quadAssembly"
    unfolding if_not_P[OF cubic] .
  have "shellSetterOutcome
      (FurRenderer_constructor\<lparr>fr_shellSpacing := Math_max (Num 0.001) (Num 0.01)\<rparr>)
      (FurRenderer_setShellSpacing (Num 0.01) FurRenderer_constructor)"
    by (rule setters_always_regenerate[where s = FurRenderer_constructor and c = "Num 0.01",
          THEN conjunct2, THEN conjunct1])
  then have 13: "FurRenderer_setShellSpacing (Num 0.01) FurRenderer_constructor
     = FurRenderer_constructor\<lparr>fr_shellSpacing := Num 0.01\<rparr>"
    by (simp add: shellSetterOutcome_def nomesh)
  have 4: "length (fr_shellMeshes quadAssembly) = 24"
    unfolding quad_fields by (rule quad_layers_length)
  show ?thesis
    by (intro conjI quad_guard 4 5 6 linear l2 l3 7 8 9 cubic 11 nomesh 13)
qed
end
